theory Spec2Isabelle
  imports Main "HOL-Library.Code_Target_Numeral"
begin

section \<open>Strings, numbers and query parameters of the platform\<close>

text \<open>
  A JavaScript string is modelled as an Isabelle \<open>string\<close>: a list of code units, each in the
  range U+0000 to U+00FF. A JavaScript number is a double; the model has the doubles that
  are integers (\<open>Integer i\<close>, where \<open>Integer 0\<close> is the positive zero), the negative zero, the
  two infinities and \<open>NaN\<close>. A fraction is not represented. Every integer up to \<open>2 ^ 53\<close> in
  magnitude is a double; a larger integer is one only when its 53 leading bits hold all its
  set bits.
\<close>

datatype number = NaN | Integer int | MinusZero | Infinity | MinusInfinity

definition digit_char :: "nat \<Rightarrow> char" where
  "digit_char d = ''0123456789'' ! d"

fun nat_to_decimal :: "nat \<Rightarrow> string" where
  "nat_to_decimal n =
     (if n < 10 then [digit_char n] else nat_to_decimal (n div 10) @ [digit_char (n mod 10)])"

declare nat_to_decimal.simps [simp del]

text \<open>\<open>String(b)\<close> for a boolean.\<close>

definition String_bool :: "bool \<Rightarrow> string" where
  "String_bool b = (if b then ''true'' else ''false'')"

definition is_digit :: "char \<Rightarrow> bool" where
  "is_digit c = (48 \<le> (of_char c :: nat) \<and> (of_char c :: nat) \<le> 57)"

definition digit_value :: "char \<Rightarrow> nat" where
  "digit_value c = of_char c - 48"

definition digits_value :: "string \<Rightarrow> nat" where
  "digits_value ds = foldl (\<lambda>acc c. 10 * acc + digit_value c) 0 ds"

text \<open>
  The white space that \<open>parseInt\<close> skips, among the code units of the model: tab, line feed,
  vertical tab, form feed, carriage return, space and no-break space.
\<close>

definition is_white_space :: "char \<Rightarrow> bool" where
  "is_white_space c = ((of_char c :: nat) \<in> {9, 10, 11, 12, 13, 32, 160})"

text \<open>
  The double nearest to a natural number, ties going to the double whose last bit is 0;
  \<open>None\<close> when the number is too large for a finite double, which makes it an infinity.
  A number of at most 53 bits is a double itself. A longer one keeps its 53 leading bits
  \<open>q\<close>, rounded by the bits \<open>r\<close> that are cut off.
\<close>

fun bit_length :: "nat \<Rightarrow> nat" where
  "bit_length n = (if n = 0 then 0 else Suc (bit_length (n div 2)))"

declare bit_length.simps [simp del]

definition round_to_double :: "nat \<Rightarrow> nat option" where
  "round_to_double n =
     (if bit_length n \<le> 53 then Some n
      else
        (let e = bit_length n - 53;
             q = n div 2 ^ e;
             r = n mod 2 ^ e;
             half = 2 ^ (e - 1);
             q' = (if half < r \<or> (r = half \<and> odd q) then q + 1 else q)
         in if 2 ^ 1024 \<le> q' * 2 ^ e then None else Some (q' * 2 ^ e)))"

text \<open>
  The numeral that \<open>String\<close> shows for a natural number that is a double: up to \<open>2 ^ 53\<close>
  the number itself; beyond, the number with the fewest digits before its final zeros that
  \<open>parseInt\<close> would read as the same double, and of two such numbers of \<open>k\<close> digits the one
  nearer to the double. The candidates of \<open>k\<close> digits are the two multiples of
  \<open>10 ^ (n - k)\<close> around the number, \<open>n\<close> being the count of its digits.
\<close>

definition shortest_numeral :: "nat \<Rightarrow> nat" where
  "shortest_numeral x =
     (let n = length (nat_to_decimal x);
          around = (\<lambda>k. let p = 10 ^ (n - k);
                            lo = (x div p) * p;
                            hi = lo + p
                        in if x - lo \<le> hi - x then [lo, hi] else [hi, lo])
      in case filter (\<lambda>v. round_to_double v = Some x) (concat (map around [1..<Suc n])) of
           [] \<Rightarrow> x
         | v # _ \<Rightarrow> v)"

text \<open>
  \<open>String(n)\<close> for a natural number that is a double: the decimal numeral while it has at
  most 21 digits, and otherwise its first digit, a point and the further digits up to the
  last one that is not zero, \<open>e+\<close> and the count of the digits after the first.
\<close>

definition String_nat :: "nat \<Rightarrow> string" where
  "String_nat x =
     (if x \<le> 2 ^ 53 then nat_to_decimal x
      else
        (let ds = nat_to_decimal (shortest_numeral x);
             s = rev (dropWhile (\<lambda>c. c = CHR ''0'') (rev ds))
         in if length ds \<le> 21 then ds
            else take 1 s @ (if length s \<le> 1 then [] else ''.'' @ drop 1 s) @
                 ''e+'' @ nat_to_decimal (length ds - 1)))"

text \<open>\<open>String(n)\<close> for a number.\<close>

definition String_number :: "number \<Rightarrow> string" where
  "String_number x =
     (case x of
        NaN \<Rightarrow> ''NaN''
      | Integer i \<Rightarrow> (if i < 0 then ''-'' @ String_nat (nat (- i)) else String_nat (nat i))
      | MinusZero \<Rightarrow> ''0''
      | Infinity \<Rightarrow> ''Infinity''
      | MinusInfinity \<Rightarrow> ''-Infinity'')"

text \<open>
  \<open>parseInt(input, 10)\<close>: leading white space is skipped, one sign is read, and the longest
  prefix of decimal digits is the value, as the double nearest to it; with no digit the
  result is \<open>NaN\<close>. (Beyond 20 digits the standard lets an engine read the later digits
  as zeros; V8, the engine of the platform, reads every digit, and so does the definition.)
\<close>

definition parseInt :: "string \<Rightarrow> number" where
  "parseInt input =
     (let s = dropWhile is_white_space input;
          negative = (s \<noteq> [] \<and> hd s = CHR ''-'');
          s' = (if s \<noteq> [] \<and> (hd s = CHR ''-'' \<or> hd s = CHR ''+'') then tl s else s);
          ds = takeWhile is_digit s'
      in if ds = [] then NaN
         else if digits_value ds = 0 then (if negative then MinusZero else Integer 0)
         else (case round_to_double (digits_value ds) of
                 None \<Rightarrow> if negative then MinusInfinity else Infinity
               | Some m \<Rightarrow> Integer (if negative then - int m else int m)))"

text \<open>\<open>Array.prototype.join\<close> on an array of strings.\<close>

fun join :: "string \<Rightarrow> string list \<Rightarrow> string" where
  "join sep [] = []"
| "join sep [x] = x"
| "join sep (x # y # ys) = x @ sep @ join sep (y # ys)"

text \<open>
  A \<open>URLSearchParams\<close> object is an ordered list of name/value pairs. \<open>set\<close> overwrites the
  first pair of that name and removes the others, or appends a new pair.
\<close>

type_synonym search_params = "(string \<times> string) list"

fun params_set :: "string \<Rightarrow> string \<Rightarrow> search_params \<Rightarrow> search_params" where
  "params_set k v [] = [(k, v)]"
| "params_set k v (p # ps) =
     (if fst p = k then (k, v) # filter (\<lambda>q. fst q \<noteq> k) ps else p # params_set k v ps)"

text \<open>
  The serialisation of a \<open>URLSearchParams\<close> object (its \<open>toString\<close>): every code unit is
  encoded in UTF-8; letters, digits and \<open>* - . _\<close> stay, a space becomes \<open>+\<close>, and every other
  byte is written as \<open>%\<close> and two upper-case hexadecimal digits.
\<close>

definition hex_char :: "nat \<Rightarrow> char" where
  "hex_char d = ''0123456789ABCDEF'' ! d"

definition percent_byte :: "nat \<Rightarrow> string" where
  "percent_byte b = [CHR ''%'', hex_char (b div 16), hex_char (b mod 16)]"

definition is_alnum :: "char \<Rightarrow> bool" where
  "is_alnum c =
     (let n = (of_char c :: nat)
      in (48 \<le> n \<and> n \<le> 57) \<or> (65 \<le> n \<and> n \<le> 90) \<or> (97 \<le> n \<and> n \<le> 122))"

definition form_encode_char :: "char \<Rightarrow> string" where
  "form_encode_char c =
     (let n = (of_char c :: nat)
      in if c = CHR '' '' then ''+''
         else if is_alnum c \<or> c \<in> set ''*-._'' then [c]
         else if n < 128 then percent_byte n
         else percent_byte (192 + n div 64) @ percent_byte (128 + n mod 64))"

definition form_encode :: "string \<Rightarrow> string" where
  "form_encode s = concat (map form_encode_char s)"

definition params_toString :: "search_params \<Rightarrow> string" where
  "params_toString ps = join ''&'' (map (\<lambda>p. form_encode (fst p) @ ''='' @ form_encode (snd p)) ps)"

subsection \<open>The parameters that a URL carries\<close>

text \<open>
  \<open>fetch\<close> is called with the URL alone, and what reaches the upstream system is what the
  URL parser of the platform reads in it. The parser drops the C0 control characters and
  spaces at both ends of the text and every tab, line feed and carriage return inside it.
  The text after the first \<open>#\<close> is the fragment, which is not sent. The query is the text after
  the first \<open>?\<close> that comes before the fragment (the URLs of this client begin with
  \<open>https://api.trello.com/1\<close>, so that this \<open>?\<close> ends the path).
\<close>

definition is_c0_or_space :: "char \<Rightarrow> bool" where
  "is_c0_or_space c = ((of_char c :: nat) \<le> 32)"

definition is_tab_or_newline :: "char \<Rightarrow> bool" where
  "is_tab_or_newline c = ((of_char c :: nat) \<in> {9, 10, 13})"

definition url_input :: "string \<Rightarrow> string" where
  "url_input u =
     filter (\<lambda>c. \<not> is_tab_or_newline c)
       (rev (dropWhile is_c0_or_space (rev (dropWhile is_c0_or_space u))))"

definition url_query :: "string \<Rightarrow> string" where
  "url_query u =
     drop 1 (dropWhile (\<lambda>c. c \<noteq> CHR ''?'') (takeWhile (\<lambda>c. c \<noteq> CHR ''#'') (url_input u)))"

text \<open>\<open>String.prototype.split\<close> at a separator of one code unit.\<close>

fun split_on :: "char \<Rightarrow> string \<Rightarrow> string list" where
  "split_on sep [] = [[]]"
| "split_on sep (c # cs) =
     (if c = sep then [] # split_on sep cs
      else (case split_on sep cs of [] \<Rightarrow> [[c]] | p # ps \<Rightarrow> (c # p) # ps))"

text \<open>
  The UTF-8 bytes of a string. A name or a value on the wire is a string of bytes, each
  byte a code unit of the model.
\<close>

definition utf8_char :: "char \<Rightarrow> string" where
  "utf8_char c =
     (let n = (of_char c :: nat)
      in if n < 128 then [c] else [char_of (192 + n div 64), char_of (128 + n mod 64)])"

definition utf8 :: "string \<Rightarrow> string" where
  "utf8 s = concat (map utf8_char s)"

definition is_hex :: "char \<Rightarrow> bool" where
  "is_hex c =
     (let n = (of_char c :: nat)
      in (48 \<le> n \<and> n \<le> 57) \<or> (65 \<le> n \<and> n \<le> 70) \<or> (97 \<le> n \<and> n \<le> 102))"

definition hex_value :: "char \<Rightarrow> nat" where
  "hex_value c =
     (let n = (of_char c :: nat)
      in if n \<le> 57 then n - 48 else if n \<le> 70 then n - 55 else n - 87)"

text \<open>
  The bytes of a name or a value of the query, as the form decoding of the platform reads
  them: \<open>+\<close> is a space, \<open>%\<close> with two hexadecimal digits is the byte they denote, and any
  other code unit stands for its UTF-8 bytes (the URL parser percent-encodes what is not
  ASCII, and the decoding undoes it).
\<close>

fun form_decode :: "string \<Rightarrow> string" where
  "form_decode [] = []"
| "form_decode (c # cs) =
     (if c = CHR ''%'' \<and> 2 \<le> length cs \<and> is_hex (cs ! 0) \<and> is_hex (cs ! 1)
      then char_of (16 * hex_value (cs ! 0) + hex_value (cs ! 1)) # form_decode (drop 2 cs)
      else if c = CHR ''+'' then CHR '' '' # form_decode cs
      else utf8_char c @ form_decode cs)"

declare form_decode.simps [simp del]

text \<open>
  The parameters of a URL, in order: the query is split at every \<open>&\<close>, an empty piece counts
  for nothing, the name of a piece is what comes before its first \<open>=\<close> and the value what
  comes after it.
\<close>

definition url_params :: "string \<Rightarrow> search_params" where
  "url_params u =
     map (\<lambda>piece. (form_decode (takeWhile (\<lambda>c. c \<noteq> CHR ''='') piece),
                   form_decode (drop 1 (dropWhile (\<lambda>c. c \<noteq> CHR ''='') piece))))
       (filter (\<lambda>piece. piece \<noteq> []) (split_on CHR ''&'' (url_query u)))"

text \<open>
  The identifiers that a method writes into the path of a URL are not encoded. The URL that
  \<open>request\<close> builds has one \<open>?\<close>, the one that \<open>request\<close> writes, exactly when the path brings
  none of its own.
\<close>

definition single_query :: "string \<Rightarrow> bool" where
  "single_query u = (count_list u CHR ''?'' = 1)"

section \<open>The remote operation client: transport\<close>

subsection \<open>Errors\<close>

text \<open>
  The failures a client operation can end in. \<open>RateLimitError\<close>, \<open>AuthenticationError\<close> and
  \<open>ApiError\<close> are raised by the request helper with the arguments shown in \<open>client.ts\<close>;
  \<open>TypeError\<close> and \<open>SyntaxError\<close> are the platform's own (a rejected \<open>fetch\<close>, a property
  read on \<open>undefined\<close>, a body that is not JSON).
\<close>

datatype client_error =
    RateLimitError string number
  | AuthenticationError string
  | ApiError string nat
  | TypeError string
  | SyntaxError string

text \<open>
  Modelled from the spec: the error classes of \<open>utils/errors.ts\<close>, which the client imports and
  which are not part of the sources at hand. The spec's taxonomy: an authentication failure is
  not retryable, a rate-limit error is retryable and carries the retry-after duration, a generic
  API error carries the status code and is retryable only for the 5xx class, and anything else
  is a generic error. The message given to the constructor is the error's \<open>message\<close>.
\<close>

definition retryable :: "client_error \<Rightarrow> bool" where
  "retryable e =
     (case e of
        RateLimitError _ _ \<Rightarrow> True
      | AuthenticationError _ \<Rightarrow> False
      | ApiError _ st \<Rightarrow> 500 \<le> st \<and> st \<le> 599
      | TypeError _ \<Rightarrow> False
      | SyntaxError _ \<Rightarrow> False)"

definition error_message :: "client_error \<Rightarrow> string" where
  "error_message e =
     (case e of
        RateLimitError m _ \<Rightarrow> m
      | AuthenticationError m \<Rightarrow> m
      | ApiError m _ \<Rightarrow> m
      | TypeError m \<Rightarrow> m
      | SyntaxError m \<Rightarrow> m)"

subsection \<open>Requests and responses\<close>

text \<open>A parsed JSON value; an object keeps its members in order, each key once.\<close>

datatype json =
    JNull
  | JBool bool
  | JNumber number
  | JString string
  | JArray "json list"
  | JObject "(string \<times> json) list"

record credentials =
  apiKey :: string
  token :: string

text \<open>
  The \<open>RequestInit\<close> options a method hands to the request helper; a field that the object
  literal does not mention is \<open>None\<close>.
\<close>

record request_init =
  init_method :: "string option"
  init_body :: "string option"
  init_headers :: "(string \<times> string) list option"

text \<open>
  What \<open>fetch\<close> is called with. \<open>req_query\<close> is the \<open>URLSearchParams\<close> object whose
  serialisation is the query string of \<open>req_url\<close>.
\<close>

record http_request =
  req_url :: string
  req_query :: search_params
  req_method :: "string option"
  req_body :: "string option"
  req_headers :: "(string \<times> string) list"

text \<open>
  The upstream response: its status, its \<open>headers.get\<close> and the body that \<open>text()\<close> yields.
\<close>

record http_response =
  status :: nat
  headers_get :: "string \<Rightarrow> string option"
  body_text :: string

datatype fetch_result = Rejected string | Responded http_response

text \<open>
  The platform the client runs on: \<open>fetch\<close> (which may reject instead of answering),
  \<open>JSON.parse\<close> (\<open>Inl\<close> when it throws, with the message) and \<open>JSON.stringify\<close>.
\<close>

record platform =
  fetch :: "http_request \<Rightarrow> fetch_result"
  JSON_parse :: "string \<Rightarrow> string + json"
  JSON_stringify :: "json \<Rightarrow> string"

text \<open>
  A value found in a \<open>Record<string, string>\<close> at run time: the helper checks for
  \<open>undefined\<close> and \<open>null\<close> next to the strings the type promises.
\<close>

datatype param_value = PUndefined | PNull | PString string

definition param_string :: "param_value \<Rightarrow> string" where
  "param_string v = (case v of PUndefined \<Rightarrow> ''undefined'' | PNull \<Rightarrow> ''null'' | PString s \<Rightarrow> s)"

type_synonym record_params = "(string \<times> param_value) list"

text \<open>Assignment to a property of an object: an existing key keeps its place.\<close>

fun prop_assign :: "string \<Rightarrow> 'v \<Rightarrow> (string \<times> 'v) list \<Rightarrow> (string \<times> 'v) list" where
  "prop_assign k v [] = [(k, v)]"
| "prop_assign k v (p # ps) = (if fst p = k then (k, v) # ps else p # prop_assign k v ps)"

definition API_BASE_URL :: string where
  "API_BASE_URL = ''https://api.trello.com/1''"

definition getAuthParams :: "credentials \<Rightarrow> search_params" where
  "getAuthParams c = [(''key'', apiKey c), (''token'', token c)]"

text \<open>The body of the \<open>forEach\<close> over \<open>Object.entries(extraParams)\<close>.\<close>

definition add_entry :: "string \<times> param_value \<Rightarrow> search_params \<Rightarrow> search_params" where
  "add_entry kv params =
     (if snd kv \<noteq> PUndefined \<and> snd kv \<noteq> PNull \<and> snd kv \<noteq> PString []
      then params_set (fst kv) (param_string (snd kv)) params
      else params)"

definition request_params :: "credentials \<Rightarrow> record_params option \<Rightarrow> search_params" where
  "request_params c extraParams =
     (case extraParams of
        None \<Rightarrow> getAuthParams c
      | Some entries \<Rightarrow> fold add_entry entries (getAuthParams c))"

text \<open>The first half of \<open>request\<close>: the call of \<open>fetch\<close> it prepares.\<close>

definition build_request ::
  "credentials \<Rightarrow> string \<Rightarrow> request_init \<Rightarrow> record_params option \<Rightarrow> http_request" where
  "build_request c endpoint options extraParams =
     (let params = request_params c extraParams
      in \<lparr> req_url = API_BASE_URL @ endpoint @ ''?'' @ params_toString params,
           req_query = params,
           req_method = init_method options,
           req_body = init_body options,
           req_headers =
             fold (\<lambda>h hs. prop_assign (fst h) (snd h) hs)
               (case init_headers options of None \<Rightarrow> [] | Some hs \<Rightarrow> hs)
               [(''Content-Type'', ''application/json'')] \<rparr>)"

definition ok :: "http_response \<Rightarrow> bool" where
  "ok r = (200 \<le> status r \<and> status r \<le> 299)"

text \<open>The second half of \<open>request\<close>: the classification of the response.\<close>

definition handle_response :: "platform \<Rightarrow> http_response \<Rightarrow> client_error + json option" where
  "handle_response env response =
     (if status response = 429 then
        Inl (RateLimitError ''Rate limit exceeded''
              (case headers_get response ''Retry-After'' of
                 None \<Rightarrow> Integer 60
               | Some retryAfter \<Rightarrow> if retryAfter \<noteq> [] then parseInt retryAfter else Integer 60))
      else if status response = 401 then
        Inl (AuthenticationError ''Invalid API key or token'')
      else if \<not> ok response then
        Inl (ApiError (''Trello API error: '' @ body_text response) (status response))
      else if body_text response = [] then Inr None
      else (case JSON_parse env (body_text response) of
              Inl msg \<Rightarrow> Inl (SyntaxError msg)
            | Inr v \<Rightarrow> Inr (Some v)))"

text \<open>
  A call of a client method yields the request it put on the wire and what it returned or
  threw.
\<close>

type_synonym 'a call = "http_request \<times> (client_error + 'a)"

definition request ::
  "platform \<Rightarrow> credentials \<Rightarrow> string \<Rightarrow> request_init \<Rightarrow> record_params option \<Rightarrow> json option call" where
  "request env c endpoint options extraParams =
     (let req = build_request c endpoint options extraParams
      in (req, case fetch env req of
                 Rejected msg \<Rightarrow> Inl (TypeError msg)
               | Responded response \<Rightarrow> handle_response env response))"

section \<open>The remote operation client: inputs\<close>

text \<open>
  The input interfaces of \<open>types/entities.ts\<close>. An optional field \<open>f?: T\<close> is \<open>T option\<close>,
  with \<open>None\<close> for a field the caller left out (\<open>undefined\<close>); a field of type \<open>T | null\<close> is
  \<open>T nullable\<close>. A field whose type is a union of string literals is a string. Field names
  carry a prefix for their interface, since several interfaces share names.
\<close>

datatype 'a nullable = Null | Value 'a

text \<open>A position argument: \<open>'top' | 'bottom' | number\<close>.\<close>

datatype position = Top | Bottom | Rank number

definition String_position :: "position \<Rightarrow> string" where
  "String_position p = (case p of Top \<Rightarrow> ''top'' | Bottom \<Rightarrow> ''bottom'' | Rank n \<Rightarrow> String_number n)"

text \<open>The status filter of the listing operations: \<open>'all' | 'open' | 'closed'\<close>.\<close>

datatype status_filter = All | Open | Closed

definition filter_string :: "status_filter \<Rightarrow> string" where
  "filter_string f = (case f of All \<Rightarrow> ''all'' | Open \<Rightarrow> ''open'' | Closed \<Rightarrow> ''closed'')"

record board_create_input =
  bc_name :: string
  bc_desc :: "string option"
  bc_idOrganization :: "string option"
  bc_idBoardSource :: "string option"
  bc_keepFromSource :: "string option"
  bc_powerUps :: "string option"
  bc_prefs_permissionLevel :: "string option"
  bc_prefs_voting :: "string option"
  bc_prefs_comments :: "string option"
  bc_prefs_invitations :: "string option"
  bc_prefs_selfJoin :: "bool option"
  bc_prefs_cardCovers :: "bool option"
  bc_prefs_background :: "string option"
  bc_prefs_cardAging :: "string option"
  bc_defaultLabels :: "bool option"
  bc_defaultLists :: "bool option"

record board_update_input =
  bu_name :: "string option"
  bu_desc :: "string option"
  bu_closed :: "bool option"
  bu_subscribed :: "bool option"
  bu_idOrganization :: "string option"
  bu_prefs_permissionLevel :: "string option"
  bu_prefs_selfJoin :: "bool option"
  bu_prefs_cardCovers :: "bool option"
  bu_prefs_hideVotes :: "bool option"
  bu_prefs_invitations :: "string option"
  bu_prefs_voting :: "string option"
  bu_prefs_comments :: "string option"
  bu_prefs_background :: "string option"
  bu_prefs_cardAging :: "string option"
  bu_prefs_calendarFeedEnabled :: "bool option"
  bu_labelNames_green :: "string option"
  bu_labelNames_yellow :: "string option"
  bu_labelNames_orange :: "string option"
  bu_labelNames_red :: "string option"
  bu_labelNames_purple :: "string option"
  bu_labelNames_blue :: "string option"

record list_create_input =
  lc_name :: string
  lc_idBoard :: string
  lc_idListSource :: "string option"
  lc_pos :: "position option"

record list_update_input =
  lu_name :: "string option"
  lu_closed :: "bool option"
  lu_idBoard :: "string option"
  lu_pos :: "position option"
  lu_subscribed :: "bool option"

record card_create_input =
  cc_idList :: string
  cc_name :: string
  cc_desc :: "string option"
  cc_pos :: "position option"
  cc_due :: "string option"
  cc_start :: "string option"
  cc_dueComplete :: "bool option"
  cc_idMembers :: "string list option"
  cc_idLabels :: "string list option"
  cc_urlSource :: "string option"
  cc_fileSource :: "string option"
  cc_mimeType :: "string option"
  cc_idCardSource :: "string option"
  cc_keepFromSource :: "string option"
  cc_address :: "string option"
  cc_locationName :: "string option"
  cc_coordinates :: "string option"

record cover_input =
  cover_color :: "string nullable option"
  cover_brightness :: "string option"
  cover_size :: "string option"

record card_update_input =
  cu_name :: "string option"
  cu_desc :: "string option"
  cu_closed :: "bool option"
  cu_idList :: "string option"
  cu_idBoard :: "string option"
  cu_pos :: "position option"
  cu_due :: "string nullable option"
  cu_start :: "string nullable option"
  cu_dueComplete :: "bool option"
  cu_subscribed :: "bool option"
  cu_idMembers :: "string list option"
  cu_idLabels :: "string list option"
  cu_cover :: "cover_input option"

record attachment_create_input =
  ac_name :: "string option"
  ac_file :: "string option"
  ac_mimeType :: "string option"
  ac_url :: "string option"
  ac_setCover :: "bool option"

record label_create_input =
  lbc_name :: string
  lbc_color :: "string nullable"
  lbc_idBoard :: string

record label_update_input =
  lbu_name :: "string option"
  lbu_color :: "string nullable option"

record checklist_create_input =
  clc_idCard :: string
  clc_name :: "string option"
  clc_pos :: "position option"
  clc_idChecklistSource :: "string option"

record checkitem_create_input =
  cic_name :: string
  cic_pos :: "position option"
  cic_checked :: "bool option"
  cic_due :: "string option"
  cic_idMember :: "string option"

record checkitem_update_input =
  ciu_name :: "string option"
  ciu_state :: "string option"
  ciu_pos :: "position option"
  ciu_due :: "string nullable option"
  ciu_idMember :: "string nullable option"

record customfield_create_input =
  cfc_idModel :: string
  cfc_modelType :: string
  cfc_name :: string
  cfc_type :: string
  cfc_pos :: "position option"
  cfc_display_cardFront :: "bool option"

record customfield_update_input =
  cfu_name :: "string option"
  cfu_pos :: "position option"
  cfu_display_cardFront :: "bool option"

record organization_create_input =
  oc_displayName :: string
  oc_desc :: "string option"
  oc_name :: "string option"
  oc_website :: "string option"

record organization_update_input =
  ou_name :: "string option"
  ou_displayName :: "string option"
  ou_desc :: "string option"
  ou_website :: "string option"
  ou_prefs_permissionLevel :: "string option"
  ou_prefs_orgInviteRestrict :: "string option"
  ou_prefs_boardVisibilityRestrict_private :: "string option"
  ou_prefs_boardVisibilityRestrict_org :: "string option"
  ou_prefs_boardVisibilityRestrict_public :: "string option"

record webhook_create_input =
  wc_callbackURL :: string
  wc_idModel :: string
  wc_description :: "string option"
  wc_active :: "bool option"

record webhook_update_input =
  wu_description :: "string option"
  wu_callbackURL :: "string option"
  wu_idModel :: "string option"
  wu_active :: "bool option"

record search_options =
  so_idBoards :: "string list option"
  so_idOrganizations :: "string list option"
  so_modelTypes :: "string list option"
  so_cards_limit :: "number option"
  so_boards_limit :: "number option"
  so_partial :: "bool option"

section \<open>The remote operation client: methods\<close>

subsection \<open>Building the parameter object\<close>

text \<open>
  The methods fill a \<open>Record<string, string>\<close> by a sequence of guarded assignments. Each
  guard of the source has a counterpart here, named for its test.
\<close>

definition no_options :: request_init where
  "no_options = \<lparr> init_method = None, init_body = None, init_headers = None \<rparr>"

definition with_method :: "string \<Rightarrow> request_init" where
  "with_method m = \<lparr> init_method = Some m, init_body = None, init_headers = None \<rparr>"

definition with_method_body :: "string \<Rightarrow> string \<Rightarrow> request_init" where
  "with_method_body m b = \<lparr> init_method = Some m, init_body = Some b, init_headers = None \<rparr>"

text \<open>The statements of a method body, run in order on the object under construction.\<close>

definition statements :: "('a \<Rightarrow> 'a) list \<Rightarrow> 'a \<Rightarrow> 'a" where
  "statements steps init = fold (\<lambda>step. step) steps init"

text \<open>\<open>if (input.f) params.k = input.f\<close>, for a string \<open>f\<close>.\<close>

definition set_if_truthy :: "string \<Rightarrow> string option \<Rightarrow> record_params \<Rightarrow> record_params" where
  "set_if_truthy k v params =
     (case v of
        None \<Rightarrow> params
      | Some s \<Rightarrow> if s \<noteq> [] then prop_assign k (PString s) params else params)"

text \<open>\<open>if (input.f !== undefined) params.k = input.f\<close>, for a string \<open>f\<close>.\<close>

definition set_if_defined :: "string \<Rightarrow> string option \<Rightarrow> record_params \<Rightarrow> record_params" where
  "set_if_defined k v params =
     (case v of None \<Rightarrow> params | Some s \<Rightarrow> prop_assign k (PString s) params)"

text \<open>\<open>if (input.f !== undefined) params.k = conv(input.f)\<close>.\<close>

definition set_if_defined_as ::
  "string \<Rightarrow> ('a \<Rightarrow> string) \<Rightarrow> 'a option \<Rightarrow> record_params \<Rightarrow> record_params" where
  "set_if_defined_as k conv v params =
     (case v of None \<Rightarrow> params | Some x \<Rightarrow> prop_assign k (PString (conv x)) params)"

text \<open>\<open>if (input.f?.length) params.k = input.f.join(',')\<close>.\<close>

definition set_if_nonempty :: "string \<Rightarrow> string list option \<Rightarrow> record_params \<Rightarrow> record_params" where
  "set_if_nonempty k v params =
     (case v of
        None \<Rightarrow> params
      | Some xs \<Rightarrow> if length xs \<noteq> 0 then prop_assign k (PString (join '','' xs)) params else params)"

text \<open>\<open>if (options?.f) params.k = String(options.f)\<close>, for a number \<open>f\<close>.\<close>

definition set_if_nonzero :: "string \<Rightarrow> number option \<Rightarrow> record_params \<Rightarrow> record_params" where
  "set_if_nonzero k v params =
     (case v of
        None \<Rightarrow> params
      | Some n \<Rightarrow>
          if n \<noteq> NaN \<and> n \<noteq> Integer 0 \<and> n \<noteq> MinusZero
          then prop_assign k (PString (String_number n)) params
          else params)"

text \<open>\<open>x === null ? '' : x\<close> and \<open>x || ''\<close>.\<close>

definition null_to_empty :: "string nullable \<Rightarrow> string" where
  "null_to_empty x = (case x of Null \<Rightarrow> [] | Value s \<Rightarrow> s)"

definition or_empty :: "string nullable \<Rightarrow> string" where
  "or_empty x = (case x of Null \<Rightarrow> [] | Value s \<Rightarrow> if s \<noteq> [] then s else [])"

definition nullable_option :: "'a nullable \<Rightarrow> 'a option" where
  "nullable_option x = (case x of Null \<Rightarrow> None | Value v \<Rightarrow> Some v)"

text \<open>A method that awaits the helper and returns nothing.\<close>

definition returning_void :: "json option call \<Rightarrow> json option call" where
  "returning_void r = (fst r, case snd r of Inl e \<Rightarrow> Inl e | Inr _ \<Rightarrow> Inr None)"

subsection \<open>Members\<close>

definition getMe :: "platform \<Rightarrow> credentials \<Rightarrow> json option call" where
  "getMe env c = request env c ''/members/me'' no_options None"

definition getMember :: "platform \<Rightarrow> credentials \<Rightarrow> string \<Rightarrow> json option call" where
  "getMember env c idOrUsername = request env c (''/members/'' @ idOrUsername) no_options None"

definition getMemberBoards ::
  "platform \<Rightarrow> credentials \<Rightarrow> string \<Rightarrow> status_filter option \<Rightarrow> json option call" where
  "getMemberBoards env c idOrUsername filter_arg =
     (let filter = (case filter_arg of None \<Rightarrow> Open | Some f \<Rightarrow> f)
      in request env c (''/members/'' @ idOrUsername @ ''/boards'') no_options
           (Some [(''filter'', PString (filter_string filter))]))"

definition getMemberCards :: "platform \<Rightarrow> credentials \<Rightarrow> string \<Rightarrow> json option call" where
  "getMemberCards env c idOrUsername =
     request env c (''/members/'' @ idOrUsername @ ''/cards'') no_options None"

definition getMemberOrganizations :: "platform \<Rightarrow> credentials \<Rightarrow> string \<Rightarrow> json option call" where
  "getMemberOrganizations env c idOrUsername =
     request env c (''/members/'' @ idOrUsername @ ''/organizations'') no_options None"

subsection \<open>Connection\<close>

record connection =
  connected :: bool
  message :: string

text \<open>
  The string a template literal makes of a JSON value: an array joins its elements with
  commas, \<open>null\<close> elements being empty.
\<close>

fun template_string :: "json \<Rightarrow> string" where
  "template_string JNull = ''null''"
| "template_string (JBool b) = String_bool b"
| "template_string (JNumber n) = String_number n"
| "template_string (JString s) = s"
| "template_string (JArray xs) =
     join '','' (map (\<lambda>x. if x = JNull then [] else template_string x) xs)"
| "template_string (JObject members) = ''[object Object]''"

text \<open>
  \<open>${member.k}\<close> for the value the helper returned (\<open>None\<close> is \<open>undefined\<close>). Reading a
  property of \<open>undefined\<close> or \<open>null\<close> throws a \<open>TypeError\<close>, here with the message of the V8
  engine; a property that is missing reads as \<open>undefined\<close>.
\<close>

definition template_property :: "json option \<Rightarrow> string \<Rightarrow> client_error + string" where
  "template_property member k =
     (case member of
        None \<Rightarrow> Inl (TypeError (''Cannot read properties of undefined (reading '' @ [CHR 0x27] @ k @ [CHR 0x27] @ '')''))
      | Some JNull \<Rightarrow> Inl (TypeError (''Cannot read properties of null (reading '' @ [CHR 0x27] @ k @ [CHR 0x27] @ '')''))
      | Some (JObject members) \<Rightarrow>
          (case map_of members k of
             None \<Rightarrow> Inr ''undefined''
           | Some v \<Rightarrow> Inr (template_string v))
      | Some _ \<Rightarrow> Inr ''undefined'')"

definition testConnection :: "platform \<Rightarrow> credentials \<Rightarrow> connection call" where
  "testConnection env c =
     (let r = getMe env c;
          attempt =
            (case snd r of
               Inl e \<Rightarrow> Inl e
             | Inr member \<Rightarrow>
                 (case template_property member ''fullName'' of
                    Inl e \<Rightarrow> Inl e
                  | Inr fullName \<Rightarrow>
                      (case template_property member ''username'' of
                         Inl e \<Rightarrow> Inl e
                       | Inr username \<Rightarrow>
                           Inr \<lparr> connected = True,
                                 message = ''Connected as '' @ fullName @ '' (@'' @ username @ '')'' \<rparr>)))
      in (fst r, case attempt of
                   Inl error \<Rightarrow> Inr \<lparr> connected = False, message = error_message error \<rparr>
                 | Inr result \<Rightarrow> Inr result))"

subsection \<open>Boards\<close>

definition listBoards :: "platform \<Rightarrow> credentials \<Rightarrow> status_filter option \<Rightarrow> json option call" where
  "listBoards env c filter_arg =
     (let filter = (case filter_arg of None \<Rightarrow> Open | Some f \<Rightarrow> f)
      in getMemberBoards env c ''me'' (Some filter))"

definition getBoard :: "platform \<Rightarrow> credentials \<Rightarrow> string \<Rightarrow> json option call" where
  "getBoard env c boardId = request env c (''/boards/'' @ boardId) no_options None"

definition createBoard_params :: "board_create_input \<Rightarrow> record_params" where
  "createBoard_params input =
     statements
       [ set_if_truthy ''desc'' (bc_desc input),
         set_if_truthy ''idOrganization'' (bc_idOrganization input),
         set_if_truthy ''idBoardSource'' (bc_idBoardSource input),
         set_if_truthy ''keepFromSource'' (bc_keepFromSource input),
         set_if_truthy ''powerUps'' (bc_powerUps input),
         set_if_truthy ''prefs_permissionLevel'' (bc_prefs_permissionLevel input),
         set_if_truthy ''prefs_voting'' (bc_prefs_voting input),
         set_if_truthy ''prefs_comments'' (bc_prefs_comments input),
         set_if_truthy ''prefs_invitations'' (bc_prefs_invitations input),
         set_if_defined_as ''prefs_selfJoin'' String_bool (bc_prefs_selfJoin input),
         set_if_defined_as ''prefs_cardCovers'' String_bool (bc_prefs_cardCovers input),
         set_if_truthy ''prefs_background'' (bc_prefs_background input),
         set_if_truthy ''prefs_cardAging'' (bc_prefs_cardAging input),
         set_if_defined_as ''defaultLabels'' String_bool (bc_defaultLabels input),
         set_if_defined_as ''defaultLists'' String_bool (bc_defaultLists input) ]
       [(''name'', PString (bc_name input))]"

definition createBoard :: "platform \<Rightarrow> credentials \<Rightarrow> board_create_input \<Rightarrow> json option call" where
  "createBoard env c input =
     request env c ''/boards'' (with_method ''POST'') (Some (createBoard_params input))"

definition updateBoard_params :: "board_update_input \<Rightarrow> record_params" where
  "updateBoard_params input =
     statements
       [ set_if_truthy ''name'' (bu_name input),
         set_if_defined ''desc'' (bu_desc input),
         set_if_defined_as ''closed'' String_bool (bu_closed input),
         set_if_defined_as ''subscribed'' String_bool (bu_subscribed input),
         set_if_truthy ''idOrganization'' (bu_idOrganization input),
         set_if_truthy ''prefs/permissionLevel'' (bu_prefs_permissionLevel input),
         set_if_defined_as ''prefs/selfJoin'' String_bool (bu_prefs_selfJoin input),
         set_if_defined_as ''prefs/cardCovers'' String_bool (bu_prefs_cardCovers input),
         set_if_defined_as ''prefs/hideVotes'' String_bool (bu_prefs_hideVotes input),
         set_if_truthy ''prefs/invitations'' (bu_prefs_invitations input),
         set_if_truthy ''prefs/voting'' (bu_prefs_voting input),
         set_if_truthy ''prefs/comments'' (bu_prefs_comments input),
         set_if_truthy ''prefs/background'' (bu_prefs_background input),
         set_if_truthy ''prefs/cardAging'' (bu_prefs_cardAging input),
         set_if_defined_as ''prefs/calendarFeedEnabled'' String_bool (bu_prefs_calendarFeedEnabled input),
         set_if_truthy ''labelNames/green'' (bu_labelNames_green input),
         set_if_truthy ''labelNames/yellow'' (bu_labelNames_yellow input),
         set_if_truthy ''labelNames/orange'' (bu_labelNames_orange input),
         set_if_truthy ''labelNames/red'' (bu_labelNames_red input),
         set_if_truthy ''labelNames/purple'' (bu_labelNames_purple input),
         set_if_truthy ''labelNames/blue'' (bu_labelNames_blue input) ]
       []"

definition updateBoard ::
  "platform \<Rightarrow> credentials \<Rightarrow> string \<Rightarrow> board_update_input \<Rightarrow> json option call" where
  "updateBoard env c boardId input =
     request env c (''/boards/'' @ boardId) (with_method ''PUT'') (Some (updateBoard_params input))"

definition deleteBoard :: "platform \<Rightarrow> credentials \<Rightarrow> string \<Rightarrow> json option call" where
  "deleteBoard env c boardId =
     returning_void (request env c (''/boards/'' @ boardId) (with_method ''DELETE'') None)"

definition getBoardMembers :: "platform \<Rightarrow> credentials \<Rightarrow> string \<Rightarrow> json option call" where
  "getBoardMembers env c boardId =
     request env c (''/boards/'' @ boardId @ ''/members'') no_options None"

definition getBoardLists ::
  "platform \<Rightarrow> credentials \<Rightarrow> string \<Rightarrow> status_filter option \<Rightarrow> json option call" where
  "getBoardLists env c boardId filter_arg =
     (let filter = (case filter_arg of None \<Rightarrow> Open | Some f \<Rightarrow> f)
      in request env c (''/boards/'' @ boardId @ ''/lists'') no_options
           (Some [(''filter'', PString (filter_string filter))]))"

definition getBoardCards ::
  "platform \<Rightarrow> credentials \<Rightarrow> string \<Rightarrow> status_filter option \<Rightarrow> json option call" where
  "getBoardCards env c boardId filter_arg =
     (let filter = (case filter_arg of None \<Rightarrow> Open | Some f \<Rightarrow> f)
      in request env c (''/boards/'' @ boardId @ ''/cards'') no_options
           (Some [(''filter'', PString (filter_string filter))]))"

definition getBoardLabels :: "platform \<Rightarrow> credentials \<Rightarrow> string \<Rightarrow> json option call" where
  "getBoardLabels env c boardId =
     request env c (''/boards/'' @ boardId @ ''/labels'') no_options None"

definition getBoardActions ::
  "platform \<Rightarrow> credentials \<Rightarrow> string \<Rightarrow> number option \<Rightarrow> json option call" where
  "getBoardActions env c boardId limit_arg =
     (let limit = (case limit_arg of None \<Rightarrow> Integer 50 | Some n \<Rightarrow> n)
      in request env c (''/boards/'' @ boardId @ ''/actions'') no_options
           (Some [(''limit'', PString (String_number limit))]))"

definition getBoardChecklists :: "platform \<Rightarrow> credentials \<Rightarrow> string \<Rightarrow> json option call" where
  "getBoardChecklists env c boardId =
     request env c (''/boards/'' @ boardId @ ''/checklists'') no_options None"

definition getBoardCustomFields :: "platform \<Rightarrow> credentials \<Rightarrow> string \<Rightarrow> json option call" where
  "getBoardCustomFields env c boardId =
     request env c (''/boards/'' @ boardId @ ''/customFields'') no_options None"

definition addMemberToBoard ::
  "platform \<Rightarrow> credentials \<Rightarrow> string \<Rightarrow> string \<Rightarrow> string option \<Rightarrow> json option call" where
  "addMemberToBoard env c boardId memberId type_arg =
     (let type = (case type_arg of None \<Rightarrow> ''normal'' | Some t \<Rightarrow> t)
      in request env c (''/boards/'' @ boardId @ ''/members/'' @ memberId) (with_method ''PUT'')
           (Some [(''type'', PString type)]))"

definition removeMemberFromBoard ::
  "platform \<Rightarrow> credentials \<Rightarrow> string \<Rightarrow> string \<Rightarrow> json option call" where
  "removeMemberFromBoard env c boardId memberId =
     returning_void
       (request env c (''/boards/'' @ boardId @ ''/members/'' @ memberId) (with_method ''DELETE'') None)"

subsection \<open>Lists\<close>

definition getList :: "platform \<Rightarrow> credentials \<Rightarrow> string \<Rightarrow> json option call" where
  "getList env c listId = request env c (''/lists/'' @ listId) no_options None"

definition createList_params :: "list_create_input \<Rightarrow> record_params" where
  "createList_params input =
     statements
       [ set_if_truthy ''idListSource'' (lc_idListSource input),
         set_if_defined_as ''pos'' String_position (lc_pos input) ]
       [(''name'', PString (lc_name input)), (''idBoard'', PString (lc_idBoard input))]"

definition createList :: "platform \<Rightarrow> credentials \<Rightarrow> list_create_input \<Rightarrow> json option call" where
  "createList env c input =
     request env c ''/lists'' (with_method ''POST'') (Some (createList_params input))"

definition updateList_params :: "list_update_input \<Rightarrow> record_params" where
  "updateList_params input =
     statements
       [ set_if_truthy ''name'' (lu_name input),
         set_if_defined_as ''closed'' String_bool (lu_closed input),
         set_if_truthy ''idBoard'' (lu_idBoard input),
         set_if_defined_as ''pos'' String_position (lu_pos input),
         set_if_defined_as ''subscribed'' String_bool (lu_subscribed input) ]
       []"

definition updateList ::
  "platform \<Rightarrow> credentials \<Rightarrow> string \<Rightarrow> list_update_input \<Rightarrow> json option call" where
  "updateList env c listId input =
     request env c (''/lists/'' @ listId) (with_method ''PUT'') (Some (updateList_params input))"

text \<open>The object literal \<open>{}\<close> read as a list update: no field is mentioned.\<close>

definition no_list_update :: list_update_input where
  "no_list_update =
     \<lparr> lu_name = None, lu_closed = None, lu_idBoard = None, lu_pos = None, lu_subscribed = None \<rparr>"

definition archiveList :: "platform \<Rightarrow> credentials \<Rightarrow> string \<Rightarrow> json option call" where
  "archiveList env c listId = updateList env c listId (no_list_update \<lparr> lu_closed := Some True \<rparr>)"

definition unarchiveList :: "platform \<Rightarrow> credentials \<Rightarrow> string \<Rightarrow> json option call" where
  "unarchiveList env c listId = updateList env c listId (no_list_update \<lparr> lu_closed := Some False \<rparr>)"

definition getListCards ::
  "platform \<Rightarrow> credentials \<Rightarrow> string \<Rightarrow> status_filter option \<Rightarrow> json option call" where
  "getListCards env c listId filter_arg =
     (let filter = (case filter_arg of None \<Rightarrow> Open | Some f \<Rightarrow> f)
      in request env c (''/lists/'' @ listId @ ''/cards'') no_options
           (Some [(''filter'', PString (filter_string filter))]))"

definition archiveAllCardsInList :: "platform \<Rightarrow> credentials \<Rightarrow> string \<Rightarrow> json option call" where
  "archiveAllCardsInList env c listId =
     returning_void
       (request env c (''/lists/'' @ listId @ ''/archiveAllCards'') (with_method ''POST'') None)"

definition moveAllCardsInList ::
  "platform \<Rightarrow> credentials \<Rightarrow> string \<Rightarrow> string \<Rightarrow> string \<Rightarrow> json option call" where
  "moveAllCardsInList env c listId idBoard idList =
     returning_void
       (request env c (''/lists/'' @ listId @ ''/moveAllCards'') (with_method ''POST'')
          (Some [(''idBoard'', PString idBoard), (''idList'', PString idList)]))"

subsection \<open>Cards\<close>

definition getCard :: "platform \<Rightarrow> credentials \<Rightarrow> string \<Rightarrow> json option call" where
  "getCard env c cardId =
     request env c (''/cards/'' @ cardId) no_options
       (Some [(''checklists'', PString ''all''), (''attachments'', PString ''true'')])"

definition createCard_params :: "card_create_input \<Rightarrow> record_params" where
  "createCard_params input =
     statements
       [ set_if_truthy ''desc'' (cc_desc input),
         set_if_defined_as ''pos'' String_position (cc_pos input),
         set_if_truthy ''due'' (cc_due input),
         set_if_truthy ''start'' (cc_start input),
         set_if_defined_as ''dueComplete'' String_bool (cc_dueComplete input),
         set_if_nonempty ''idMembers'' (cc_idMembers input),
         set_if_nonempty ''idLabels'' (cc_idLabels input),
         set_if_truthy ''urlSource'' (cc_urlSource input),
         set_if_truthy ''idCardSource'' (cc_idCardSource input),
         set_if_truthy ''keepFromSource'' (cc_keepFromSource input),
         set_if_truthy ''address'' (cc_address input),
         set_if_truthy ''locationName'' (cc_locationName input),
         set_if_truthy ''coordinates'' (cc_coordinates input) ]
       [(''idList'', PString (cc_idList input)), (''name'', PString (cc_name input))]"

definition createCard :: "platform \<Rightarrow> credentials \<Rightarrow> card_create_input \<Rightarrow> json option call" where
  "createCard env c input =
     request env c ''/cards'' (with_method ''POST'') (Some (createCard_params input))"

definition updateCard_params :: "card_update_input \<Rightarrow> record_params" where
  "updateCard_params input =
     statements
       [ set_if_truthy ''name'' (cu_name input),
         set_if_defined ''desc'' (cu_desc input),
         set_if_defined_as ''closed'' String_bool (cu_closed input),
         set_if_truthy ''idList'' (cu_idList input),
         set_if_truthy ''idBoard'' (cu_idBoard input),
         set_if_defined_as ''pos'' String_position (cu_pos input),
         set_if_defined_as ''due'' null_to_empty (cu_due input),
         set_if_defined_as ''start'' null_to_empty (cu_start input),
         set_if_defined_as ''dueComplete'' String_bool (cu_dueComplete input),
         set_if_defined_as ''subscribed'' String_bool (cu_subscribed input) ]
       []"

definition updateCard ::
  "platform \<Rightarrow> credentials \<Rightarrow> string \<Rightarrow> card_update_input \<Rightarrow> json option call" where
  "updateCard env c cardId input =
     request env c (''/cards/'' @ cardId) (with_method ''PUT'') (Some (updateCard_params input))"

definition deleteCard :: "platform \<Rightarrow> credentials \<Rightarrow> string \<Rightarrow> json option call" where
  "deleteCard env c cardId =
     returning_void (request env c (''/cards/'' @ cardId) (with_method ''DELETE'') None)"

text \<open>The object literal \<open>{}\<close> read as a card update: no field is mentioned.\<close>

definition no_card_update :: card_update_input where
  "no_card_update =
     \<lparr> cu_name = None, cu_desc = None, cu_closed = None, cu_idList = None, cu_idBoard = None,
       cu_pos = None, cu_due = None, cu_start = None, cu_dueComplete = None,
       cu_subscribed = None, cu_idMembers = None, cu_idLabels = None, cu_cover = None \<rparr>"

definition archiveCard :: "platform \<Rightarrow> credentials \<Rightarrow> string \<Rightarrow> json option call" where
  "archiveCard env c cardId = updateCard env c cardId (no_card_update \<lparr> cu_closed := Some True \<rparr>)"

definition unarchiveCard :: "platform \<Rightarrow> credentials \<Rightarrow> string \<Rightarrow> json option call" where
  "unarchiveCard env c cardId = updateCard env c cardId (no_card_update \<lparr> cu_closed := Some False \<rparr>)"

definition moveCard ::
  "platform \<Rightarrow> credentials \<Rightarrow> string \<Rightarrow> string \<Rightarrow> string option \<Rightarrow> json option call" where
  "moveCard env c cardId idList idBoard =
     (let input0 = no_card_update \<lparr> cu_idList := Some idList \<rparr>;
          input =
            (case idBoard of
               None \<Rightarrow> input0
             | Some b \<Rightarrow> if b \<noteq> [] then input0 \<lparr> cu_idBoard := Some b \<rparr> else input0)
      in updateCard env c cardId input)"

definition getCardActions ::
  "platform \<Rightarrow> credentials \<Rightarrow> string \<Rightarrow> number option \<Rightarrow> json option call" where
  "getCardActions env c cardId limit_arg =
     (let limit = (case limit_arg of None \<Rightarrow> Integer 50 | Some n \<Rightarrow> n)
      in request env c (''/cards/'' @ cardId @ ''/actions'') no_options
           (Some [(''limit'', PString (String_number limit))]))"

definition getCardAttachments :: "platform \<Rightarrow> credentials \<Rightarrow> string \<Rightarrow> json option call" where
  "getCardAttachments env c cardId =
     request env c (''/cards/'' @ cardId @ ''/attachments'') no_options None"

definition addAttachmentToCard_params :: "attachment_create_input \<Rightarrow> record_params" where
  "addAttachmentToCard_params input =
     statements
       [ set_if_truthy ''name'' (ac_name input),
         set_if_truthy ''url'' (ac_url input),
         set_if_truthy ''mimeType'' (ac_mimeType input),
         set_if_defined_as ''setCover'' String_bool (ac_setCover input) ]
       []"

definition addAttachmentToCard ::
  "platform \<Rightarrow> credentials \<Rightarrow> string \<Rightarrow> attachment_create_input \<Rightarrow> json option call" where
  "addAttachmentToCard env c cardId input =
     request env c (''/cards/'' @ cardId @ ''/attachments'') (with_method ''POST'')
       (Some (addAttachmentToCard_params input))"

definition deleteAttachment ::
  "platform \<Rightarrow> credentials \<Rightarrow> string \<Rightarrow> string \<Rightarrow> json option call" where
  "deleteAttachment env c cardId attachmentId =
     returning_void
       (request env c (''/cards/'' @ cardId @ ''/attachments/'' @ attachmentId)
          (with_method ''DELETE'') None)"

definition getCardChecklists :: "platform \<Rightarrow> credentials \<Rightarrow> string \<Rightarrow> json option call" where
  "getCardChecklists env c cardId =
     request env c (''/cards/'' @ cardId @ ''/checklists'') no_options None"

definition addCommentToCard ::
  "platform \<Rightarrow> credentials \<Rightarrow> string \<Rightarrow> string \<Rightarrow> json option call" where
  "addCommentToCard env c cardId text =
     request env c (''/cards/'' @ cardId @ ''/actions/comments'') (with_method ''POST'')
       (Some [(''text'', PString text)])"

definition getCardComments :: "platform \<Rightarrow> credentials \<Rightarrow> string \<Rightarrow> json option call" where
  "getCardComments env c cardId =
     request env c (''/cards/'' @ cardId @ ''/actions'') no_options
       (Some [(''filter'', PString ''commentCard'')])"

definition updateComment ::
  "platform \<Rightarrow> credentials \<Rightarrow> string \<Rightarrow> string \<Rightarrow> string \<Rightarrow> json option call" where
  "updateComment env c cardId actionId text =
     request env c (''/cards/'' @ cardId @ ''/actions/'' @ actionId @ ''/comments'')
       (with_method ''PUT'') (Some [(''text'', PString text)])"

definition deleteComment ::
  "platform \<Rightarrow> credentials \<Rightarrow> string \<Rightarrow> string \<Rightarrow> json option call" where
  "deleteComment env c cardId actionId =
     returning_void
       (request env c (''/cards/'' @ cardId @ ''/actions/'' @ actionId @ ''/comments'')
          (with_method ''DELETE'') None)"

definition addLabelToCard ::
  "platform \<Rightarrow> credentials \<Rightarrow> string \<Rightarrow> string \<Rightarrow> json option call" where
  "addLabelToCard env c cardId labelId =
     returning_void
       (request env c (''/cards/'' @ cardId @ ''/idLabels'') (with_method ''POST'')
          (Some [(''value'', PString labelId)]))"

definition removeLabelFromCard ::
  "platform \<Rightarrow> credentials \<Rightarrow> string \<Rightarrow> string \<Rightarrow> json option call" where
  "removeLabelFromCard env c cardId labelId =
     returning_void
       (request env c (''/cards/'' @ cardId @ ''/idLabels/'' @ labelId) (with_method ''DELETE'') None)"

definition addMemberToCard ::
  "platform \<Rightarrow> credentials \<Rightarrow> string \<Rightarrow> string \<Rightarrow> json option call" where
  "addMemberToCard env c cardId memberId =
     returning_void
       (request env c (''/cards/'' @ cardId @ ''/idMembers'') (with_method ''POST'')
          (Some [(''value'', PString memberId)]))"

definition removeMemberFromCard ::
  "platform \<Rightarrow> credentials \<Rightarrow> string \<Rightarrow> string \<Rightarrow> json option call" where
  "removeMemberFromCard env c cardId memberId =
     returning_void
       (request env c (''/cards/'' @ cardId @ ''/idMembers/'' @ memberId) (with_method ''DELETE'') None)"

definition getCardCustomFieldItems :: "platform \<Rightarrow> credentials \<Rightarrow> string \<Rightarrow> json option call" where
  "getCardCustomFieldItems env c cardId =
     request env c (''/cards/'' @ cardId @ ''/customFieldItems'') no_options None"

definition setCardCustomFieldValue ::
  "platform \<Rightarrow> credentials \<Rightarrow> string \<Rightarrow> string \<Rightarrow> json \<Rightarrow> json option call" where
  "setCardCustomFieldValue env c cardId customFieldId v =
     returning_void
       (request env c (''/cards/'' @ cardId @ ''/customField/'' @ customFieldId @ ''/item'')
          (with_method_body ''PUT'' (JSON_stringify env v)) None)"

subsection \<open>Labels\<close>

definition getLabel :: "platform \<Rightarrow> credentials \<Rightarrow> string \<Rightarrow> json option call" where
  "getLabel env c labelId = request env c (''/labels/'' @ labelId) no_options None"

definition createLabel_params :: "label_create_input \<Rightarrow> record_params" where
  "createLabel_params input =
     statements
       [ set_if_truthy ''color'' (nullable_option (lbc_color input)) ]
       [(''name'', PString (lbc_name input)), (''idBoard'', PString (lbc_idBoard input))]"

definition createLabel :: "platform \<Rightarrow> credentials \<Rightarrow> label_create_input \<Rightarrow> json option call" where
  "createLabel env c input =
     request env c ''/labels'' (with_method ''POST'') (Some (createLabel_params input))"

definition updateLabel_params :: "label_update_input \<Rightarrow> record_params" where
  "updateLabel_params input =
     statements
       [ set_if_defined ''name'' (lbu_name input),
         set_if_defined_as ''color'' or_empty (lbu_color input) ]
       []"

definition updateLabel ::
  "platform \<Rightarrow> credentials \<Rightarrow> string \<Rightarrow> label_update_input \<Rightarrow> json option call" where
  "updateLabel env c labelId input =
     request env c (''/labels/'' @ labelId) (with_method ''PUT'') (Some (updateLabel_params input))"

definition deleteLabel :: "platform \<Rightarrow> credentials \<Rightarrow> string \<Rightarrow> json option call" where
  "deleteLabel env c labelId =
     returning_void (request env c (''/labels/'' @ labelId) (with_method ''DELETE'') None)"

subsection \<open>Checklists\<close>

definition getChecklist :: "platform \<Rightarrow> credentials \<Rightarrow> string \<Rightarrow> json option call" where
  "getChecklist env c checklistId =
     request env c (''/checklists/'' @ checklistId) no_options
       (Some [(''checkItems'', PString ''all'')])"

definition createChecklist_params :: "checklist_create_input \<Rightarrow> record_params" where
  "createChecklist_params input =
     statements
       [ set_if_truthy ''name'' (clc_name input),
         set_if_defined_as ''pos'' String_position (clc_pos input),
         set_if_truthy ''idChecklistSource'' (clc_idChecklistSource input) ]
       [(''idCard'', PString (clc_idCard input))]"

definition createChecklist ::
  "platform \<Rightarrow> credentials \<Rightarrow> checklist_create_input \<Rightarrow> json option call" where
  "createChecklist env c input =
     request env c ''/checklists'' (with_method ''POST'') (Some (createChecklist_params input))"

definition updateChecklist ::
  "platform \<Rightarrow> credentials \<Rightarrow> string \<Rightarrow> string \<Rightarrow> json option call" where
  "updateChecklist env c checklistId name =
     request env c (''/checklists/'' @ checklistId) (with_method ''PUT'')
       (Some [(''name'', PString name)])"

definition deleteChecklist :: "platform \<Rightarrow> credentials \<Rightarrow> string \<Rightarrow> json option call" where
  "deleteChecklist env c checklistId =
     returning_void (request env c (''/checklists/'' @ checklistId) (with_method ''DELETE'') None)"

definition getCheckItems :: "platform \<Rightarrow> credentials \<Rightarrow> string \<Rightarrow> json option call" where
  "getCheckItems env c checklistId =
     request env c (''/checklists/'' @ checklistId @ ''/checkItems'') no_options None"

definition createCheckItem_params :: "checkitem_create_input \<Rightarrow> record_params" where
  "createCheckItem_params input =
     statements
       [ set_if_defined_as ''pos'' String_position (cic_pos input),
         set_if_defined_as ''checked'' String_bool (cic_checked input),
         set_if_truthy ''due'' (cic_due input),
         set_if_truthy ''idMember'' (cic_idMember input) ]
       [(''name'', PString (cic_name input))]"

definition createCheckItem ::
  "platform \<Rightarrow> credentials \<Rightarrow> string \<Rightarrow> checkitem_create_input \<Rightarrow> json option call" where
  "createCheckItem env c checklistId input =
     request env c (''/checklists/'' @ checklistId @ ''/checkItems'') (with_method ''POST'')
       (Some (createCheckItem_params input))"

definition updateCheckItem_params :: "checkitem_update_input \<Rightarrow> record_params" where
  "updateCheckItem_params input =
     statements
       [ set_if_truthy ''name'' (ciu_name input),
         set_if_truthy ''state'' (ciu_state input),
         set_if_defined_as ''pos'' String_position (ciu_pos input),
         set_if_defined_as ''due'' null_to_empty (ciu_due input),
         set_if_defined_as ''idMember'' null_to_empty (ciu_idMember input) ]
       []"

definition updateCheckItem ::
  "platform \<Rightarrow> credentials \<Rightarrow> string \<Rightarrow> string \<Rightarrow> checkitem_update_input \<Rightarrow> json option call" where
  "updateCheckItem env c cardId checkItemId input =
     request env c (''/cards/'' @ cardId @ ''/checkItem/'' @ checkItemId) (with_method ''PUT'')
       (Some (updateCheckItem_params input))"

definition deleteCheckItem ::
  "platform \<Rightarrow> credentials \<Rightarrow> string \<Rightarrow> string \<Rightarrow> json option call" where
  "deleteCheckItem env c checklistId checkItemId =
     returning_void
       (request env c (''/checklists/'' @ checklistId @ ''/checkItems/'' @ checkItemId)
          (with_method ''DELETE'') None)"

subsection \<open>Custom fields\<close>

definition getCustomField :: "platform \<Rightarrow> credentials \<Rightarrow> string \<Rightarrow> json option call" where
  "getCustomField env c customFieldId =
     request env c (''/customFields/'' @ customFieldId) no_options None"

definition createCustomField_params :: "customfield_create_input \<Rightarrow> record_params" where
  "createCustomField_params input =
     statements
       [ set_if_defined_as ''pos'' String_position (cfc_pos input),
         set_if_defined_as ''display_cardFront'' String_bool (cfc_display_cardFront input) ]
       [(''idModel'', PString (cfc_idModel input)), (''modelType'', PString (cfc_modelType input)),
        (''name'', PString (cfc_name input)), (''type'', PString (cfc_type input))]"

definition createCustomField ::
  "platform \<Rightarrow> credentials \<Rightarrow> customfield_create_input \<Rightarrow> json option call" where
  "createCustomField env c input =
     request env c ''/customFields'' (with_method ''POST'') (Some (createCustomField_params input))"

definition updateCustomField_params :: "customfield_update_input \<Rightarrow> record_params" where
  "updateCustomField_params input =
     statements
       [ set_if_truthy ''name'' (cfu_name input),
         set_if_defined_as ''pos'' String_position (cfu_pos input),
         set_if_defined_as ''display/cardFront'' String_bool (cfu_display_cardFront input) ]
       []"

definition updateCustomField ::
  "platform \<Rightarrow> credentials \<Rightarrow> string \<Rightarrow> customfield_update_input \<Rightarrow> json option call" where
  "updateCustomField env c customFieldId input =
     request env c (''/customFields/'' @ customFieldId) (with_method ''PUT'')
       (Some (updateCustomField_params input))"

definition deleteCustomField :: "platform \<Rightarrow> credentials \<Rightarrow> string \<Rightarrow> json option call" where
  "deleteCustomField env c customFieldId =
     returning_void
       (request env c (''/customFields/'' @ customFieldId) (with_method ''DELETE'') None)"

definition getCustomFieldOptions :: "platform \<Rightarrow> credentials \<Rightarrow> string \<Rightarrow> json option call" where
  "getCustomFieldOptions env c customFieldId =
     request env c (''/customFields/'' @ customFieldId @ ''/options'') no_options None"

definition addCustomFieldOption_body :: "string \<Rightarrow> string option \<Rightarrow> (string \<times> json) list" where
  "addCustomFieldOption_body v color =
     (let body = [(''value'', JObject [(''text'', JString v)])]
      in case color of
           None \<Rightarrow> body
         | Some col \<Rightarrow> if col \<noteq> [] then prop_assign ''color'' (JString col) body else body)"

definition addCustomFieldOption ::
  "platform \<Rightarrow> credentials \<Rightarrow> string \<Rightarrow> string \<Rightarrow> string option \<Rightarrow> json option call" where
  "addCustomFieldOption env c customFieldId v color =
     request env c (''/customFields/'' @ customFieldId @ ''/options'')
       (with_method_body ''POST'' (JSON_stringify env (JObject (addCustomFieldOption_body v color))))
       None"

definition deleteCustomFieldOption ::
  "platform \<Rightarrow> credentials \<Rightarrow> string \<Rightarrow> string \<Rightarrow> json option call" where
  "deleteCustomFieldOption env c customFieldId optionId =
     returning_void
       (request env c (''/customFields/'' @ customFieldId @ ''/options/'' @ optionId)
          (with_method ''DELETE'') None)"

subsection \<open>Organizations\<close>

definition getOrganization :: "platform \<Rightarrow> credentials \<Rightarrow> string \<Rightarrow> json option call" where
  "getOrganization env c orgId = request env c (''/organizations/'' @ orgId) no_options None"

definition createOrganization_params :: "organization_create_input \<Rightarrow> record_params" where
  "createOrganization_params input =
     statements
       [ set_if_truthy ''desc'' (oc_desc input),
         set_if_truthy ''name'' (oc_name input),
         set_if_truthy ''website'' (oc_website input) ]
       [(''displayName'', PString (oc_displayName input))]"

definition createOrganization ::
  "platform \<Rightarrow> credentials \<Rightarrow> organization_create_input \<Rightarrow> json option call" where
  "createOrganization env c input =
     request env c ''/organizations'' (with_method ''POST'') (Some (createOrganization_params input))"

definition updateOrganization_params :: "organization_update_input \<Rightarrow> record_params" where
  "updateOrganization_params input =
     statements
       [ set_if_truthy ''name'' (ou_name input),
         set_if_truthy ''displayName'' (ou_displayName input),
         set_if_defined ''desc'' (ou_desc input),
         set_if_defined_as ''website'' (\<lambda>w. if w \<noteq> [] then w else []) (ou_website input),
         set_if_truthy ''prefs/permissionLevel'' (ou_prefs_permissionLevel input),
         set_if_truthy ''prefs/orgInviteRestrict'' (ou_prefs_orgInviteRestrict input),
         set_if_truthy ''prefs/boardVisibilityRestrict/private''
           (ou_prefs_boardVisibilityRestrict_private input),
         set_if_truthy ''prefs/boardVisibilityRestrict/org''
           (ou_prefs_boardVisibilityRestrict_org input),
         set_if_truthy ''prefs/boardVisibilityRestrict/public''
           (ou_prefs_boardVisibilityRestrict_public input) ]
       []"

definition updateOrganization ::
  "platform \<Rightarrow> credentials \<Rightarrow> string \<Rightarrow> organization_update_input \<Rightarrow> json option call" where
  "updateOrganization env c orgId input =
     request env c (''/organizations/'' @ orgId) (with_method ''PUT'')
       (Some (updateOrganization_params input))"

definition deleteOrganization :: "platform \<Rightarrow> credentials \<Rightarrow> string \<Rightarrow> json option call" where
  "deleteOrganization env c orgId =
     returning_void (request env c (''/organizations/'' @ orgId) (with_method ''DELETE'') None)"

definition getOrganizationMembers :: "platform \<Rightarrow> credentials \<Rightarrow> string \<Rightarrow> json option call" where
  "getOrganizationMembers env c orgId =
     request env c (''/organizations/'' @ orgId @ ''/members'') no_options None"

definition getOrganizationBoards ::
  "platform \<Rightarrow> credentials \<Rightarrow> string \<Rightarrow> status_filter option \<Rightarrow> json option call" where
  "getOrganizationBoards env c orgId filter_arg =
     (let filter = (case filter_arg of None \<Rightarrow> Open | Some f \<Rightarrow> f)
      in request env c (''/organizations/'' @ orgId @ ''/boards'') no_options
           (Some [(''filter'', PString (filter_string filter))]))"

subsection \<open>Actions and search\<close>

definition getAction :: "platform \<Rightarrow> credentials \<Rightarrow> string \<Rightarrow> json option call" where
  "getAction env c actionId = request env c (''/actions/'' @ actionId) no_options None"

text \<open>\<open>options?.f\<close>: the field of the options object, if there is one.\<close>

definition optional_field :: "('o \<Rightarrow> 'a option) \<Rightarrow> 'o option \<Rightarrow> 'a option" where
  "optional_field f options = (case options of None \<Rightarrow> None | Some opts \<Rightarrow> f opts)"

definition search_params_of :: "string \<Rightarrow> search_options option \<Rightarrow> record_params" where
  "search_params_of query options =
     statements
       [ set_if_nonempty ''idBoards'' (optional_field so_idBoards options),
         set_if_nonempty ''idOrganizations'' (optional_field so_idOrganizations options),
         set_if_nonempty ''modelTypes'' (optional_field so_modelTypes options),
         set_if_nonzero ''cards_limit'' (optional_field so_cards_limit options),
         set_if_nonzero ''boards_limit'' (optional_field so_boards_limit options),
         set_if_defined_as ''partial'' String_bool (optional_field so_partial options) ]
       [(''query'', PString query)]"

definition search ::
  "platform \<Rightarrow> credentials \<Rightarrow> string \<Rightarrow> search_options option \<Rightarrow> json option call" where
  "search env c query options =
     request env c ''/search'' no_options (Some (search_params_of query options))"

definition searchMembers ::
  "platform \<Rightarrow> credentials \<Rightarrow> string \<Rightarrow> number option \<Rightarrow> json option call" where
  "searchMembers env c query limit_arg =
     (let limit = (case limit_arg of None \<Rightarrow> Integer 8 | Some n \<Rightarrow> n)
      in request env c ''/search/members'' no_options
           (Some [(''query'', PString query), (''limit'', PString (String_number limit))]))"

subsection \<open>Webhooks\<close>

definition getWebhook :: "platform \<Rightarrow> credentials \<Rightarrow> string \<Rightarrow> json option call" where
  "getWebhook env c webhookId = request env c (''/webhooks/'' @ webhookId) no_options None"

definition getWebhooks :: "platform \<Rightarrow> credentials \<Rightarrow> json option call" where
  "getWebhooks env c = request env c (''/tokens/'' @ token c @ ''/webhooks'') no_options None"

definition createWebhook_params :: "webhook_create_input \<Rightarrow> record_params" where
  "createWebhook_params input =
     statements
       [ set_if_truthy ''description'' (wc_description input),
         set_if_defined_as ''active'' String_bool (wc_active input) ]
       [(''callbackURL'', PString (wc_callbackURL input)), (''idModel'', PString (wc_idModel input))]"

definition createWebhook ::
  "platform \<Rightarrow> credentials \<Rightarrow> webhook_create_input \<Rightarrow> json option call" where
  "createWebhook env c input =
     request env c ''/webhooks'' (with_method ''POST'') (Some (createWebhook_params input))"

definition updateWebhook_params :: "webhook_update_input \<Rightarrow> record_params" where
  "updateWebhook_params input =
     statements
       [ set_if_defined ''description'' (wu_description input),
         set_if_truthy ''callbackURL'' (wu_callbackURL input),
         set_if_truthy ''idModel'' (wu_idModel input),
         set_if_defined_as ''active'' String_bool (wu_active input) ]
       []"

definition updateWebhook ::
  "platform \<Rightarrow> credentials \<Rightarrow> string \<Rightarrow> webhook_update_input \<Rightarrow> json option call" where
  "updateWebhook env c webhookId input =
     request env c (''/webhooks/'' @ webhookId) (with_method ''PUT'')
       (Some (updateWebhook_params input))"

definition deleteWebhook :: "platform \<Rightarrow> credentials \<Rightarrow> string \<Rightarrow> json option call" where
  "deleteWebhook env c webhookId =
     returning_void (request env c (''/webhooks/'' @ webhookId) (with_method ''DELETE'') None)"

subsection \<open>The client interface\<close>

text \<open>
  One constructor for each method of the \<open>TrelloClient\<close> interface, with the method's
  arguments, grouped as the interface groups them; \<open>perform\<close> dispatches to the method.
\<close>

datatype member_operation =
    GetMe
  | GetMember string
  | GetMemberBoards string "status_filter option"
  | GetMemberCards string
  | GetMemberOrganizations string

datatype board_operation =
    ListBoards "status_filter option"
  | GetBoard string
  | CreateBoard board_create_input
  | UpdateBoard string board_update_input
  | DeleteBoard string
  | GetBoardMembers string
  | GetBoardLists string "status_filter option"
  | GetBoardCards string "status_filter option"
  | GetBoardLabels string
  | GetBoardActions string "number option"
  | GetBoardChecklists string
  | GetBoardCustomFields string
  | AddMemberToBoard string string "string option"
  | RemoveMemberFromBoard string string

datatype list_operation =
    GetList string
  | CreateList list_create_input
  | UpdateList string list_update_input
  | ArchiveList string
  | UnarchiveList string
  | GetListCards string "status_filter option"
  | ArchiveAllCardsInList string
  | MoveAllCardsInList string string string

datatype card_operation =
    GetCard string
  | CreateCard card_create_input
  | UpdateCard string card_update_input
  | DeleteCard string
  | ArchiveCard string
  | UnarchiveCard string
  | MoveCard string string "string option"
  | GetCardActions string "number option"
  | GetCardAttachments string
  | AddAttachmentToCard string attachment_create_input
  | DeleteAttachment string string
  | GetCardChecklists string
  | AddCommentToCard string string
  | GetCardComments string
  | UpdateComment string string string
  | DeleteComment string string
  | AddLabelToCard string string
  | RemoveLabelFromCard string string
  | AddMemberToCard string string
  | RemoveMemberFromCard string string
  | GetCardCustomFieldItems string
  | SetCardCustomFieldValue string string json

datatype label_operation =
    GetLabel string
  | CreateLabel label_create_input
  | UpdateLabel string label_update_input
  | DeleteLabel string

datatype checklist_operation =
    GetChecklist string
  | CreateChecklist checklist_create_input
  | UpdateChecklist string string
  | DeleteChecklist string
  | GetCheckItems string
  | CreateCheckItem string checkitem_create_input
  | UpdateCheckItem string string checkitem_update_input
  | DeleteCheckItem string string

datatype customfield_operation =
    GetCustomField string
  | CreateCustomField customfield_create_input
  | UpdateCustomField string customfield_update_input
  | DeleteCustomField string
  | GetCustomFieldOptions string
  | AddCustomFieldOption string string "string option"
  | DeleteCustomFieldOption string string

datatype organization_operation =
    GetOrganization string
  | CreateOrganization organization_create_input
  | UpdateOrganization string organization_update_input
  | DeleteOrganization string
  | GetOrganizationMembers string
  | GetOrganizationBoards string "status_filter option"

datatype search_operation =
    GetAction string
  | Search string "search_options option"
  | SearchMembers string "number option"

datatype webhook_operation =
    GetWebhook string
  | GetWebhooks
  | CreateWebhook webhook_create_input
  | UpdateWebhook string webhook_update_input
  | DeleteWebhook string

datatype operation =
    TestConnection
  | Members member_operation
  | Boards board_operation
  | Lists list_operation
  | Cards card_operation
  | Labels label_operation
  | Checklists checklist_operation
  | CustomFields customfield_operation
  | Organizations organization_operation
  | Searches search_operation
  | Webhooks webhook_operation

text \<open>What a method hands back: a deserialised value (or nothing), or the connection report.\<close>

datatype outcome = Returned "json option" | Connection connection

definition returned :: "json option call \<Rightarrow> outcome call" where
  "returned r = (fst r, case snd r of Inl e \<Rightarrow> Inl e | Inr v \<Rightarrow> Inr (Returned v))"

definition reported :: "connection call \<Rightarrow> outcome call" where
  "reported r = (fst r, case snd r of Inl e \<Rightarrow> Inl e | Inr v \<Rightarrow> Inr (Connection v))"

primrec perform_member :: "platform \<Rightarrow> credentials \<Rightarrow> member_operation \<Rightarrow> json option call" where
  "perform_member env c GetMe = getMe env c"
| "perform_member env c (GetMember i) = getMember env c i"
| "perform_member env c (GetMemberBoards i f) = getMemberBoards env c i f"
| "perform_member env c (GetMemberCards i) = getMemberCards env c i"
| "perform_member env c (GetMemberOrganizations i) = getMemberOrganizations env c i"

primrec perform_board :: "platform \<Rightarrow> credentials \<Rightarrow> board_operation \<Rightarrow> json option call" where
  "perform_board env c (ListBoards f) = listBoards env c f"
| "perform_board env c (GetBoard i) = getBoard env c i"
| "perform_board env c (CreateBoard input) = createBoard env c input"
| "perform_board env c (UpdateBoard i input) = updateBoard env c i input"
| "perform_board env c (DeleteBoard i) = deleteBoard env c i"
| "perform_board env c (GetBoardMembers i) = getBoardMembers env c i"
| "perform_board env c (GetBoardLists i f) = getBoardLists env c i f"
| "perform_board env c (GetBoardCards i f) = getBoardCards env c i f"
| "perform_board env c (GetBoardLabels i) = getBoardLabels env c i"
| "perform_board env c (GetBoardActions i n) = getBoardActions env c i n"
| "perform_board env c (GetBoardChecklists i) = getBoardChecklists env c i"
| "perform_board env c (GetBoardCustomFields i) = getBoardCustomFields env c i"
| "perform_board env c (AddMemberToBoard i m t) = addMemberToBoard env c i m t"
| "perform_board env c (RemoveMemberFromBoard i m) = removeMemberFromBoard env c i m"

primrec perform_list :: "platform \<Rightarrow> credentials \<Rightarrow> list_operation \<Rightarrow> json option call" where
  "perform_list env c (GetList i) = getList env c i"
| "perform_list env c (CreateList input) = createList env c input"
| "perform_list env c (UpdateList i input) = updateList env c i input"
| "perform_list env c (ArchiveList i) = archiveList env c i"
| "perform_list env c (UnarchiveList i) = unarchiveList env c i"
| "perform_list env c (GetListCards i f) = getListCards env c i f"
| "perform_list env c (ArchiveAllCardsInList i) = archiveAllCardsInList env c i"
| "perform_list env c (MoveAllCardsInList i b l) = moveAllCardsInList env c i b l"

primrec perform_card :: "platform \<Rightarrow> credentials \<Rightarrow> card_operation \<Rightarrow> json option call" where
  "perform_card env c (GetCard i) = getCard env c i"
| "perform_card env c (CreateCard input) = createCard env c input"
| "perform_card env c (UpdateCard i input) = updateCard env c i input"
| "perform_card env c (DeleteCard i) = deleteCard env c i"
| "perform_card env c (ArchiveCard i) = archiveCard env c i"
| "perform_card env c (UnarchiveCard i) = unarchiveCard env c i"
| "perform_card env c (MoveCard i l b) = moveCard env c i l b"
| "perform_card env c (GetCardActions i n) = getCardActions env c i n"
| "perform_card env c (GetCardAttachments i) = getCardAttachments env c i"
| "perform_card env c (AddAttachmentToCard i input) = addAttachmentToCard env c i input"
| "perform_card env c (DeleteAttachment i a) = deleteAttachment env c i a"
| "perform_card env c (GetCardChecklists i) = getCardChecklists env c i"
| "perform_card env c (AddCommentToCard i t) = addCommentToCard env c i t"
| "perform_card env c (GetCardComments i) = getCardComments env c i"
| "perform_card env c (UpdateComment i a t) = updateComment env c i a t"
| "perform_card env c (DeleteComment i a) = deleteComment env c i a"
| "perform_card env c (AddLabelToCard i l) = addLabelToCard env c i l"
| "perform_card env c (RemoveLabelFromCard i l) = removeLabelFromCard env c i l"
| "perform_card env c (AddMemberToCard i m) = addMemberToCard env c i m"
| "perform_card env c (RemoveMemberFromCard i m) = removeMemberFromCard env c i m"
| "perform_card env c (GetCardCustomFieldItems i) = getCardCustomFieldItems env c i"
| "perform_card env c (SetCardCustomFieldValue i f v) = setCardCustomFieldValue env c i f v"

primrec perform_label :: "platform \<Rightarrow> credentials \<Rightarrow> label_operation \<Rightarrow> json option call" where
  "perform_label env c (GetLabel i) = getLabel env c i"
| "perform_label env c (CreateLabel input) = createLabel env c input"
| "perform_label env c (UpdateLabel i input) = updateLabel env c i input"
| "perform_label env c (DeleteLabel i) = deleteLabel env c i"

primrec perform_checklist :: "platform \<Rightarrow> credentials \<Rightarrow> checklist_operation \<Rightarrow> json option call" where
  "perform_checklist env c (GetChecklist i) = getChecklist env c i"
| "perform_checklist env c (CreateChecklist input) = createChecklist env c input"
| "perform_checklist env c (UpdateChecklist i n) = updateChecklist env c i n"
| "perform_checklist env c (DeleteChecklist i) = deleteChecklist env c i"
| "perform_checklist env c (GetCheckItems i) = getCheckItems env c i"
| "perform_checklist env c (CreateCheckItem i input) = createCheckItem env c i input"
| "perform_checklist env c (UpdateCheckItem i k input) = updateCheckItem env c i k input"
| "perform_checklist env c (DeleteCheckItem i k) = deleteCheckItem env c i k"

primrec perform_customfield :: "platform \<Rightarrow> credentials \<Rightarrow> customfield_operation \<Rightarrow> json option call" where
  "perform_customfield env c (GetCustomField i) = getCustomField env c i"
| "perform_customfield env c (CreateCustomField input) = createCustomField env c input"
| "perform_customfield env c (UpdateCustomField i input) = updateCustomField env c i input"
| "perform_customfield env c (DeleteCustomField i) = deleteCustomField env c i"
| "perform_customfield env c (GetCustomFieldOptions i) = getCustomFieldOptions env c i"
| "perform_customfield env c (AddCustomFieldOption i v col) = addCustomFieldOption env c i v col"
| "perform_customfield env c (DeleteCustomFieldOption i k) = deleteCustomFieldOption env c i k"

primrec perform_organization :: "platform \<Rightarrow> credentials \<Rightarrow> organization_operation \<Rightarrow> json option call" where
  "perform_organization env c (GetOrganization i) = getOrganization env c i"
| "perform_organization env c (CreateOrganization input) = createOrganization env c input"
| "perform_organization env c (UpdateOrganization i input) = updateOrganization env c i input"
| "perform_organization env c (DeleteOrganization i) = deleteOrganization env c i"
| "perform_organization env c (GetOrganizationMembers i) = getOrganizationMembers env c i"
| "perform_organization env c (GetOrganizationBoards i f) = getOrganizationBoards env c i f"

primrec perform_search :: "platform \<Rightarrow> credentials \<Rightarrow> search_operation \<Rightarrow> json option call" where
  "perform_search env c (GetAction i) = getAction env c i"
| "perform_search env c (Search q options) = search env c q options"
| "perform_search env c (SearchMembers q n) = searchMembers env c q n"

primrec perform_webhook :: "platform \<Rightarrow> credentials \<Rightarrow> webhook_operation \<Rightarrow> json option call" where
  "perform_webhook env c (GetWebhook i) = getWebhook env c i"
| "perform_webhook env c GetWebhooks = getWebhooks env c"
| "perform_webhook env c (CreateWebhook input) = createWebhook env c input"
| "perform_webhook env c (UpdateWebhook i input) = updateWebhook env c i input"
| "perform_webhook env c (DeleteWebhook i) = deleteWebhook env c i"

primrec perform :: "platform \<Rightarrow> credentials \<Rightarrow> operation \<Rightarrow> outcome call" where
  "perform env c TestConnection = reported (testConnection env c)"
| "perform env c (Members op) = returned (perform_member env c op)"
| "perform env c (Boards op) = returned (perform_board env c op)"
| "perform env c (Lists op) = returned (perform_list env c op)"
| "perform env c (Cards op) = returned (perform_card env c op)"
| "perform env c (Labels op) = returned (perform_label env c op)"
| "perform env c (Checklists op) = returned (perform_checklist env c op)"
| "perform env c (CustomFields op) = returned (perform_customfield env c op)"
| "perform env c (Organizations op) = returned (perform_organization env c op)"
| "perform env c (Searches op) = returned (perform_search env c op)"
| "perform env c (Webhooks op) = returned (perform_webhook env c op)"

section \<open>The response renderer\<close>

subsection \<open>Entities\<close>

text \<open>
  The entities of \<open>types/entities.ts\<close>, each with the fields the renderer reads. Field names
  carry a prefix for their interface.
\<close>

record board =
  board_id :: string
  board_name :: string
  board_closed :: bool
  board_shortUrl :: string

record trello_list =
  list_id :: string
  list_name :: string
  list_closed :: bool
  list_pos :: number

record card =
  card_id :: string
  card_name :: string
  card_closed :: bool
  card_due :: "string nullable"
  card_dueComplete :: bool
  card_shortUrl :: string

record label =
  label_id :: string
  label_name :: string
  label_color :: "string nullable"

record member =
  member_id :: string
  member_username :: string
  member_fullName :: string

record check_item =
  item_name :: string
  item_state :: string

record checklist =
  checklist_id :: string
  checklist_name :: string
  checkItems :: "check_item list"

record organization =
  org_id :: string
  org_displayName :: string
  org_url :: string

text \<open>
  A property value as the generic table sees it: \<open>null\<close> or \<open>undefined\<close>, an object, or a
  primitive, which is kept as the string \<open>String(val)\<close> makes of it.
\<close>

datatype generic_value = Nullish | AnObject | Primitive string

type_synonym generic_item = "(string \<times> generic_value) list"

subsection \<open>Helpers\<close>

definition newline :: char where
  "newline = CHR 0x0A"

definition backtick :: string where
  "backtick = [CHR 0x60]"

text \<open>\<open>lines.join('\n')\<close>.\<close>

definition join_lines :: "string list \<Rightarrow> string" where
  "join_lines lines = join [newline] lines"

text \<open>
  \<open>text.replace(/[|]/g, '\\|').replace(/\n/g, ' ')\<close>: every bar gets a backslash in front,
  then every line feed becomes a space.
\<close>

definition escapeMarkdown :: "string \<Rightarrow> string" where
  "escapeMarkdown text =
     map (\<lambda>ch. if ch = newline then CHR '' '' else ch)
       (concat (map (\<lambda>ch. if ch = CHR ''|'' then [CHR 0x5C, CHR ''|''] else [ch]) text))"

text \<open>
  \<open>toUpperCase\<close> on one code unit, for ASCII: the entity kind tags of the tool layer are
  ASCII, and the upper case of a code unit beyond ASCII is not represented (it is left as
  it is here).
\<close>

definition toUpperCase_char :: "char \<Rightarrow> char" where
  "toUpperCase_char ch =
     (case map_of (zip ''abcdefghijklmnopqrstuvwxyz'' ''ABCDEFGHIJKLMNOPQRSTUVWXYZ'') ch of
        None \<Rightarrow> ch
      | Some upper \<Rightarrow> upper)"

definition capitalize :: "string \<Rightarrow> string" where
  "capitalize str = map toUpperCase_char (take 1 str) @ drop 1 str"

subsection \<open>Tables\<close>

definition formatBoardsTable :: "board list \<Rightarrow> string" where
  "formatBoardsTable boards =
     join_lines
       ([''| Name | ID | Status | URL |'', ''|---|---|---|---|''] @
        map (\<lambda>board.
               let status = (if board_closed board then ''Closed'' else ''Open'')
               in ''| '' @ board_name board @ '' | '' @ backtick @ board_id board @ backtick @
                  '' | '' @ status @ '' | '' @ board_shortUrl board @ '' |'')
          boards)"

definition formatListsTable :: "trello_list list \<Rightarrow> string" where
  "formatListsTable all_lists =
     join_lines
       ([''| Name | ID | Status | Position |'', ''|---|---|---|---|''] @
        map (\<lambda>list.
               let status = (if list_closed list then ''Archived'' else ''Active'')
               in ''| '' @ list_name list @ '' | '' @ backtick @ list_id list @ backtick @
                  '' | '' @ status @ '' | '' @ String_number (list_pos list) @ '' |'')
          all_lists)"

text \<open>
  The cards table formats the due date with \<open>new Date(due).toLocaleDateString()\<close>, which
  depends on the locale of the platform and is a parameter here.
\<close>

definition formatCardsTable :: "(string \<Rightarrow> string) \<Rightarrow> card list \<Rightarrow> string" where
  "formatCardsTable toLocaleDateString cards =
     join_lines
       ([''| Name | ID | Due | Status | URL |'', ''|---|---|---|---|---|''] @
        map (\<lambda>card.
               let status = (if card_closed card then ''Archived'' else ''Active'');
                   due = (case card_due card of
                            Null \<Rightarrow> ''-''
                          | Value d \<Rightarrow> if d \<noteq> [] then toLocaleDateString d else ''-'');
                   dueStatus = (if card_dueComplete card then '' (Done)'' else [])
               in ''| '' @ escapeMarkdown (card_name card) @ '' | '' @ backtick @ card_id card @
                  backtick @ '' | '' @ due @ dueStatus @ '' | '' @ status @ '' | '' @
                  card_shortUrl card @ '' |'')
          cards)"

definition formatLabelsTable :: "label list \<Rightarrow> string" where
  "formatLabelsTable labels =
     join_lines
       ([''| Name | ID | Color |'', ''|---|---|---|''] @
        map (\<lambda>label.
               let name = (if label_name label \<noteq> [] then label_name label else ''(no name)'');
                   color = (case label_color label of
                              Null \<Rightarrow> ''none''
                            | Value col \<Rightarrow> if col \<noteq> [] then col else ''none'')
               in ''| '' @ escapeMarkdown name @ '' | '' @ backtick @ label_id label @ backtick @
                  '' | '' @ color @ '' |'')
          labels)"

definition formatMembersTable :: "member list \<Rightarrow> string" where
  "formatMembersTable members =
     join_lines
       ([''| Name | Username | ID |'', ''|---|---|---|''] @
        map (\<lambda>member.
               ''| '' @ escapeMarkdown (member_fullName member) @ '' | @'' @
               member_username member @ '' | '' @ backtick @ member_id member @ backtick @ '' |'')
          members)"

text \<open>The lines one checklist adds: a heading with the counts, the identifier, the items.\<close>

definition checklist_lines :: "checklist \<Rightarrow> string list" where
  "checklist_lines checklist =
     (let completed = length (filter (\<lambda>item. item_state item = ''complete'') (checkItems checklist));
          total = length (checkItems checklist)
      in [''### '' @ escapeMarkdown (checklist_name checklist) @ '' ('' @
            nat_to_decimal completed @ ''/'' @ nat_to_decimal total @ '')'',
          ''**ID:** '' @ backtick @ checklist_id checklist @ backtick,
          []] @
         (if length (checkItems checklist) > 0
          then map (\<lambda>item.
                      let checkbox = (if item_state item = ''complete'' then ''[x]'' else ''[ ]'')
                      in ''- '' @ checkbox @ '' '' @ escapeMarkdown (item_name item))
                 (checkItems checklist)
          else [''_No items_'']) @
         [[]])"

definition formatChecklistsTable :: "checklist list \<Rightarrow> string" where
  "formatChecklistsTable checklists = join_lines (concat (map checklist_lines checklists))"

definition formatOrganizationsTable :: "organization list \<Rightarrow> string" where
  "formatOrganizationsTable orgs =
     join_lines
       ([''| Name | ID | URL |'', ''|---|---|---|''] @
        map (\<lambda>org.
               ''| '' @ escapeMarkdown (org_displayName org) @ '' | '' @ backtick @ org_id org @
               backtick @ '' | '' @ org_url org @ '' |'')
          orgs)"

definition formatGenericTable :: "generic_item list \<Rightarrow> string" where
  "formatGenericTable items =
     (case items of
        [] \<Rightarrow> ''_No items_''
      | first # _ \<Rightarrow>
          (let keys = take 5 (map fst first)
           in join_lines
                ([''| '' @ join '' | '' keys @ '' |'',
                  ''|'' @ join ''|'' (map (\<lambda>_. ''---'') keys) @ ''|''] @
                 map (\<lambda>item.
                        let vals =
                              map (\<lambda>k. case map_of item k of
                                          None \<Rightarrow> ''-''
                                        | Some Nullish \<Rightarrow> ''-''
                                        | Some AnObject \<Rightarrow> ''(object)''
                                        | Some (Primitive s) \<Rightarrow> take 50 s)
                                keys
                        in ''| '' @ join '' | '' vals @ '' |'')
                   items)))"

subsection \<open>Arrays\<close>

text \<open>
  \<open>formatArrayAsMarkdown\<close> takes an array of unknown element type and casts it to the type the
  entity kind names. The array is modelled with its element type; the result is \<open>None\<close>
  when the entity kind casts it to another type than its own, a call the model does not
  cover (the tool layer makes none).
\<close>

datatype entity_array =
    BoardArray "board list"
  | ListArray "trello_list list"
  | CardArray "card list"
  | LabelArray "label list"
  | MemberArray "member list"
  | ChecklistArray "checklist list"
  | OrganizationArray "organization list"
  | OtherArray "generic_item list"

definition array_length :: "entity_array \<Rightarrow> nat" where
  "array_length data =
     (case data of
        BoardArray xs \<Rightarrow> length xs
      | ListArray xs \<Rightarrow> length xs
      | CardArray xs \<Rightarrow> length xs
      | LabelArray xs \<Rightarrow> length xs
      | MemberArray xs \<Rightarrow> length xs
      | ChecklistArray xs \<Rightarrow> length xs
      | OrganizationArray xs \<Rightarrow> length xs
      | OtherArray xs \<Rightarrow> length xs)"

definition entity_table :: "(string \<Rightarrow> string) \<Rightarrow> entity_array \<Rightarrow> string \<Rightarrow> string option" where
  "entity_table toLocaleDateString data entityType =
     (if entityType = ''boards'' then
        (case data of BoardArray xs \<Rightarrow> Some (formatBoardsTable xs) | _ \<Rightarrow> None)
      else if entityType = ''lists'' then
        (case data of ListArray xs \<Rightarrow> Some (formatListsTable xs) | _ \<Rightarrow> None)
      else if entityType = ''cards'' then
        (case data of CardArray xs \<Rightarrow> Some (formatCardsTable toLocaleDateString xs) | _ \<Rightarrow> None)
      else if entityType = ''labels'' then
        (case data of LabelArray xs \<Rightarrow> Some (formatLabelsTable xs) | _ \<Rightarrow> None)
      else if entityType = ''members'' then
        (case data of MemberArray xs \<Rightarrow> Some (formatMembersTable xs) | _ \<Rightarrow> None)
      else if entityType = ''checklists'' then
        (case data of ChecklistArray xs \<Rightarrow> Some (formatChecklistsTable xs) | _ \<Rightarrow> None)
      else if entityType = ''organizations'' then
        (case data of OrganizationArray xs \<Rightarrow> Some (formatOrganizationsTable xs) | _ \<Rightarrow> None)
      else
        (case data of OtherArray xs \<Rightarrow> Some (formatGenericTable xs) | _ \<Rightarrow> None))"

definition formatArrayAsMarkdown ::
  "(string \<Rightarrow> string) \<Rightarrow> entity_array \<Rightarrow> string \<Rightarrow> string option" where
  "formatArrayAsMarkdown toLocaleDateString data entityType =
     (if array_length data = 0 then
        Some (''## '' @ capitalize entityType @ [newline, newline] @ ''_No items found._'')
      else
        (case entity_table toLocaleDateString data entityType of
           None \<Rightarrow> None
         | Some table \<Rightarrow>
             Some (join_lines
                     [''## '' @ capitalize entityType,
                      ''**Count:** '' @ nat_to_decimal (array_length data),
                      [],
                      table])))"

section \<open>The fields of the create and update inputs\<close>




























text \<open>
  The list-style read operations that take a status filter, each on the identifier \<open>i\<close> and
  with the filter argument \<open>f\<close>.
\<close>

definition status_listings :: "string \<Rightarrow> status_filter option \<Rightarrow> operation list" where
  "status_listings i f =
     [ Members (GetMemberBoards i f),
       Boards (ListBoards f),
       Boards (GetBoardLists i f),
       Boards (GetBoardCards i f),
       Lists (GetListCards i f),
       Organizations (GetOrganizationBoards i f) ]"

section \<open>Sample inputs\<close>

text \<open>
  Concrete values for the examples below: a pair of credentials, a response with a given
  status, \<open>Retry-After\<close> header and body, and a platform that answers every request with one
  response (its \<open>JSON.parse\<close> reads the empty array and rejects any other text).
\<close>

definition sample_credentials :: credentials where
  "sample_credentials = \<lparr> apiKey = ''k'', token = ''t'' \<rparr>"

definition plain_response :: "nat \<Rightarrow> string option \<Rightarrow> string \<Rightarrow> http_response" where
  "plain_response st retryAfter body =
     \<lparr> status = st,
       headers_get = (\<lambda>h. if h = ''Retry-After'' then retryAfter else None),
       body_text = body \<rparr>"

definition answering :: "http_response \<Rightarrow> platform" where
  "answering r =
     \<lparr> fetch = (\<lambda>_. Responded r),
       JSON_parse = (\<lambda>text. if text = ''[]'' then Inr (JArray []) else Inl ''Unexpected token''),
       JSON_stringify = (\<lambda>_. ''{}'') \<rparr>"

definition sample_entries :: record_params where
  "sample_entries = [(''name'', PString ''Report''), (''due'', PString []), (''start'', PNull)]"


definition sample_checkitem_update :: checkitem_update_input where
  "sample_checkitem_update =
     \<lparr> ciu_name = None, ciu_state = None, ciu_pos = None, ciu_due = Some Null,
       ciu_idMember = Some Null \<rparr>"

definition sample_checklist :: checklist where
  "sample_checklist =
     \<lparr> checklist_id = ''cl1'', checklist_name = ''Launch'',
       checkItems = [\<lparr> item_name = ''Draft'', item_state = ''complete'' \<rparr>,
                     \<lparr> item_name = ''Review|sign'', item_state = ''incomplete'' \<rparr>] \<rparr>"

definition sample_boards :: "board list" where
  "sample_boards =
     [\<lparr> board_id = ''b1'', board_name = ''Roadmap'', board_closed = False,
        board_shortUrl = ''https://trello.com/b/r'' \<rparr>,
      \<lparr> board_id = ''b2'', board_name = ''Archive'', board_closed = True,
        board_shortUrl = ''https://trello.com/b/a'' \<rparr>]"

text \<open>One board whose name holds a line feed.\<close>

definition sample_split_board :: board where
  "sample_split_board =
     \<lparr> board_id = ''b2'',
       board_name = ''Roadmap | '' @ [CHR 0x60] @ ''b1'' @ [CHR 0x60] @
                    '' | Open | https://trello.com/b/r |'' @ [CHR 0x0A] @ ''| Archive'',
       board_closed = True,
       board_shortUrl = ''https://trello.com/b/a'' \<rparr>"

section \<open>Decimal numerals\<close>

lemma less_10_cases:
  "d < 10 \<Longrightarrow> d = 0 \<or> d = 1 \<or> d = 2 \<or> d = 3 \<or> d = 4 \<or> d = 5 \<or> d = 6 \<or> d = 7 \<or> d = 8 \<or> d = (9::nat)"
  by arith

lemma digit_char_props:
  assumes "d < 10"
  shows "is_digit (digit_char d)" "digit_value (digit_char d) = d"
    "\<not> is_white_space (digit_char d)" "digit_char d \<noteq> CHR ''-''" "digit_char d \<noteq> CHR ''+''"
  using less_10_cases[OF assms]
  by (auto simp: digit_char_def is_digit_def digit_value_def is_white_space_def)

lemma nat_to_decimal_nonempty: "nat_to_decimal n \<noteq> []"
  by (subst nat_to_decimal.simps) simp

lemma nat_to_decimal_digits: "c \<in> set (nat_to_decimal n) \<Longrightarrow> is_digit c"
proof (induction n rule: nat_to_decimal.induct)
  case (1 n)
  show ?case
  proof (cases "n < 10")
    case True
    with "1.prems" show ?thesis
      by (subst (asm) nat_to_decimal.simps) (simp add: digit_char_props)
  next
    case False
    with "1.prems" have "c \<in> set (nat_to_decimal (n div 10)) \<or> c = digit_char (n mod 10)"
      by (subst (asm) nat_to_decimal.simps) auto
    with "1.IH"[OF False] show ?thesis by (auto simp: digit_char_props)
  qed
qed

lemma digits_value_snoc: "digits_value (ds @ [c]) = 10 * digits_value ds + digit_value c"
  by (simp add: digits_value_def)

lemma digits_value_nat_to_decimal: "digits_value (nat_to_decimal n) = n"
proof (induction n rule: nat_to_decimal.induct)
  case (1 n)
  show ?case
  proof (cases "n < 10")
    case True
    then show ?thesis
      by (subst nat_to_decimal.simps) (simp add: digits_value_def digit_char_props)
  next
    case False
    then have "digits_value (nat_to_decimal n) =
        10 * digits_value (nat_to_decimal (n div 10)) + digit_value (digit_char (n mod 10))"
      by (subst nat_to_decimal.simps) (simp add: digits_value_snoc)
    with "1.IH"[OF False] show ?thesis by (simp add: digit_char_props)
  qed
qed

lemma hd_nat_to_decimal: "\<exists>d < 10. hd (nat_to_decimal n) = digit_char d"
proof (induction n rule: nat_to_decimal.induct)
  case (1 n)
  show ?case
  proof (cases "n < 10")
    case True
    then show ?thesis by (subst nat_to_decimal.simps) auto
  next
    case False
    with "1.IH"[OF False] show ?thesis
      by (subst nat_to_decimal.simps) (simp add: nat_to_decimal_nonempty)
  qed
qed

lemma bit_length_le: "n < 2 ^ k \<Longrightarrow> bit_length n \<le> k"
proof (induction k arbitrary: n)
  case 0
  then show ?case by (simp add: bit_length.simps)
next
  case (Suc k)
  from Suc.prems have "n div 2 < 2 ^ k" by simp
  from Suc.IH[OF this] show ?case by (subst bit_length.simps) simp
qed

lemma round_to_double_exact: "n \<le> 2 ^ 53 \<Longrightarrow> round_to_double n = Some n"
proof (cases "n = 2 ^ 53")
  case True
  then show ?thesis by (simp add: round_to_double_def bit_length.simps Let_def)
next
  case False
  assume "n \<le> 2 ^ 53"
  with False have "n < 2 ^ 53" by simp
  from bit_length_le[OF this] show ?thesis by (simp add: round_to_double_def)
qed

lemma parseInt_nat_to_decimal:
  assumes "n \<le> 2 ^ 53"
  shows "parseInt (nat_to_decimal n) = Integer (int n)"
proof -
  obtain d where d: "d < 10" "hd (nat_to_decimal n) = digit_char d"
    using hd_nat_to_decimal by blast
  obtain x xs where xs: "nat_to_decimal n = x # xs"
    using nat_to_decimal_nonempty by (cases "nat_to_decimal n") auto
  with d have x: "\<not> is_white_space x" "x \<noteq> CHR ''-''" "x \<noteq> CHR ''+''"
    by (auto simp: digit_char_props)
  have tw: "takeWhile is_digit (nat_to_decimal n) = nat_to_decimal n"
    by (simp add: takeWhile_eq_all_conv nat_to_decimal_digits)
  have "parseInt (x # xs) =
      (if digits_value (x # xs) = 0 then Integer 0
       else case round_to_double (digits_value (x # xs)) of
              None \<Rightarrow> Infinity
            | Some m \<Rightarrow> Integer (int m))"
    using x tw unfolding xs by (simp add: parseInt_def Let_def split: option.splits)
  then show ?thesis
    by (simp add: xs[symmetric] digits_value_nat_to_decimal round_to_double_exact[OF assms])
qed

lemma decimal_120: "nat_to_decimal 120 = ''120''"
  by (simp add: nat_to_decimal.simps digit_char_def)

text \<open>
  Beyond \<open>2 ^ 53\<close> the number read is the nearest double: \<open>2 ^ 53 + 1\<close> lies half way between
  two doubles and goes to the even one, \<open>2 ^ 53 + 3\<close> goes up.
\<close>

lemma parseInt_rounds:
  "parseInt ''9007199254740993'' = Integer 9007199254740992"
  "parseInt ''9007199254740995'' = Integer 9007199254740996"
  by (simp_all add: parseInt_def is_white_space_def is_digit_def digits_value_def digit_value_def
      round_to_double_def bit_length.simps Let_def)

section \<open>Reading the serialised parameters back from the URL\<close>

lemma less_16_cases:
  "d < 16 \<Longrightarrow> d = 0 \<or> d = 1 \<or> d = 2 \<or> d = 3 \<or> d = 4 \<or> d = 5 \<or> d = 6 \<or> d = 7 \<or> d = 8 \<or> d = 9 \<or>
     d = 10 \<or> d = 11 \<or> d = 12 \<or> d = 13 \<or> d = 14 \<or> d = (15::nat)"
  by arith

lemma hex_char_props:
  assumes "d < 16"
  shows "is_hex (hex_char d)" "hex_value (hex_char d) = d" "is_alnum (hex_char d)"
  using less_16_cases[OF assms]
  by (auto simp: hex_char_def is_hex_def hex_value_def is_alnum_def)

lemma form_decode_percent_byte:
  assumes "b < 256"
  shows "form_decode (percent_byte b @ r) = char_of b # form_decode r"
proof -
  from assms have d: "b div 16 < 16" "b mod 16 < 16" by simp_all
  have "16 * (b div 16) + b mod 16 = b" by simp
  then show ?thesis
    by (simp add: percent_byte_def form_decode.simps(2)[of "CHR ''%''"] hex_char_props[OF d(1)]
        hex_char_props[OF d(2)])
qed

lemma form_decode_plain:
  assumes "c \<noteq> CHR ''%''" "c \<noteq> CHR ''+''"
  shows "form_decode (c # r) = utf8_char c @ form_decode r"
  using assms by (simp add: form_decode.simps(2)[of c])

lemma form_decode_encode_char:
  "form_decode (form_encode_char c @ r) = utf8_char c @ form_decode r"
proof -
  let ?n = "of_char c :: nat"
  have n: "?n < 256" by simp
  consider (space) "c = CHR '' ''"
    | (kept) "c \<noteq> CHR '' ''" "is_alnum c \<or> c \<in> set ''*-._''"
    | (ascii) "c \<noteq> CHR '' ''" "\<not> (is_alnum c \<or> c \<in> set ''*-._'')" "?n < 128"
    | (high) "c \<noteq> CHR '' ''" "\<not> (is_alnum c \<or> c \<in> set ''*-._'')" "\<not> ?n < 128"
    by blast
  then show ?thesis
  proof cases
    case space
    then show ?thesis
      by (simp add: form_encode_char_def form_decode.simps(2)[of "CHR ''+''"] utf8_char_def)
  next
    case kept
    then have "c \<noteq> CHR ''%''" "c \<noteq> CHR ''+''" by (auto simp: is_alnum_def Let_def)
    from form_decode_plain[OF this] kept show ?thesis
      by (simp add: form_encode_char_def)
  next
    case ascii
    then have "form_encode_char c = percent_byte ?n" by (simp add: form_encode_char_def Let_def)
    with form_decode_percent_byte[OF n, of r] ascii(3) show ?thesis
      by (simp add: utf8_char_def)
  next
    case high
    have a: "192 + ?n div 64 < 256" using n by arith
    have b: "128 + ?n mod 64 < 256" by simp
    from high have "form_encode_char c = percent_byte (192 + ?n div 64) @ percent_byte (128 + ?n mod 64)"
      by (simp add: form_encode_char_def Let_def)
    then show ?thesis
      using form_decode_percent_byte[OF a, of "percent_byte (128 + ?n mod 64) @ r"]
        form_decode_percent_byte[OF b, of r] high(3)
      by (simp add: utf8_char_def Let_def)
  qed
qed

lemma form_decode_encode: "form_decode (form_encode s) = utf8 s"
proof (induction s)
  case Nil
  then show ?case by (simp add: form_encode_def utf8_def form_decode.simps)
next
  case (Cons c s)
  then show ?case
    using form_decode_encode_char[of c "form_encode s"]
    by (simp add: form_encode_def utf8_def)
qed

lemma is_alnum_plain:
  "is_alnum x \<Longrightarrow>
     x \<noteq> CHR ''&'' \<and> x \<noteq> CHR ''='' \<and> x \<noteq> CHR ''?'' \<and> x \<noteq> CHR ''#'' \<and> 32 < (of_char x :: nat)"
  by (auto simp: is_alnum_def Let_def)

lemma percent_byte_plain:
  assumes "b < 256" "x \<in> set (percent_byte b)"
  shows "x \<noteq> CHR ''&'' \<and> x \<noteq> CHR ''='' \<and> x \<noteq> CHR ''?'' \<and> x \<noteq> CHR ''#'' \<and> 32 < (of_char x :: nat)"
proof -
  from assms(1) have d: "b div 16 < 16" "b mod 16 < 16" by simp_all
  from assms(2) have "x = CHR ''%'' \<or> x = hex_char (b div 16) \<or> x = hex_char (b mod 16)"
    by (simp add: percent_byte_def)
  then show ?thesis
    using is_alnum_plain[OF hex_char_props(3)[OF d(1)]] is_alnum_plain[OF hex_char_props(3)[OF d(2)]]
    by auto
qed

lemma form_encode_char_plain:
  assumes "x \<in> set (form_encode_char c)"
  shows "x \<noteq> CHR ''&'' \<and> x \<noteq> CHR ''='' \<and> x \<noteq> CHR ''?'' \<and> x \<noteq> CHR ''#'' \<and> 32 < (of_char x :: nat)"
proof -
  let ?n = "of_char c :: nat"
  have n: "?n < 256" by simp
  consider (space) "c = CHR '' ''"
    | (kept) "c \<noteq> CHR '' ''" "is_alnum c \<or> c \<in> set ''*-._''"
    | (ascii) "c \<noteq> CHR '' ''" "\<not> (is_alnum c \<or> c \<in> set ''*-._'')" "?n < 128"
    | (high) "c \<noteq> CHR '' ''" "\<not> (is_alnum c \<or> c \<in> set ''*-._'')" "\<not> ?n < 128"
    by blast
  then show ?thesis
  proof cases
    case space
    with assms show ?thesis by (simp add: form_encode_char_def)
  next
    case kept
    with assms have "x = c" by (simp add: form_encode_char_def)
    with kept show ?thesis using is_alnum_plain[of c] by auto
  next
    case ascii
    with assms have "x \<in> set (percent_byte ?n)" by (simp add: form_encode_char_def Let_def)
    from percent_byte_plain[OF n this] show ?thesis .
  next
    case high
    have a: "192 + ?n div 64 < 256" using n by arith
    have b: "128 + ?n mod 64 < 256" by simp
    from high assms have "x \<in> set (percent_byte (192 + ?n div 64)) \<or> x \<in> set (percent_byte (128 + ?n mod 64))"
      by (simp add: form_encode_char_def Let_def)
    with percent_byte_plain[OF a] percent_byte_plain[OF b] show ?thesis by blast
  qed
qed

lemma form_encode_plain:
  "x \<in> set (form_encode s) \<Longrightarrow>
     x \<noteq> CHR ''&'' \<and> x \<noteq> CHR ''='' \<and> x \<noteq> CHR ''?'' \<and> x \<noteq> CHR ''#'' \<and> 32 < (of_char x :: nat)"
  using form_encode_char_plain by (auto simp: form_encode_def)

lemma split_on_nonempty: "split_on sep s \<noteq> []"
  by (induction s) (auto split: list.splits)

lemma split_on_no_sep: "sep \<notin> set s \<Longrightarrow> split_on sep s = [s]"
  by (induction s) auto

lemma split_on_append:
  "sep \<notin> set a \<Longrightarrow> split_on sep (a @ sep # r) = a # split_on sep r"
  by (induction a) auto

lemma split_on_join:
  "xs \<noteq> [] \<Longrightarrow> \<forall>x \<in> set xs. sep \<notin> set x \<Longrightarrow> split_on sep (join [sep] xs) = xs"
proof (induction "[sep]" xs rule: join.induct)
  case 1
  then show ?case by simp
next
  case (2 x)
  then show ?case by (simp add: split_on_no_sep)
next
  case (3 x y ys)
  then show ?case by (simp add: split_on_append)
qed


lemma utf8_char_nonempty: "utf8_char c \<noteq> []"
  by (simp add: utf8_char_def Let_def)

lemma utf8_empty: "utf8 s = [] \<longleftrightarrow> s = []"
  by (cases s) (simp_all add: utf8_def utf8_char_nonempty)

lemma utf8_char_head:
  assumes "utf8_char a @ r = utf8_char b @ s"
  shows "a = b \<and> r = s"
proof -
  let ?m = "of_char a :: nat" and ?n = "of_char b :: nat"
  have lt: "?m < 256" "?n < 256" by simp_all
  have lead: "\<And>k::nat. k < 256 \<Longrightarrow> (of_char (char_of (192 + k div 64) :: char) :: nat) = 192 + k div 64"
  proof -
    fix k :: nat assume "k < 256"
    then have "192 + k div 64 < 256" by arith
    then show "(of_char (char_of (192 + k div 64) :: char) :: nat) = 192 + k div 64" by simp
  qed
  have cont: "\<And>k::nat. (of_char (char_of (128 + k mod 64) :: char) :: nat) = 128 + k mod 64"
  proof -
    fix k :: nat
    have "128 + k mod 64 < 256" by arith
    then show "(of_char (char_of (128 + k mod 64) :: char) :: nat) = 128 + k mod 64" by simp
  qed
  consider (ll) "?m < 128" "?n < 128" | (lh) "?m < 128" "\<not> ?n < 128"
    | (hl) "\<not> ?m < 128" "?n < 128" | (hh) "\<not> ?m < 128" "\<not> ?n < 128"
    by blast
  then show ?thesis
  proof cases
    case ll
    with assms show ?thesis by (simp add: utf8_char_def)
  next
    case lh
    with assms have "a = char_of (192 + ?n div 64)" by (simp add: utf8_char_def Let_def)
    then have "?m = of_char (char_of (192 + ?n div 64) :: char)" by simp
    with lead[OF lt(2)] lh(1) show ?thesis by simp
  next
    case hl
    with assms have "b = char_of (192 + ?m div 64)" by (simp add: utf8_char_def Let_def)
    then have "?n = of_char (char_of (192 + ?m div 64) :: char)" by simp
    with lead[OF lt(1)] hl(2) show ?thesis by simp
  next
    case hh
    with assms have e: "(char_of (192 + ?m div 64) :: char) = char_of (192 + ?n div 64)"
      "(char_of (128 + ?m mod 64) :: char) = char_of (128 + ?n mod 64)" "r = s"
      by (simp_all add: utf8_char_def Let_def)
    from e(1) have "of_char (char_of (192 + ?m div 64) :: char) = (of_char (char_of (192 + ?n div 64) :: char) :: nat)"
      by simp
    with lead[OF lt(1)] lead[OF lt(2)] have d: "?m div 64 = ?n div 64" by simp
    from e(2) have "of_char (char_of (128 + ?m mod 64) :: char) = (of_char (char_of (128 + ?n mod 64) :: char) :: nat)"
      by simp
    with cont[of ?m] cont[of ?n] have m: "?m mod 64 = ?n mod 64" by simp
    from d m have "?m = ?n" by (metis div_mult_mod_eq)
    with e(3) show ?thesis by simp
  qed
qed

lemma utf8_inj: "utf8 a = utf8 b \<Longrightarrow> a = b"
proof (induction a arbitrary: b)
  case Nil
  then show ?case using utf8_empty[of b] by (simp add: utf8_def)
next
  case (Cons x xs)
  show ?case
  proof (cases b)
    case Nil
    with Cons.prems show ?thesis using utf8_empty[of "x # xs"] by (simp add: utf8_def)
  next
    case (Cons y ys)
    with Cons.prems have "utf8_char x @ utf8 xs = utf8_char y @ utf8 ys" by (simp add: utf8_def)
    from utf8_char_head[OF this] Cons.IH[of ys] Cons show ?thesis by simp
  qed
qed

lemma dropWhile_last:
  "s \<noteq> [] \<Longrightarrow> \<not> P (last s) \<Longrightarrow> rev (dropWhile P (rev s)) = s"
  by (cases s rule: rev_cases) simp_all

lemma url_input_request:
  assumes "q \<noteq> []" "\<forall>x \<in> set q. 32 < (of_char x :: nat)"
  shows "url_input (API_BASE_URL @ e @ ''?'' @ q) =
     API_BASE_URL @ filter (\<lambda>c. \<not> is_tab_or_newline c) e @ ''?'' @ q"
proof -
  have lead: "dropWhile is_c0_or_space (API_BASE_URL @ e @ ''?'' @ q) = API_BASE_URL @ e @ ''?'' @ q"
    by (simp add: API_BASE_URL_def is_c0_or_space_def)
  from assms have "\<not> is_c0_or_space (last (API_BASE_URL @ e @ ''?'' @ q))"
    by (simp add: is_c0_or_space_def not_le)
  then have trail: "rev (dropWhile is_c0_or_space (rev (API_BASE_URL @ e @ ''?'' @ q))) =
      API_BASE_URL @ e @ ''?'' @ q"
    by (intro dropWhile_last) simp_all
  have base: "filter (\<lambda>c. \<not> is_tab_or_newline c) API_BASE_URL = API_BASE_URL"
    by (simp add: API_BASE_URL_def is_tab_or_newline_def)
  from assms(2) have q: "filter (\<lambda>c. \<not> is_tab_or_newline c) q = q"
    by (intro filter_True) (auto simp: is_tab_or_newline_def)
  have mark: "\<not> is_tab_or_newline CHR ''?''"
    by (simp add: is_tab_or_newline_def)
  show ?thesis
    unfolding url_input_def lead trail
    by (simp add: base q mark)
qed

lemma url_query_request:
  assumes "q \<noteq> []" "\<forall>x \<in> set q. 32 < (of_char x :: nat) \<and> x \<noteq> CHR ''#''"
    and "CHR ''?'' \<notin> set e" "CHR ''#'' \<notin> set e"
  shows "url_query (API_BASE_URL @ e @ ''?'' @ q) = q"
proof -
  let ?e = "filter (\<lambda>c. \<not> is_tab_or_newline c) e"
  from assms have i: "url_input (API_BASE_URL @ e @ ''?'' @ q) = API_BASE_URL @ ?e @ ''?'' @ q"
    by (intro url_input_request) auto
  have b: "CHR ''?'' \<notin> set API_BASE_URL" "CHR ''#'' \<notin> set API_BASE_URL"
    by (simp_all add: API_BASE_URL_def)
  from assms(2,4) b have t: "takeWhile (\<lambda>c. c \<noteq> CHR ''#'') (API_BASE_URL @ ?e @ ''?'' @ q) =
      API_BASE_URL @ ?e @ ''?'' @ q"
    by (auto simp: takeWhile_eq_all_conv)
  from assms(3) b have d: "dropWhile (\<lambda>c. c \<noteq> CHR ''?'') ((API_BASE_URL @ ?e) @ CHR ''?'' # q) = CHR ''?'' # q"
    by (subst dropWhile_append2) auto
  show ?thesis
    unfolding url_query_def i t using d by simp
qed

lemma pair_piece:
  assumes "CHR ''='' \<notin> set a"
  shows "takeWhile (\<lambda>c. c \<noteq> CHR ''='') (a @ CHR ''='' # b) = a"
    "drop (Suc 0) (dropWhile (\<lambda>c. c \<noteq> CHR ''='') (a @ CHR ''='' # b)) = b"
  using assms by (induction a) auto

lemma join_chars:
  "x \<in> set (join [sep] ys) \<Longrightarrow> x = sep \<or> (\<exists>y \<in> set ys. x \<in> set y)"
  by (induction "[sep]" ys rule: join.induct) auto

lemma params_toString_plain:
  assumes "x \<in> set (params_toString ps)"
  shows "x \<noteq> CHR ''?'' \<and> x \<noteq> CHR ''#'' \<and> 32 < (of_char x :: nat)"
proof -
  from assms join_chars[of x "CHR ''&''"]
  have "x = CHR ''&'' \<or> x = CHR ''='' \<or> (\<exists>p \<in> set ps. x \<in> set (form_encode (fst p)) \<or> x \<in> set (form_encode (snd p)))"
    unfolding params_toString_def by fastforce
  then show ?thesis using form_encode_plain by auto
qed

lemma params_toString_not_Nil: "ps \<noteq> [] \<Longrightarrow> params_toString ps \<noteq> []"
proof -
  assume "ps \<noteq> []"
  then obtain p ps' where "ps = p # ps'" by (cases ps) auto
  then show ?thesis by (cases ps') (simp_all add: params_toString_def)
qed

lemma url_input_serialised:
  assumes "ps \<noteq> []"
  shows "url_input (API_BASE_URL @ e @ ''?'' @ params_toString ps) =
     API_BASE_URL @ filter (\<lambda>c. \<not> is_tab_or_newline c) e @ ''?'' @ params_toString ps"
  using params_toString_not_Nil[OF assms] params_toString_plain
  by (intro url_input_request) auto

lemma url_params_serialised:
  assumes "ps \<noteq> []" "CHR ''?'' \<notin> set e" "CHR ''#'' \<notin> set e"
  shows "url_params (API_BASE_URL @ e @ ''?'' @ params_toString ps) =
     map (\<lambda>p. (utf8 (fst p), utf8 (snd p))) ps"
proof -
  let ?enc = "\<lambda>p. form_encode (fst p) @ ''='' @ form_encode (snd p)"
  let ?q = "params_toString ps"
  have plain: "\<And>p x. x \<in> set (?enc p) \<Longrightarrow> x \<noteq> CHR ''&''"
    using form_encode_plain by auto
  have pieces: "split_on CHR ''&'' ?q = map ?enc ps"
    unfolding params_toString_def
    using assms(1) plain by (intro split_on_join) auto
  have chars: "\<forall>x \<in> set ?q. 32 < (of_char x :: nat) \<and> x \<noteq> CHR ''#''"
    using params_toString_plain by blast
  from url_query_request[OF params_toString_not_Nil[OF assms(1)] chars assms(2,3)]
  have q: "url_query (API_BASE_URL @ e @ ''?'' @ ?q) = ?q" .
  have full: "filter (\<lambda>piece. piece \<noteq> []) (map ?enc ps) = map ?enc ps"
    by (intro filter_True) auto
  have eq: "\<And>p. CHR ''='' \<notin> set (form_encode (fst p))"
    using form_encode_plain by blast
  show ?thesis
    unfolding url_params_def q pieces full
    by (simp add: pair_piece[OF eq] form_decode_encode comp_def)
qed

text \<open>With a \<open>#\<close> and no \<open>?\<close> in the path, the query is part of the fragment.\<close>

lemma url_params_fragment:
  assumes "ps \<noteq> []" "CHR ''?'' \<notin> set e" "CHR ''#'' \<in> set e"
  shows "url_params (API_BASE_URL @ e @ ''?'' @ params_toString ps) = []"
proof -
  let ?e = "filter (\<lambda>c. \<not> is_tab_or_newline c) e"
  have b: "CHR ''?'' \<notin> set API_BASE_URL" "CHR ''#'' \<notin> set API_BASE_URL"
    by (simp_all add: API_BASE_URL_def)
  from assms(3) have h: "CHR ''#'' \<in> set ?e"
    by (simp add: is_tab_or_newline_def)
  from b(2) have "takeWhile (\<lambda>c. c \<noteq> CHR ''#'') (API_BASE_URL @ ?e @ ''?'' @ params_toString ps) =
      API_BASE_URL @ takeWhile (\<lambda>c. c \<noteq> CHR ''#'') (?e @ ''?'' @ params_toString ps)"
    by (intro takeWhile_append2) auto
  also from h have "takeWhile (\<lambda>c. c \<noteq> CHR ''#'') (?e @ ''?'' @ params_toString ps) =
      takeWhile (\<lambda>c. c \<noteq> CHR ''#'') ?e"
    by (intro takeWhile_append1[of "CHR ''#''"]) auto
  finally have t: "takeWhile (\<lambda>c. c \<noteq> CHR ''#'') (API_BASE_URL @ ?e @ ''?'' @ params_toString ps) =
      API_BASE_URL @ takeWhile (\<lambda>c. c \<noteq> CHR ''#'') ?e" .
  from assms(2) have "CHR ''?'' \<notin> set (takeWhile (\<lambda>c. c \<noteq> CHR ''#'') ?e)"
    by (auto dest: set_takeWhileD)
  with b(1) have d: "dropWhile (\<lambda>c. c \<noteq> CHR ''?'') (API_BASE_URL @ takeWhile (\<lambda>c. c \<noteq> CHR ''#'') ?e) = []"
    by (auto simp: dropWhile_eq_Nil_conv)
  show ?thesis
    unfolding url_params_def url_query_def url_input_serialised[OF assms(1)] t d by simp
qed

lemma split_on_sep:
  "split_on sep (a @ sep # r) = split_on sep a @ split_on sep r"
proof (induction a)
  case Nil
  then show ?case by simp
next
  case (Cons c a)
  obtain p ps where "split_on sep a = p # ps"
    using split_on_nonempty[of sep a] by (cases "split_on sep a") auto
  with Cons show ?case by simp
qed

text \<open>
  Without a \<open>#\<close> in the path, every parameter after the first arrives as it is, at the end
  of the parameters of the URL; a \<open>?\<close> in the path can only put parameters in front and
  change the first.
\<close>

lemma url_params_tail:
  assumes "ps \<noteq> []" "CHR ''#'' \<notin> set e"
  shows "\<exists>before. url_params (API_BASE_URL @ e @ ''?'' @ params_toString (p # ps)) =
     before @ map (\<lambda>p. (utf8 (fst p), utf8 (snd p))) ps"
proof -
  let ?e = "filter (\<lambda>c. \<not> is_tab_or_newline c) e"
  let ?enc = "\<lambda>p. form_encode (fst p) @ ''='' @ form_encode (snd p)"
  let ?parse = "\<lambda>piece. (form_decode (takeWhile (\<lambda>c. c \<noteq> CHR ''='') piece),
                   form_decode (drop 1 (dropWhile (\<lambda>c. c \<noteq> CHR ''='') piece)))"
  let ?q = "params_toString (p # ps)"
  have b: "CHR ''#'' \<notin> set API_BASE_URL" "CHR ''?'' \<notin> set API_BASE_URL"
    by (simp_all add: API_BASE_URL_def)
  have i: "url_input (API_BASE_URL @ e @ ''?'' @ ?q) = API_BASE_URL @ ?e @ ''?'' @ ?q"
    by (intro url_input_serialised) simp
  from assms(2) b(1) params_toString_plain[of _ "p # ps"]
  have t: "takeWhile (\<lambda>c. c \<noteq> CHR ''#'') (API_BASE_URL @ ?e @ ''?'' @ ?q) = API_BASE_URL @ ?e @ ''?'' @ ?q"
    by (auto simp: takeWhile_eq_all_conv)
  have "\<exists>w. dropWhile (\<lambda>c. c \<noteq> CHR ''?'') (API_BASE_URL @ ?e @ ''?'' @ ?q) = CHR ''?'' # w @ ?q"
  proof (cases "CHR ''?'' \<in> set ?e")
    case True
    then obtain a r where s: "?e = a @ CHR ''?'' # r" "CHR ''?'' \<notin> set a"
      by (meson split_list_first)
    with b(2) have "dropWhile (\<lambda>c. c \<noteq> CHR ''?'') ((API_BASE_URL @ a) @ CHR ''?'' # (r @ ''?'') @ ?q) =
        CHR ''?'' # (r @ ''?'') @ ?q"
      by (subst dropWhile_append2) auto
    then have "dropWhile (\<lambda>c. c \<noteq> CHR ''?'') (API_BASE_URL @ ?e @ ''?'' @ ?q) =
        CHR ''?'' # (r @ ''?'') @ ?q"
      unfolding s(1) by simp
    then show ?thesis by blast
  next
    case False
    with b(2) have "dropWhile (\<lambda>c. c \<noteq> CHR ''?'') ((API_BASE_URL @ ?e) @ CHR ''?'' # [] @ ?q) =
        CHR ''?'' # [] @ ?q"
      by (subst dropWhile_append2) auto
    then have "dropWhile (\<lambda>c. c \<noteq> CHR ''?'') (API_BASE_URL @ ?e @ ''?'' @ ?q) = CHR ''?'' # [] @ ?q"
      by simp
    then show ?thesis by blast
  qed
  then obtain w where q: "url_query (API_BASE_URL @ e @ ''?'' @ ?q) = w @ ?q"
    unfolding url_query_def i t by auto
  obtain p' ps' where ps: "ps = p' # ps'"
    using assms(1) by (cases ps) auto
  have j: "?q = ?enc p @ CHR ''&'' # params_toString ps"
    unfolding ps by (simp add: params_toString_def)
  have plain: "\<And>p x. x \<in> set (?enc p) \<Longrightarrow> x \<noteq> CHR ''&''"
    using form_encode_plain by auto
  have rest: "split_on CHR ''&'' (params_toString ps) = map ?enc ps"
    unfolding params_toString_def
    using assms(1) plain by (intro split_on_join) auto
  have pieces: "split_on CHR ''&'' (w @ ?q) = split_on CHR ''&'' (w @ ?enc p) @ map ?enc ps"
    unfolding j using split_on_sep[of "CHR ''&''" "w @ ?enc p" "params_toString ps"] rest by simp
  have full: "filter (\<lambda>piece. piece \<noteq> []) (map ?enc ps) = map ?enc ps"
    by (intro filter_True) auto
  have eq: "\<And>p. CHR ''='' \<notin> set (form_encode (fst p))"
    using form_encode_plain by blast
  have parsed: "map ?parse (map ?enc ps) = map (\<lambda>p. (utf8 (fst p), utf8 (snd p))) ps"
    by (simp add: pair_piece[OF eq] form_decode_encode comp_def)
  have "url_params (API_BASE_URL @ e @ ''?'' @ ?q) =
      map ?parse (filter (\<lambda>piece. piece \<noteq> []) (split_on CHR ''&'' (w @ ?enc p))) @
      map (\<lambda>p. (utf8 (fst p), utf8 (snd p))) ps"
    unfolding url_params_def q pieces by (simp only: filter_append map_append full parsed)
  then show ?thesis by blast
qed

section \<open>The query of a request\<close>

lemma fst_request: "fst (request env c e opts x) = build_request c e opts x"
  by (simp add: request_def Let_def)

lemma query_build_request: "req_query (build_request c e opts x) = request_params c x"
  by (simp add: build_request_def Let_def)

lemma snd_request:
  "fetch env (fst (request env c e opts x)) = Responded response \<Longrightarrow>
     snd (request env c e opts x) = handle_response env response"
  by (simp add: request_def Let_def)

lemma names_params_set: "fst ` set (params_set k v ps) = insert k (fst ` set ps)"
  by (induction ps) auto

lemma set_params_set_subset: "set (params_set k v ps) \<subseteq> insert (k, v) (set ps)"
  by (induction ps) auto

lemma names_add_entry:
  "fst ` set (add_entry kv ps) =
     (if snd kv \<noteq> PUndefined \<and> snd kv \<noteq> PNull \<and> snd kv \<noteq> PString [] then insert (fst kv) (fst ` set ps)
      else fst ` set ps)"
  by (simp add: add_entry_def names_params_set)

lemma names_fold_add_entry:
  "fst ` set (fold add_entry es ps) =
     fst ` set ps \<union> fst ` {kv \<in> set es. snd kv \<noteq> PUndefined \<and> snd kv \<noteq> PNull \<and> snd kv \<noteq> PString []}"
  by (induction es arbitrary: ps) (auto simp: names_add_entry)

lemma set_add_entry:
  "p \<in> set (add_entry kv ps) \<Longrightarrow> p \<in> set ps \<or> (snd p \<noteq> [] \<and> kv = (fst p, PString (snd p)))"
proof -
  assume a: "p \<in> set (add_entry kv ps)"
  show ?thesis
  proof (cases "snd kv \<noteq> PUndefined \<and> snd kv \<noteq> PNull \<and> snd kv \<noteq> PString []")
    case True
    then obtain s where s: "snd kv = PString s" "s \<noteq> []" by (cases "snd kv") auto
    from a True have "p \<in> insert (fst kv, param_string (snd kv)) (set ps)"
      using set_params_set_subset by (auto simp: add_entry_def)
    then show ?thesis using s by (cases kv) (auto simp: param_string_def)
  next
    case False
    with a show ?thesis by (simp add: add_entry_def)
  qed
qed

lemma set_fold_add_entry:
  "p \<in> set (fold add_entry es ps) \<Longrightarrow>
     p \<in> set ps \<or> (snd p \<noteq> [] \<and> (fst p, PString (snd p)) \<in> set es)"
proof (induction es arbitrary: ps)
  case Nil
  then show ?case by simp
next
  case (Cons kv es)
  from Cons.prems have "p \<in> set (fold add_entry es (add_entry kv ps))" by simp
  from Cons.IH[OF this] show ?case using set_add_entry[of p kv ps] by auto
qed

lemma request_params_nonempty:
  assumes "(k, v) \<in> set (request_params c x)" "k \<noteq> ''key''" "k \<noteq> ''token''"
  shows "v \<noteq> [] \<and> (\<exists>es. x = Some es \<and> (k, PString v) \<in> set es)"
proof (cases x)
  case None
  with assms show ?thesis by (auto simp: request_params_def getAuthParams_def)
next
  case (Some es)
  with assms have "(k, v) \<in> set (fold add_entry es (getAuthParams c))"
    by (simp add: request_params_def)
  from set_fold_add_entry[OF this] assms(2,3) Some show ?thesis
    by (auto simp: getAuthParams_def)
qed

lemma request_params_excluded:
  assumes "distinct (map fst es)" "(k, x) \<in> set es" "x = PUndefined \<or> x = PNull \<or> x = PString []"
    "k \<noteq> ''key''" "k \<noteq> ''token''"
  shows "k \<notin> fst ` set (request_params c (Some es))"
proof
  assume "k \<in> fst ` set (request_params c (Some es))"
  then have "k \<in> fst ` set (getAuthParams c) \<union>
     fst ` {kv \<in> set es. snd kv \<noteq> PUndefined \<and> snd kv \<noteq> PNull \<and> snd kv \<noteq> PString []}"
    by (simp add: request_params_def names_fold_add_entry)
  with assms(4,5) obtain y where y: "(k, y) \<in> set es" "y \<noteq> PUndefined \<and> y \<noteq> PNull \<and> y \<noteq> PString []"
    by (auto simp: getAuthParams_def)
  from assms(1,2) y(1) have "x = y" by (meson eq_key_imp_eq_value)
  with assms(3) y(2) show False by auto
qed

lemma request_params_not_Nil: "request_params c x \<noteq> []"
proof -
  have "''key'' \<in> fst ` set (request_params c x)"
    by (cases x) (simp_all add: request_params_def names_fold_add_entry getAuthParams_def)
  then show ?thesis by auto
qed

lemma url_of_build_request:
  "req_url (build_request c e opts x) =
     API_BASE_URL @ e @ ''?'' @ params_toString (request_params c x)"
  by (simp add: build_request_def Let_def)

text \<open>
  What the URL of a request carries, for an endpoint without a \<open>?\<close>: nothing when the
  endpoint holds a \<open>#\<close>, and otherwise the parameters of the \<open>URLSearchParams\<close> object, in
  UTF-8.
\<close>

lemma url_build_request:
  assumes "CHR ''?'' \<notin> set e"
  shows "url_params (req_url (build_request c e opts x)) =
     (if CHR ''#'' \<in> set e then []
      else map (\<lambda>p. (utf8 (fst p), utf8 (snd p))) (request_params c x))"
  unfolding url_of_build_request
  using url_params_serialised[OF request_params_not_Nil assms, of c x]
    url_params_fragment[OF request_params_not_Nil assms, of c x]
  by simp

lemma single_query_build_request:
  "single_query (req_url (build_request c e opts x)) \<longleftrightarrow> CHR ''?'' \<notin> set e"
proof -
  let ?q = "params_toString (request_params c x)"
  have "CHR ''?'' \<notin> set ?q"
    using params_toString_plain by blast
  then have "count_list ?q CHR ''?'' = 0" by (simp add: count_list_0_iff)
  moreover have "count_list API_BASE_URL CHR ''?'' = 0"
    by (simp add: API_BASE_URL_def)
  ultimately show ?thesis
    unfolding url_of_build_request by (simp add: single_query_def count_list_0_iff)
qed

lemma fragment_build_request:
  "CHR ''#'' \<in> set (req_url (build_request c e opts x)) \<longleftrightarrow> CHR ''#'' \<in> set e"
proof -
  have "CHR ''#'' \<notin> set (params_toString (request_params c x))"
    using params_toString_plain by blast
  then show ?thesis
    unfolding url_of_build_request by (simp add: API_BASE_URL_def)
qed

section \<open>Every operation goes through the request helper\<close>

lemmas member_defs = getMe_def getMember_def getMemberBoards_def getMemberCards_def
  getMemberOrganizations_def

lemmas board_defs = listBoards_def getMemberBoards_def getBoard_def createBoard_def updateBoard_def
  deleteBoard_def getBoardMembers_def getBoardLists_def getBoardCards_def getBoardLabels_def
  getBoardActions_def getBoardChecklists_def getBoardCustomFields_def addMemberToBoard_def
  removeMemberFromBoard_def

lemmas list_defs = getList_def createList_def updateList_def archiveList_def unarchiveList_def
  getListCards_def archiveAllCardsInList_def moveAllCardsInList_def

lemmas card_defs = getCard_def createCard_def updateCard_def deleteCard_def archiveCard_def
  unarchiveCard_def moveCard_def getCardActions_def getCardAttachments_def
  addAttachmentToCard_def deleteAttachment_def getCardChecklists_def addCommentToCard_def
  getCardComments_def updateComment_def deleteComment_def addLabelToCard_def
  removeLabelFromCard_def addMemberToCard_def removeMemberFromCard_def
  getCardCustomFieldItems_def setCardCustomFieldValue_def

lemmas label_defs = getLabel_def createLabel_def updateLabel_def deleteLabel_def

lemmas checklist_defs = getChecklist_def createChecklist_def updateChecklist_def
  deleteChecklist_def getCheckItems_def createCheckItem_def updateCheckItem_def
  deleteCheckItem_def

lemmas customfield_defs = getCustomField_def createCustomField_def updateCustomField_def
  deleteCustomField_def getCustomFieldOptions_def addCustomFieldOption_def
  deleteCustomFieldOption_def

lemmas organization_defs = getOrganization_def createOrganization_def updateOrganization_def
  deleteOrganization_def getOrganizationMembers_def getOrganizationBoards_def

lemmas search_defs = getAction_def search_def searchMembers_def

lemmas webhook_defs = getWebhook_def getWebhooks_def createWebhook_def updateWebhook_def
  deleteWebhook_def

lemma perform_member_via:
  "\<exists>e opts x. perform_member env c op = request env c e opts x \<or>
     perform_member env c op = returning_void (request env c e opts x)"
  by (cases op) (simp_all add: member_defs Let_def, blast+)

lemma perform_board_via:
  "\<exists>e opts x. perform_board env c op = request env c e opts x \<or>
     perform_board env c op = returning_void (request env c e opts x)"
  by (cases op) (simp_all add: board_defs Let_def, blast+)

lemma perform_list_via:
  "\<exists>e opts x. perform_list env c op = request env c e opts x \<or>
     perform_list env c op = returning_void (request env c e opts x)"
  by (cases op) (simp_all add: list_defs Let_def, blast+)

lemma perform_card_via:
  "\<exists>e opts x. perform_card env c op = request env c e opts x \<or>
     perform_card env c op = returning_void (request env c e opts x)"
  by (cases op) (simp_all add: card_defs Let_def, blast+)

lemma perform_label_via:
  "\<exists>e opts x. perform_label env c op = request env c e opts x \<or>
     perform_label env c op = returning_void (request env c e opts x)"
  by (cases op) (simp_all add: label_defs Let_def, blast+)

lemma perform_checklist_via:
  "\<exists>e opts x. perform_checklist env c op = request env c e opts x \<or>
     perform_checklist env c op = returning_void (request env c e opts x)"
  by (cases op) (simp_all add: checklist_defs Let_def, blast+)

lemma perform_customfield_via:
  "\<exists>e opts x. perform_customfield env c op = request env c e opts x \<or>
     perform_customfield env c op = returning_void (request env c e opts x)"
  by (cases op) (simp_all add: customfield_defs Let_def, blast+)

lemma perform_organization_via:
  "\<exists>e opts x. perform_organization env c op = request env c e opts x \<or>
     perform_organization env c op = returning_void (request env c e opts x)"
  by (cases op) (simp_all add: organization_defs Let_def, blast+)

lemma perform_search_via:
  "\<exists>e opts x. perform_search env c op = request env c e opts x \<or>
     perform_search env c op = returning_void (request env c e opts x)"
  by (cases op) (simp_all add: search_defs Let_def, blast+)

lemma perform_webhook_via:
  "\<exists>e opts x. perform_webhook env c op = request env c e opts x \<or>
     perform_webhook env c op = returning_void (request env c e opts x)"
  by (cases op) (simp_all add: webhook_defs Let_def, blast+)

lemma fst_returning_void: "fst (returning_void r) = fst r"
  by (simp add: returning_void_def)

lemma fst_returned: "fst (returned r) = fst r"
  by (simp add: returned_def)

lemma lift_via:
  assumes "\<exists>e opts x. r = request env c e opts x \<or> r = returning_void (request env c e opts x)"
    and "p = returned r"
  shows "\<exists>e opts x. p = returned (request env c e opts x) \<or>
     p = returned (returning_void (request env c e opts x))"
  using assms by blast

lemma perform_via:
  assumes "op \<noteq> TestConnection"
  shows "\<exists>e opts x. perform env c op = returned (request env c e opts x) \<or>
     perform env c op = returned (returning_void (request env c e opts x))"
proof (cases op)
  case TestConnection
  with assms show ?thesis by simp
next
  case (Members m)
  then show ?thesis by (intro lift_via[OF perform_member_via]) simp
next
  case (Boards b)
  then show ?thesis by (intro lift_via[OF perform_board_via]) simp
next
  case (Lists l)
  then show ?thesis by (intro lift_via[OF perform_list_via]) simp
next
  case (Cards k)
  then show ?thesis by (intro lift_via[OF perform_card_via]) simp
next
  case (Labels l)
  then show ?thesis by (intro lift_via[OF perform_label_via]) simp
next
  case (Checklists k)
  then show ?thesis by (intro lift_via[OF perform_checklist_via]) simp
next
  case (CustomFields f)
  then show ?thesis by (intro lift_via[OF perform_customfield_via]) simp
next
  case (Organizations g)
  then show ?thesis by (intro lift_via[OF perform_organization_via]) simp
next
  case (Searches s)
  then show ?thesis by (intro lift_via[OF perform_search_via]) simp
next
  case (Webhooks w)
  then show ?thesis by (intro lift_via[OF perform_webhook_via]) simp
qed

lemma perform_sends: "\<exists>e opts x. fst (perform env c op) = build_request c e opts x"
proof (cases "op = TestConnection")
  case True
  then show ?thesis
    by (auto simp: reported_def testConnection_def getMe_def Let_def fst_request)
next
  case False
  from perform_via[OF False] obtain e opts x where
    "perform env c op = returned (request env c e opts x) \<or>
     perform env c op = returned (returning_void (request env c e opts x))"
    by blast
  then have "fst (perform env c op) = build_request c e opts x"
    by (auto simp: fst_returned fst_returning_void fst_request)
  then show ?thesis by blast
qed

lemma request_error:
  assumes "fetch env (fst (request env c e opts x)) = Responded resp"
    and "handle_response env resp = Inl err"
  shows "snd (request env c e opts x) = Inl err"
  using assms by (simp add: request_def Let_def)

lemma perform_error:
  assumes "op \<noteq> TestConnection"
    and "fetch env (fst (perform env c op)) = Responded resp"
    and "handle_response env resp = Inl err"
  shows "snd (perform env c op) = Inl err"
proof -
  from perform_via[OF assms(1)] obtain e opts x where
    p: "perform env c op = returned (request env c e opts x) \<or>
        perform env c op = returned (returning_void (request env c e opts x))"
    by blast
  then have "fst (perform env c op) = fst (request env c e opts x)"
    by (auto simp: fst_returning_void fst_returned)
  with assms(2) have "fetch env (fst (request env c e opts x)) = Responded resp"
    by simp
  from request_error[OF this assms(3)] have "snd (request env c e opts x) = Inl err" .
  with p show ?thesis by (auto simp: returned_def returning_void_def)
qed

lemma testConnection_error:
  assumes "fetch env (fst (perform env c TestConnection)) = Responded resp"
    and "handle_response env resp = Inl err"
  shows "snd (perform env c TestConnection) =
     Inr (Connection \<lparr> connected = False, message = error_message err \<rparr>)"
proof -
  from assms(1) have "fetch env (fst (request env c ''/members/me'' no_options None)) = Responded resp"
    by (simp add: reported_def testConnection_def getMe_def Let_def)
  from request_error[OF this assms(2)] show ?thesis
    by (simp add: reported_def testConnection_def getMe_def Let_def)
qed

lemma handle_response_401:
  "status resp = 401 \<Longrightarrow>
     handle_response env resp = Inl (AuthenticationError ''Invalid API key or token'')"
  by (simp add: handle_response_def)

lemma handle_response_429:
  "status resp = 429 \<Longrightarrow>
     handle_response env resp =
       Inl (RateLimitError ''Rate limit exceeded''
             (case headers_get resp ''Retry-After'' of
                None \<Rightarrow> Integer 60
              | Some h \<Rightarrow> if h \<noteq> [] then parseInt h else Integer 60))"
  by (simp add: handle_response_def)

lemma url_params_perform:
  assumes "single_query (req_url (fst (perform env c op)))"
  shows "url_params (req_url (fst (perform env c op))) =
     (if CHR ''#'' \<in> set (req_url (fst (perform env c op))) then []
      else map (\<lambda>p. (utf8 (fst p), utf8 (snd p))) (req_query (fst (perform env c op))))"
proof -
  obtain e opts x where s: "fst (perform env c op) = build_request c e opts x"
    using perform_sends by blast
  with assms have "CHR ''?'' \<notin> set e"
    by (simp add: single_query_build_request)
  from url_build_request[OF this] show ?thesis
    by (simp add: s query_build_request fragment_build_request)
qed

lemma utf8_key: "utf8 ''key'' = ''key''" "utf8 ''token'' = ''token''"
  by (simp_all add: utf8_def utf8_char_def)

lemma url_values_nonempty:
  assumes "(k, v) \<in> set (map (\<lambda>p. (utf8 (fst p), utf8 (snd p))) (request_params c x))"
    and "k \<noteq> ''key''" "k \<noteq> ''token''"
  shows "v \<noteq> [] \<and>
     (\<exists>es k' v'. x = Some es \<and> (k', PString v') \<in> set es \<and> k = utf8 k' \<and> v = utf8 v')"
proof -
  from assms(1) obtain k' v' where p: "(k', v') \<in> set (request_params c x)"
    "k = utf8 k'" "v = utf8 v'"
    by auto
  with assms(2,3) have "k' \<noteq> ''key''" "k' \<noteq> ''token''"
    using utf8_key by auto
  from request_params_nonempty[OF p(1) this] p(2,3) show ?thesis
    by (auto simp: utf8_empty)
qed

text \<open>
  Claim C10, as amended. Invariant of the shared request helper, read in the URL that
  \<open>fetch\<close> is called with. For an endpoint that holds no \<open>?\<close>, and every options and
  extra-parameter map: a parameter that the URL carries, other than \<open>key\<close> and \<open>token\<close>, has
  a non-empty value, and its name and value are those of an entry of the map (in UTF-8); an
  entry of the map whose value is \<open>undefined\<close>, \<open>null\<close> or the empty string leaves no
  parameter of its name in the URL (the keys of the map being distinct, as those of an
  object are); and when the endpoint holds no \<open>#\<close> either, the URL carries the parameters
  of the \<open>URLSearchParams\<close> object and no other. Every client operation whose URL has one
  \<open>?\<close>, which is to say whose identifiers bring none into the path, sends only non-empty
  values besides the credentials.
\<close>

theorem query_values_nonempty:
  "(CHR ''?'' \<notin> set endpoint \<longrightarrow>
      (\<forall>k v. (k, v) \<in> set (url_params (req_url (fst (request env c endpoint options extraParams)))) \<and>
             k \<noteq> ''key'' \<and> k \<noteq> ''token'' \<longrightarrow>
             v \<noteq> [] \<and>
             (\<exists>entries k' v'. extraParams = Some entries \<and> (k', PString v') \<in> set entries \<and>
                              k = utf8 k' \<and> v = utf8 v')) \<and>
      (\<forall>entries k x. extraParams = Some entries \<and> distinct (map fst entries) \<and>
             (k, x) \<in> set entries \<and> (x = PUndefined \<or> x = PNull \<or> x = PString []) \<and>
             k \<noteq> ''key'' \<and> k \<noteq> ''token'' \<longrightarrow>
             utf8 k \<notin> fst ` set (url_params (req_url (fst (request env c endpoint options extraParams))))) \<and>
      (CHR ''#'' \<notin> set endpoint \<longrightarrow>
         url_params (req_url (fst (request env c endpoint options extraParams))) =
           map (\<lambda>p. (utf8 (fst p), utf8 (snd p)))
             (req_query (fst (request env c endpoint options extraParams))))) \<and>
   (\<forall>op. single_query (req_url (fst (perform env c op))) \<longrightarrow>
      (\<forall>k v. (k, v) \<in> set (url_params (req_url (fst (perform env c op)))) \<and>
             k \<noteq> ''key'' \<and> k \<noteq> ''token'' \<longrightarrow> v \<noteq> []))"
proof (intro conjI allI impI)
  fix k v
  assume e: "CHR ''?'' \<notin> set endpoint"
    and a: "(k, v) \<in> set (url_params (req_url (fst (request env c endpoint options extraParams)))) \<and>
             k \<noteq> ''key'' \<and> k \<noteq> ''token''"
  note u = url_build_request[OF e, of c options extraParams]
  from a have "(k, v) \<in> set (map (\<lambda>p. (utf8 (fst p), utf8 (snd p))) (request_params c extraParams))"
    "k \<noteq> ''key''" "k \<noteq> ''token''"
    unfolding fst_request u by (simp_all split: if_splits)
  from url_values_nonempty[OF this]
  show "v \<noteq> []"
    and "\<exists>entries k' v'. extraParams = Some entries \<and> (k', PString v') \<in> set entries \<and>
                              k = utf8 k' \<and> v = utf8 v'"
    by simp_all
next
  fix entries k x
  assume e: "CHR ''?'' \<notin> set endpoint"
    and a: "extraParams = Some entries \<and> distinct (map fst entries) \<and>
             (k, x) \<in> set entries \<and> (x = PUndefined \<or> x = PNull \<or> x = PString []) \<and>
             k \<noteq> ''key'' \<and> k \<noteq> ''token''"
  note u = url_build_request[OF e, of c options extraParams]
  from a have n: "k \<notin> fst ` set (request_params c (Some entries))"
    by (intro request_params_excluded[of entries k x]) simp_all
  show "utf8 k \<notin> fst ` set (url_params (req_url (fst (request env c endpoint options extraParams))))"
  proof
    assume "utf8 k \<in> fst ` set (url_params (req_url (fst (request env c endpoint options extraParams))))"
    then obtain p where "p \<in> set (request_params c extraParams)" "utf8 k = utf8 (fst p)"
      unfolding fst_request u by (auto split: if_splits)
    with utf8_inj[of k "fst p"] have "k \<in> fst ` set (request_params c extraParams)" by auto
    with n a show False by simp
  qed
next
  assume "CHR ''?'' \<notin> set endpoint" "CHR ''#'' \<notin> set endpoint"
  then show "url_params (req_url (fst (request env c endpoint options extraParams))) =
           map (\<lambda>p. (utf8 (fst p), utf8 (snd p)))
             (req_query (fst (request env c endpoint options extraParams)))"
    by (simp add: fst_request url_build_request query_build_request)
next
  fix op k v
  assume s: "single_query (req_url (fst (perform env c op)))"
    and a: "(k, v) \<in> set (url_params (req_url (fst (perform env c op)))) \<and>
             k \<noteq> ''key'' \<and> k \<noteq> ''token''"
  obtain e opts x where b: "fst (perform env c op) = build_request c e opts x"
    using perform_sends by blast
  from a have "(k, v) \<in> set (map (\<lambda>p. (utf8 (fst p), utf8 (snd p))) (request_params c x))"
    "k \<noteq> ''key''" "k \<noteq> ''token''"
    unfolding url_params_perform[OF s] by (simp_all add: b query_build_request split: if_splits)
  from url_values_nonempty[OF this] show "v \<noteq> []" by simp
qed

text \<open>
  C10 as amended, at a concrete extra-parameter map: the name is sent, the empty due date
  and the null start date are not.
\<close>

theorem query_values_nonempty_witness:
  "CHR ''?'' \<notin> set ''/cards/c1'' \<and>
   req_url (fst (request (answering (plain_response 200 None [])) sample_credentials
       ''/cards/c1'' (with_method ''PUT'') (Some sample_entries))) =
     ''https://api.trello.com/1/cards/c1?key=k&token=t&name=Report'' \<and>
   (''name'', ''Report'') \<in> set (url_params (req_url (fst (request
       (answering (plain_response 200 None [])) sample_credentials
       ''/cards/c1'' (with_method ''PUT'') (Some sample_entries))))) \<and>
   ''Report'' \<noteq> [] \<and>
   distinct (map fst sample_entries) \<and>
   (''due'', PString []) \<in> set sample_entries \<and>
   ''due'' \<notin> fst ` set (url_params (req_url (fst (request
       (answering (plain_response 200 None [])) sample_credentials
       ''/cards/c1'' (with_method ''PUT'') (Some sample_entries)))))"
proof -
  let ?r = "fst (request (answering (plain_response 200 None [])) sample_credentials
       ''/cards/c1'' (with_method ''PUT'') (Some sample_entries))"
  have u: "req_url ?r = ''https://api.trello.com/1/cards/c1?key=k&token=t&name=Report''"
    by (simp add: fst_request build_request_def request_params_def sample_entries_def
        getAuthParams_def add_entry_def param_string_def sample_credentials_def API_BASE_URL_def
        params_toString_def form_encode_def form_encode_char_def is_alnum_def Let_def)
  have h0: "CHR ''?'' \<notin> set ''/cards/c1''"
    by simp
  have h1: "(''name'', ''Report'') \<in> set (url_params (req_url ?r))"
    unfolding u
    by (simp add: url_params_def url_query_def url_input_def is_c0_or_space_def
        is_tab_or_newline_def form_decode.simps is_hex_def hex_value_def utf8_char_def)
  have h2: "distinct (map fst sample_entries)"
    by (simp add: sample_entries_def)
  have h3: "(''due'', PString []) \<in> set sample_entries"
    by (simp add: sample_entries_def)
  have h4: "utf8 ''due'' = ''due''"
    by (simp add: utf8_def utf8_char_def)
  note t = query_values_nonempty[of "''/cards/c1''" "answering (plain_response 200 None [])"
      sample_credentials "with_method ''PUT''" "Some sample_entries"]
  from t h0 h1 have "''Report'' \<noteq> []" by blast
  moreover from t h0 have e: "\<forall>entries k x. Some sample_entries = Some entries \<and>
      distinct (map fst entries) \<and> (k, x) \<in> set entries \<and>
      (x = PUndefined \<or> x = PNull \<or> x = PString []) \<and> k \<noteq> ''key'' \<and> k \<noteq> ''token'' \<longrightarrow>
      utf8 k \<notin> fst ` set (url_params (req_url ?r))"
    by blast
  from e[rule_format, of sample_entries "''due''" "PString []"] h2 h3
  have "utf8 ''due'' \<notin> fst ` set (url_params (req_url ?r))" by simp
  ultimately show ?thesis using u h0 h1 h2 h3 h4 by simp
qed

text \<open>
  C10 as first stated fails where an identifier brings a query of its own: \<open>getCard\<close> on
  the identifier \<open>c1?due=&x\<close> is sent to a URL whose first parameter is \<open>due\<close> with the empty
  value (and which has lost the parameter \<open>key\<close>).
\<close>

theorem injected_empty_parameter:
  "req_url (fst (perform (answering (plain_response 200 None [])) sample_credentials
       (Cards (GetCard ''c1?due=&x'')))) =
     ''https://api.trello.com/1/cards/c1?due=&x?key=k&token=t&checklists=all&attachments=true'' \<and>
   url_params (req_url (fst (perform (answering (plain_response 200 None [])) sample_credentials
       (Cards (GetCard ''c1?due=&x''))))) =
     [(''due'', []), (''x?key'', ''k''), (''token'', ''t''), (''checklists'', ''all''),
      (''attachments'', ''true'')]"
proof -
  have u: "req_url (fst (perform (answering (plain_response 200 None [])) sample_credentials
       (Cards (GetCard ''c1?due=&x'')))) =
     ''https://api.trello.com/1/cards/c1?due=&x?key=k&token=t&checklists=all&attachments=true''"
    by (simp add: fst_returned getCard_def fst_request build_request_def request_params_def
        getAuthParams_def add_entry_def param_string_def sample_credentials_def API_BASE_URL_def
        params_toString_def form_encode_def form_encode_char_def is_alnum_def Let_def)
  show ?thesis
    unfolding u
    by (simp add: url_params_def url_query_def url_input_def is_c0_or_space_def
        is_tab_or_newline_def form_decode.simps is_hex_def hex_value_def utf8_char_def)
qed

section \<open>Classified failures\<close>

text \<open>
  Claim C3, as amended. When the upstream answers 401, every client operation other than
  \<open>testConnection\<close> ends in the \<open>AuthenticationError\<close> that the request helper raised, with
  nothing changed; \<open>testConnection\<close> catches the error and returns a report that is not
  connected and carries the error's message.
\<close>

theorem unauthorized_response:
  assumes "fetch env (fst (perform env c op)) = Responded response"
    and "status response = 401"
  shows "snd (perform env c op) =
     (if op = TestConnection
      then Inr (Connection \<lparr> connected = False, message = ''Invalid API key or token'' \<rparr>)
      else Inl (AuthenticationError ''Invalid API key or token''))"
proof (cases "op = TestConnection")
  case True
  with assms(1) have "fetch env (fst (perform env c TestConnection)) = Responded response" by simp
  from testConnection_error[OF this handle_response_401[OF assms(2)]] True
  show ?thesis by (simp add: error_message_def)
next
  case False
  from perform_error[OF False assms(1) handle_response_401[OF assms(2)]] False
  show ?thesis by simp
qed

text \<open>C3 as amended, at \<open>getCard\<close> against a platform that answers 401.\<close>

theorem unauthorized_response_witness:
  "fetch (answering (plain_response 401 None ''unauthorized''))
       (fst (perform (answering (plain_response 401 None ''unauthorized'')) sample_credentials
              (Cards (GetCard ''c1'')))) =
     Responded (plain_response 401 None ''unauthorized'') \<and>
   status (plain_response 401 None ''unauthorized'') = 401 \<and>
   snd (perform (answering (plain_response 401 None ''unauthorized'')) sample_credentials
          (Cards (GetCard ''c1''))) =
     Inl (AuthenticationError ''Invalid API key or token'')"
proof -
  have h1: "fetch (answering (plain_response 401 None ''unauthorized''))
       (fst (perform (answering (plain_response 401 None ''unauthorized'')) sample_credentials
              (Cards (GetCard ''c1'')))) =
     Responded (plain_response 401 None ''unauthorized'')"
    by (simp add: answering_def)
  have h2: "status (plain_response 401 None ''unauthorized'') = 401"
    by (simp add: plain_response_def)
  show ?thesis using unauthorized_response[OF h1 h2] h1 h2 by simp
qed

text \<open>
  C3 as first stated fails at \<open>testConnection\<close>: against a platform that answers 401 the
  call returns a value, not an \<open>AuthenticationError\<close>.
\<close>

theorem testConnection_swallows_unauthorized:
  "fetch (answering (plain_response 401 None ''unauthorized''))
       (fst (perform (answering (plain_response 401 None ''unauthorized'')) sample_credentials
              TestConnection)) =
     Responded (plain_response 401 None ''unauthorized'') \<and>
   status (plain_response 401 None ''unauthorized'') = 401 \<and>
   snd (perform (answering (plain_response 401 None ''unauthorized'')) sample_credentials
          TestConnection) =
     Inr (Connection \<lparr> connected = False, message = ''Invalid API key or token'' \<rparr>)"
  by (simp add: answering_def plain_response_def reported_def testConnection_def getMe_def
      request_def handle_response_def error_message_def Let_def)

text \<open>
  Claim C4, as amended. When the upstream answers 429, every client operation other than
  \<open>testConnection\<close> ends in a retryable \<open>RateLimitError\<close>. Its delay is 60 when the response
  has no \<open>Retry-After\<close> header or an empty one, and otherwise what \<open>parseInt\<close> reads in the
  header; for a header that is the decimal numeral of \<open>n\<close>, with \<open>n\<close> up to \<open>2 ^ 53\<close>, that is
  the number \<open>n\<close>. \<open>testConnection\<close> catches the error and returns a report that is not
  connected and carries the error's message.
\<close>

theorem rate_limited_response:
  assumes "fetch env (fst (perform env c op)) = Responded response"
    and "status response = 429"
  shows "if op = TestConnection
     then snd (perform env c op) =
            Inr (Connection \<lparr> connected = False, message = ''Rate limit exceeded'' \<rparr>)
     else (\<exists>delay.
            snd (perform env c op) = Inl (RateLimitError ''Rate limit exceeded'' delay) \<and>
            retryable (RateLimitError ''Rate limit exceeded'' delay) \<and>
            delay = (case headers_get response ''Retry-After'' of
                       None \<Rightarrow> Integer 60
                     | Some h \<Rightarrow> if h = [] then Integer 60 else parseInt h) \<and>
            (\<forall>n. n \<le> 2 ^ 53 \<and> headers_get response ''Retry-After'' = Some (nat_to_decimal n)
                 \<longrightarrow> delay = Integer (int n)))"
proof (cases "op = TestConnection")
  case True
  with assms(1) have "fetch env (fst (perform env c TestConnection)) = Responded response" by simp
  from testConnection_error[OF this handle_response_429[OF assms(2)]] True
  show ?thesis by (simp add: error_message_def)
next
  case False
  let ?delay = "case headers_get response ''Retry-After'' of
                  None \<Rightarrow> Integer 60
                | Some h \<Rightarrow> if h \<noteq> [] then parseInt h else Integer 60"
  from perform_error[OF False assms(1) handle_response_429[OF assms(2)]]
  have "snd (perform env c op) = Inl (RateLimitError ''Rate limit exceeded'' ?delay)" .
  moreover have "retryable (RateLimitError ''Rate limit exceeded'' ?delay)"
    by (simp add: retryable_def)
  moreover have "?delay = (case headers_get response ''Retry-After'' of
                       None \<Rightarrow> Integer 60
                     | Some h \<Rightarrow> if h = [] then Integer 60 else parseInt h)"
    by (simp split: option.splits)
  moreover have "\<forall>n. n \<le> 2 ^ 53 \<and> headers_get response ''Retry-After'' = Some (nat_to_decimal n)
                 \<longrightarrow> ?delay = Integer (int n)"
    by (simp add: nat_to_decimal_nonempty parseInt_nat_to_decimal)
  ultimately show ?thesis using False by auto
qed

text \<open>
  C4 as amended, at \<open>listBoards\<close> against a platform that answers 429 with
  \<open>Retry-After: 120\<close>.
\<close>

theorem rate_limited_response_witness:
  "fetch (answering (plain_response 429 (Some ''120'') []))
       (fst (perform (answering (plain_response 429 (Some ''120'') [])) sample_credentials
              (Boards (ListBoards None)))) =
     Responded (plain_response 429 (Some ''120'') []) \<and>
   status (plain_response 429 (Some ''120'') []) = 429 \<and>
   snd (perform (answering (plain_response 429 (Some ''120'') [])) sample_credentials
          (Boards (ListBoards None))) =
     Inl (RateLimitError ''Rate limit exceeded'' (Integer 120))"
proof -
  let ?r = "plain_response 429 (Some ''120'') []"
  have h1: "fetch (answering ?r)
       (fst (perform (answering ?r) sample_credentials (Boards (ListBoards None)))) = Responded ?r"
    by (simp add: answering_def)
  have h2: "status ?r = 429"
    by (simp add: plain_response_def)
  have h3: "headers_get ?r ''Retry-After'' = Some (nat_to_decimal 120)"
    by (simp add: plain_response_def decimal_120)
  have h4: "(120::nat) \<le> 2 ^ 53" by simp
  from rate_limited_response[OF h1 h2] obtain delay where
    d: "snd (perform (answering ?r) sample_credentials (Boards (ListBoards None))) =
          Inl (RateLimitError ''Rate limit exceeded'' delay)"
    and n: "\<forall>n. n \<le> 2 ^ 53 \<and> headers_get ?r ''Retry-After'' = Some (nat_to_decimal n)
              \<longrightarrow> delay = Integer (int n)"
    by auto
  from n[rule_format, of 120] h3 h4 have "delay = Integer 120" by simp
  with d h1 h2 show ?thesis by simp
qed

text \<open>
  C4 as first stated fails in these places. At \<open>testConnection\<close> the call returns a value,
  not a \<open>RateLimitError\<close>. With a \<open>Retry-After\<close> header that is present and empty the delay is
  60, where the numeric value of the empty string is 0. With the header \<open>1e3\<close>, whose numeric
  value is 1000, the delay is 1: the header is read by \<open>parseInt\<close>, which stops at the first
  code unit that is not a digit. With a header that is a date, the other form that HTTP
  gives to \<open>Retry-After\<close>, the delay is \<open>NaN\<close>.
\<close>

theorem rate_limit_delay_exceptions:
  "snd (perform (answering (plain_response 429 (Some ''120'') [])) sample_credentials
          TestConnection) =
     Inr (Connection \<lparr> connected = False, message = ''Rate limit exceeded'' \<rparr>) \<and>
   headers_get (plain_response 429 (Some []) []) ''Retry-After'' = Some [] \<and>
   snd (perform (answering (plain_response 429 (Some []) [])) sample_credentials
          (Boards (ListBoards None))) =
     Inl (RateLimitError ''Rate limit exceeded'' (Integer 60)) \<and>
   headers_get (plain_response 429 (Some ''1e3'') []) ''Retry-After'' = Some ''1e3'' \<and>
   snd (perform (answering (plain_response 429 (Some ''1e3'') [])) sample_credentials
          (Boards (ListBoards None))) =
     Inl (RateLimitError ''Rate limit exceeded'' (Integer 1)) \<and>
   headers_get (plain_response 429 (Some ''Fri, 31 Dec 1999 23:59:59 GMT'') []) ''Retry-After'' =
     Some ''Fri, 31 Dec 1999 23:59:59 GMT'' \<and>
   snd (perform (answering (plain_response 429 (Some ''Fri, 31 Dec 1999 23:59:59 GMT'') []))
          sample_credentials (Boards (ListBoards None))) =
     Inl (RateLimitError ''Rate limit exceeded'' NaN)"
  by (simp add: answering_def plain_response_def reported_def testConnection_def getMe_def
      returned_def listBoards_def getMemberBoards_def request_def handle_response_def
      error_message_def Let_def parseInt_def is_white_space_def is_digit_def digits_value_def digit_value_def
      round_to_double_def bit_length.simps)

section \<open>Fields and parameters\<close>






































text \<open>The names on the wire are ASCII, so that their UTF-8 bytes are the names themselves.\<close>

lemmas utf8_literal = utf8_def utf8_char_def















text \<open>
  Claim C1 says that a nullable field set to \<open>null\<close> on an update is sent as an empty-valued
  parameter. The code does not do so. For \<open>updateCard\<close> with \<open>due: null\<close> the method
  prepares \<open>due\<close> with the empty string, and the request helper, which skips empty values,
  sends the request without it; likewise for \<open>due\<close> and \<open>idMember\<close> of \<open>updateCheckItem\<close>.
\<close>

theorem updateCard_drops_null_due:
  "updateCard_params (no_card_update \<lparr> cu_due := Some Null \<rparr>) = [(''due'', PString [])] \<and>
   req_query (fst (updateCard env sample_credentials ''c1'' (no_card_update \<lparr> cu_due := Some Null \<rparr>))) =
     [(''key'', ''k''), (''token'', ''t'')] \<and>
   req_url (fst (updateCard env sample_credentials ''c1'' (no_card_update \<lparr> cu_due := Some Null \<rparr>))) =
     ''https://api.trello.com/1/cards/c1?key=k&token=t'' \<and>
   updateCheckItem_params sample_checkitem_update =
     [(''due'', PString []), (''idMember'', PString [])] \<and>
   req_query (fst (updateCheckItem env sample_credentials ''c1'' ''i1'' sample_checkitem_update)) =
     [(''key'', ''k''), (''token'', ''t'')]"
  by (simp add: updateCard_def updateCard_params_def statements_def no_card_update_def
      updateCheckItem_def updateCheckItem_params_def sample_checkitem_update_def
      set_if_truthy_def set_if_defined_def set_if_defined_as_def null_to_empty_def
      fst_request build_request_def request_params_def add_entry_def getAuthParams_def
      sample_credentials_def API_BASE_URL_def params_toString_def form_encode_def
      form_encode_char_def is_alnum_def Let_def)

text \<open>
  Claim C5. The derived operations are the primitive updates on these inputs:
  \<open>archiveList\<close> and \<open>unarchiveList\<close> are \<open>updateList\<close> with \<open>{closed: true}\<close> and
  \<open>{closed: false}\<close>; \<open>archiveCard\<close> and \<open>unarchiveCard\<close> are \<open>updateCard\<close> with the same;
  \<open>moveCard(cardId, idList, idBoard?)\<close> is \<open>updateCard\<close> with \<open>idList\<close>, with \<open>idBoard\<close> when it
  is supplied, and with no other field.
\<close>

theorem derived_operations:
  "archiveList env c listId =
     updateList env c listId
       \<lparr> lu_name = None, lu_closed = Some True, lu_idBoard = None, lu_pos = None,
         lu_subscribed = None \<rparr> \<and>
   unarchiveList env c listId =
     updateList env c listId
       \<lparr> lu_name = None, lu_closed = Some False, lu_idBoard = None, lu_pos = None,
         lu_subscribed = None \<rparr> \<and>
   archiveCard env c cardId =
     updateCard env c cardId
       \<lparr> cu_name = None, cu_desc = None, cu_closed = Some True, cu_idList = None,
         cu_idBoard = None, cu_pos = None, cu_due = None, cu_start = None,
         cu_dueComplete = None, cu_subscribed = None, cu_idMembers = None,
         cu_idLabels = None, cu_cover = None \<rparr> \<and>
   unarchiveCard env c cardId =
     updateCard env c cardId
       \<lparr> cu_name = None, cu_desc = None, cu_closed = Some False, cu_idList = None,
         cu_idBoard = None, cu_pos = None, cu_due = None, cu_start = None,
         cu_dueComplete = None, cu_subscribed = None, cu_idMembers = None,
         cu_idLabels = None, cu_cover = None \<rparr> \<and>
   moveCard env c cardId idList idBoard =
     updateCard env c cardId
       \<lparr> cu_name = None, cu_desc = None, cu_closed = None, cu_idList = Some idList,
         cu_idBoard = idBoard, cu_pos = None, cu_due = None, cu_start = None,
         cu_dueComplete = None, cu_subscribed = None, cu_idMembers = None,
         cu_idLabels = None, cu_cover = None \<rparr>"
proof (intro conjI)
  show "moveCard env c cardId idList idBoard =
     updateCard env c cardId
       \<lparr> cu_name = None, cu_desc = None, cu_closed = None, cu_idList = Some idList,
         cu_idBoard = idBoard, cu_pos = None, cu_due = None, cu_start = None,
         cu_dueComplete = None, cu_subscribed = None, cu_idMembers = None,
         cu_idLabels = None, cu_cover = None \<rparr>"
    by (cases idBoard)
       (simp_all add: moveCard_def updateCard_def updateCard_params_def statements_def
          no_card_update_def set_if_truthy_def Let_def)
qed (simp_all add: archiveList_def unarchiveList_def archiveCard_def unarchiveCard_def
      no_list_update_def no_card_update_def)

lemma listing_params:
  "request_params c (Some [(''filter'', PString (filter_string f))]) =
     [(''key'', apiKey c), (''token'', token c), (''filter'', filter_string f)]"
  by (cases f)
     (simp_all add: request_params_def add_entry_def getAuthParams_def param_string_def
        filter_string_def)

lemma listing_url:
  assumes "CHR ''#'' \<notin> set e"
  shows "(\<exists>before. url_params (req_url (fst (request env c e opts
              (Some [(''filter'', PString (filter_string f))])))) =
            before @ [(''filter'', utf8 (filter_string f))]) \<and>
         (CHR ''?'' \<notin> set e \<longrightarrow>
            url_params (req_url (fst (request env c e opts
              (Some [(''filter'', PString (filter_string f))])))) =
            [(''key'', utf8 (apiKey c)), (''token'', utf8 (token c)),
             (''filter'', utf8 (filter_string f))])"
proof (intro conjI impI)
  let ?x = "Some [(''filter'', PString (filter_string f))]"
  from url_params_tail[OF _ assms, of "[(''token'', token c), (''filter'', filter_string f)]"
      "(''key'', apiKey c)"]
  obtain before where
    "url_params (req_url (fst (request env c e opts ?x))) =
       before @ [(utf8 ''token'', utf8 (token c)), (utf8 ''filter'', utf8 (filter_string f))]"
    unfolding fst_request url_of_build_request listing_params by auto
  then have "url_params (req_url (fst (request env c e opts ?x))) =
      (before @ [(utf8 ''token'', utf8 (token c))]) @ [(''filter'', utf8 (filter_string f))]"
    by (simp add: utf8_literal)
  then show "\<exists>before. url_params (req_url (fst (request env c e opts ?x))) =
      before @ [(''filter'', utf8 (filter_string f))]"
    by blast
  assume "CHR ''?'' \<notin> set e"
  from url_build_request[OF this, of c opts ?x] assms
  show "url_params (req_url (fst (request env c e opts ?x))) =
      [(''key'', utf8 (apiKey c)), (''token'', utf8 (token c)), (''filter'', utf8 (filter_string f))]"
    by (simp add: fst_request listing_params utf8_literal)
qed

text \<open>
  Claim C7, as amended. For each list-style read operation with a status filter, on an
  identifier that holds no \<open>#\<close>: without the filter argument the last parameter that the
  URL of the request carries is \<open>filter=open\<close>; with \<open>'all'\<close> it is \<open>filter=all\<close>, and what the
  operation returns is the classified upstream response as it is, so the client excludes
  nothing. When the identifier holds no \<open>?\<close> either, the URL carries the two credentials
  and this one \<open>filter\<close> parameter, and nothing else.
\<close>

theorem status_filter_default_and_all:
  assumes "CHR ''#'' \<notin> set i"
  shows "(\<forall>op \<in> set (status_listings i None).
      (\<exists>before. url_params (req_url (fst (perform env c op))) =
                  before @ [(''filter'', ''open'')]) \<and>
      (CHR ''?'' \<notin> set i \<longrightarrow>
         url_params (req_url (fst (perform env c op))) =
           [(''key'', utf8 (apiKey c)), (''token'', utf8 (token c)), (''filter'', ''open'')])) \<and>
   (\<forall>op \<in> set (status_listings i (Some All)).
      (\<exists>before. url_params (req_url (fst (perform env c op))) =
                  before @ [(''filter'', ''all'')]) \<and>
      (CHR ''?'' \<notin> set i \<longrightarrow>
         url_params (req_url (fst (perform env c op))) =
           [(''key'', utf8 (apiKey c)), (''token'', utf8 (token c)), (''filter'', ''all'')]) \<and>
      (\<forall>response. fetch env (fst (perform env c op)) = Responded response \<longrightarrow>
         snd (perform env c op) =
           (case handle_response env response of Inl e \<Rightarrow> Inl e | Inr v \<Rightarrow> Inr (Returned v))))"
proof -
  have o: "utf8 (filter_string Open) = ''open''" "utf8 (filter_string All) = ''all''"
    by (simp_all add: filter_string_def utf8_literal)
  have e: "\<And>pre post. CHR ''#'' \<notin> set pre \<Longrightarrow> CHR ''#'' \<notin> set post \<Longrightarrow>
      CHR ''#'' \<notin> set (pre @ i @ post)"
    using assms by simp
  have q: "\<And>pre post. CHR ''?'' \<notin> set pre \<Longrightarrow> CHR ''?'' \<notin> set post \<Longrightarrow>
      CHR ''?'' \<notin> set i \<Longrightarrow> CHR ''?'' \<notin> set (pre @ i @ post)"
    by simp
  have u: "\<And>pre post f. CHR ''#'' \<notin> set pre \<Longrightarrow> CHR ''#'' \<notin> set post \<Longrightarrow>
      CHR ''?'' \<notin> set pre \<Longrightarrow> CHR ''?'' \<notin> set post \<Longrightarrow>
      (\<exists>before. url_params (req_url (fst (request env c (pre @ i @ post) no_options
              (Some [(''filter'', PString (filter_string f))])))) =
            before @ [(''filter'', utf8 (filter_string f))]) \<and>
      (CHR ''?'' \<notin> set i \<longrightarrow>
            url_params (req_url (fst (request env c (pre @ i @ post) no_options
              (Some [(''filter'', PString (filter_string f))])))) =
            [(''key'', utf8 (apiKey c)), (''token'', utf8 (token c)),
             (''filter'', utf8 (filter_string f))])"
    using listing_url[OF e] q by simp
  have m: "\<And>f.
      (\<exists>before. url_params (req_url (fst (request env c ''/members/me/boards'' no_options
              (Some [(''filter'', PString (filter_string f))])))) =
            before @ [(''filter'', utf8 (filter_string f))]) \<and>
      url_params (req_url (fst (request env c ''/members/me/boards'' no_options
              (Some [(''filter'', PString (filter_string f))])))) =
            [(''key'', utf8 (apiKey c)), (''token'', utf8 (token c)),
             (''filter'', utf8 (filter_string f))]"
    using listing_url[of "''/members/me/boards''"] by simp
  show ?thesis
    using u[of "''/members/''" "''/boards''" Open] u[of "''/members/''" "''/boards''" All]
      u[of "''/boards/''" "''/lists''" Open] u[of "''/boards/''" "''/lists''" All]
      u[of "''/boards/''" "''/cards''" Open] u[of "''/boards/''" "''/cards''" All]
      u[of "''/lists/''" "''/cards''" Open] u[of "''/lists/''" "''/cards''" All]
      u[of "''/organizations/''" "''/boards''" Open] u[of "''/organizations/''" "''/boards''" All]
      m[of Open] m[of All]
    by (simp add: status_listings_def fst_returned returned_def getMemberBoards_def
        listBoards_def getBoardLists_def getBoardCards_def getListCards_def
        getOrganizationBoards_def o snd_request Let_def)
qed

text \<open>
  C7 as amended, at \<open>listBoards\<close> without a filter and at \<open>getListCards\<close> with \<open>'all'\<close>,
  against a platform that answers with the empty array.
\<close>

theorem status_filter_default_and_all_witness:
  "CHR ''#'' \<notin> set ''l1'' \<and> CHR ''?'' \<notin> set ''l1'' \<and>
   Boards (ListBoards None) \<in> set (status_listings ''l1'' None) \<and>
   req_url (fst (perform (answering (plain_response 200 None ''[]'')) sample_credentials
        (Boards (ListBoards None)))) =
     ''https://api.trello.com/1/members/me/boards?key=k&token=t&filter=open'' \<and>
   url_params (req_url (fst (perform (answering (plain_response 200 None ''[]''))
        sample_credentials (Boards (ListBoards None))))) =
     [(''key'', ''k''), (''token'', ''t''), (''filter'', ''open'')] \<and>
   Lists (GetListCards ''l1'' (Some All)) \<in> set (status_listings ''l1'' (Some All)) \<and>
   req_url (fst (perform (answering (plain_response 200 None ''[]'')) sample_credentials
        (Lists (GetListCards ''l1'' (Some All))))) =
     ''https://api.trello.com/1/lists/l1/cards?key=k&token=t&filter=all'' \<and>
   url_params (req_url (fst (perform (answering (plain_response 200 None ''[]''))
        sample_credentials (Lists (GetListCards ''l1'' (Some All)))))) =
     [(''key'', ''k''), (''token'', ''t''), (''filter'', ''all'')] \<and>
   snd (perform (answering (plain_response 200 None ''[]'')) sample_credentials
        (Lists (GetListCards ''l1'' (Some All)))) = Inr (Returned (Some (JArray [])))"
proof -
  let ?env = "answering (plain_response 200 None ''[]'')"
  have h0: "CHR ''#'' \<notin> set ''l1''"
    by simp
  have h5: "CHR ''?'' \<notin> set ''l1''"
    by simp
  have h1: "Boards (ListBoards None) \<in> set (status_listings ''l1'' None)"
    by (simp add: status_listings_def)
  have h2: "Lists (GetListCards ''l1'' (Some All)) \<in> set (status_listings ''l1'' (Some All))"
    by (simp add: status_listings_def)
  have h3: "fetch ?env (fst (perform ?env sample_credentials (Lists (GetListCards ''l1'' (Some All))))) =
      Responded (plain_response 200 None ''[]'')"
    by (simp add: answering_def)
  have h4: "handle_response ?env (plain_response 200 None ''[]'') = Inr (Some (JArray []))"
    by (simp add: handle_response_def plain_response_def ok_def answering_def)
  have c: "utf8 (apiKey sample_credentials) = ''k''" "utf8 (token sample_credentials) = ''t''"
    by (simp_all add: sample_credentials_def utf8_literal)
  have u1: "req_url (fst (perform ?env sample_credentials (Boards (ListBoards None)))) =
     ''https://api.trello.com/1/members/me/boards?key=k&token=t&filter=open''"
    by (simp add: fst_returned listBoards_def getMemberBoards_def filter_string_def fst_request
        build_request_def
        request_params_def getAuthParams_def add_entry_def param_string_def
        sample_credentials_def API_BASE_URL_def params_toString_def form_encode_def
        form_encode_char_def is_alnum_def Let_def)
  have u2: "req_url (fst (perform ?env sample_credentials (Lists (GetListCards ''l1'' (Some All))))) =
     ''https://api.trello.com/1/lists/l1/cards?key=k&token=t&filter=all''"
    by (simp add: fst_returned getListCards_def filter_string_def fst_request build_request_def
        request_params_def getAuthParams_def add_entry_def param_string_def
        sample_credentials_def API_BASE_URL_def params_toString_def form_encode_def
        form_encode_char_def is_alnum_def Let_def)
  note t = status_filter_default_and_all[OF h0, of ?env sample_credentials]
  from t h1 h5 have "url_params (req_url (fst (perform ?env sample_credentials
        (Boards (ListBoards None))))) =
      [(''key'', utf8 (apiKey sample_credentials)), (''token'', utf8 (token sample_credentials)),
       (''filter'', ''open'')]"
    by blast
  moreover from t h2 h5 have "url_params (req_url (fst (perform ?env sample_credentials
        (Lists (GetListCards ''l1'' (Some All)))))) =
      [(''key'', utf8 (apiKey sample_credentials)), (''token'', utf8 (token sample_credentials)),
       (''filter'', ''all'')]"
    by blast
  moreover from t h2 h3 have "snd (perform ?env sample_credentials
        (Lists (GetListCards ''l1'' (Some All)))) =
      (case handle_response ?env (plain_response 200 None ''[]'') of
         Inl e \<Rightarrow> Inl e | Inr v \<Rightarrow> Inr (Returned v))"
    by blast
  ultimately show ?thesis using h0 h5 h1 h2 h4 u1 u2 c by simp
qed

text \<open>
  An identifier that brings a query of its own puts its parameters in front:
  \<open>getBoardLists\<close> on the identifier \<open>b?filter=closed&x\<close> without a filter is sent to a URL
  that carries \<open>filter=closed\<close> ahead of \<open>filter=open\<close>.
\<close>

lemma status_filter_after_query_of_identifier:
  "req_url (fst (perform env sample_credentials (Boards (GetBoardLists ''b?filter=closed&x'' None)))) =
     ''https://api.trello.com/1/boards/b?filter=closed&x/lists?key=k&token=t&filter=open'' \<and>
   url_params (req_url (fst (perform env sample_credentials
        (Boards (GetBoardLists ''b?filter=closed&x'' None))))) =
     [(''filter'', ''closed''), (''x/lists?key'', ''k''), (''token'', ''t''), (''filter'', ''open'')]"
proof -
  have u: "req_url (fst (perform env sample_credentials
        (Boards (GetBoardLists ''b?filter=closed&x'' None)))) =
     ''https://api.trello.com/1/boards/b?filter=closed&x/lists?key=k&token=t&filter=open''"
    by (simp add: fst_returned getBoardLists_def filter_string_def fst_request build_request_def
        request_params_def getAuthParams_def add_entry_def param_string_def
        sample_credentials_def API_BASE_URL_def params_toString_def form_encode_def
        form_encode_char_def is_alnum_def Let_def)
  show ?thesis
    unfolding u
    by (simp add: url_params_def url_query_def url_input_def is_c0_or_space_def
        is_tab_or_newline_def form_decode.simps is_hex_def hex_value_def utf8_char_def)
qed

text \<open>
  C7 as first stated fails where the identifier brings a fragment: \<open>getBoardLists\<close> on the
  identifier \<open>b#x\<close> without a filter is sent to a URL whose query is part of the fragment,
  which is not sent, so that the request carries no \<open>filter\<close> parameter at all.
\<close>

theorem status_filter_lost:
  "Boards (GetBoardLists ''b#x'' None) \<in> set (status_listings ''b#x'' None) \<and>
   req_url (fst (perform (answering (plain_response 200 None ''[]'')) sample_credentials
        (Boards (GetBoardLists ''b#x'' None)))) =
     ''https://api.trello.com/1/boards/b#x/lists?key=k&token=t&filter=open'' \<and>
   url_query (req_url (fst (perform (answering (plain_response 200 None ''[]''))
        sample_credentials (Boards (GetBoardLists ''b#x'' None))))) = [] \<and>
   url_params (req_url (fst (perform (answering (plain_response 200 None ''[]''))
        sample_credentials (Boards (GetBoardLists ''b#x'' None))))) = []"
proof -
  let ?env = "answering (plain_response 200 None ''[]'')"
  have u1: "req_url (fst (perform ?env sample_credentials (Boards (GetBoardLists ''b#x'' None)))) =
     ''https://api.trello.com/1/boards/b#x/lists?key=k&token=t&filter=open''"
    by (simp add: fst_returned getBoardLists_def filter_string_def fst_request build_request_def
        request_params_def getAuthParams_def add_entry_def param_string_def
        sample_credentials_def API_BASE_URL_def params_toString_def form_encode_def
        form_encode_char_def is_alnum_def Let_def)
  have p1: "url_query ''https://api.trello.com/1/boards/b#x/lists?key=k&token=t&filter=open'' = []"
    by (simp add: url_query_def url_input_def is_c0_or_space_def is_tab_or_newline_def)
  show ?thesis
    unfolding u1 url_params_def p1 by (simp add: status_listings_def)
qed

section \<open>Rendered tables\<close>

lemma capitalize_boards: "capitalize ''boards'' = ''Boards''"
  by (simp add: capitalize_def toUpperCase_char_def)

lemma capitalize_checklists: "capitalize ''checklists'' = ''Checklists''"
  by (simp add: capitalize_def toUpperCase_char_def)

text \<open>
  Claim C8 says that the markdown of a list of boards has one table row for each board.
  The boards table does not escape the name (the defect of claim C2), so a board whose
  name holds a line feed fills two rows: the markdown of the one board
  \<open>sample_split_board\<close> counts one board and shows two rows, and its table is, code unit
  for code unit, the table of the two boards of \<open>sample_boards\<close>.
\<close>

theorem board_name_splits_row:
  "formatArrayAsMarkdown id (BoardArray [sample_split_board]) ''boards'' =
     Some (''## Boards'' @ [CHR 0x0A] @
           ''**Count:** 1'' @ [CHR 0x0A, CHR 0x0A] @
           ''| Name | ID | Status | URL |'' @ [CHR 0x0A] @
           ''|---|---|---|---|'' @ [CHR 0x0A] @
           ''| Roadmap | '' @ [CHR 0x60] @ ''b1'' @ [CHR 0x60] @
             '' | Open | https://trello.com/b/r |'' @ [CHR 0x0A] @
           ''| Archive | '' @ [CHR 0x60] @ ''b2'' @ [CHR 0x60] @
             '' | Closed | https://trello.com/b/a |'') \<and>
   formatBoardsTable [sample_split_board] = formatBoardsTable sample_boards \<and>
   length [sample_split_board] = 1 \<and>
   length sample_boards = 2"
  by (simp add: formatArrayAsMarkdown_def entity_table_def array_length_def capitalize_boards
      formatBoardsTable_def join_lines_def newline_def backtick_def sample_split_board_def
      sample_boards_def nat_to_decimal.simps digit_char_def)

lemma count_complete:
  "length (filter (\<lambda>item. item_state item = s) items) = count_list (map item_state items) s"
  by (induction items) auto

lemma join_terminated: "join [sep] (xs @ [[]]) = concat (map (\<lambda>l. l @ [sep]) xs)"
proof (induction xs)
  case Nil
  then show ?case by simp
next
  case (Cons x xs)
  then show ?case by (cases xs) simp_all
qed

lemma join_butlast:
  assumes "ls \<noteq> []" "last ls = []"
  shows "join [sep] ls = butlast (concat (map (\<lambda>l. l @ [sep]) ls))"
proof -
  from assms obtain init where i: "ls = init @ [[]]"
    by (metis append_butlast_last_id)
  show ?thesis
    unfolding i join_terminated by (simp add: butlast_append)
qed

lemma concat_map_concat:
  "concat (map f (concat xss)) = concat (map (\<lambda>xs. concat (map f xs)) xss)"
  by (induction xss) simp_all

lemma last_checklist_lines: "last (checklist_lines cl) = []"
  by (simp add: checklist_lines_def Let_def)

lemma last_all_lines:
  assumes "cls \<noteq> []"
  shows "concat (map checklist_lines cls) \<noteq> [] \<and> last (concat (map checklist_lines cls)) = []"
proof -
  from assms obtain init cl where c: "cls = init @ [cl]"
    by (metis append_butlast_last_id)
  have n: "checklist_lines cl \<noteq> []"
    by (simp add: checklist_lines_def Let_def)
  with last_checklist_lines[of cl] show ?thesis
    unfolding c by simp
qed

lemma entry_on_a_line:
  assumes "x \<in> set xs"
  shows "\<exists>pre post. (start @ [nl]) @ concat (map (\<lambda>y. g y @ [nl]) xs) =
     pre @ [nl] @ g x @ [nl] @ post"
  using assms
proof (induction xs arbitrary: start)
  case Nil
  then show ?case by simp
next
  case (Cons y ys)
  show ?case
  proof (cases "x = y")
    case True
    have "(start @ [nl]) @ concat (map (\<lambda>y. g y @ [nl]) (y # ys)) =
        start @ [nl] @ g x @ [nl] @ concat (map (\<lambda>y. g y @ [nl]) ys)"
      using True by simp
    then show ?thesis by blast
  next
    case False
    with Cons.prems have "x \<in> set ys" by simp
    from Cons.IH[OF this, of "start @ [nl] @ g y"] obtain pre post where
      "((start @ [nl] @ g y) @ [nl]) @ concat (map (\<lambda>y. g y @ [nl]) ys) =
         pre @ [nl] @ g x @ [nl] @ post"
      by blast
    then have "(start @ [nl]) @ concat (map (\<lambda>y. g y @ [nl]) (y # ys)) =
        pre @ [nl] @ g x @ [nl] @ post"
      by simp
    then show ?thesis by blast
  qed
qed

text \<open>
  Claim C9. The markdown of a list of checklists is, for each checklist in order, a
  heading line with \<open>(completed/total)\<close>, a line with its identifier, an empty line, one line
  for each of its items (or the line \<open>_No items_\<close>) and an empty line; the last line feed
  of the text is left out. Completed is the number of items whose state is \<open>complete\<close>, total
  the number of items, both as decimal numerals. The line of an item has \<open>[x]\<close> when its
  state is \<open>complete\<close> and \<open>[ ]\<close> otherwise. So the text holds the heading of every
  checklist, followed by a line feed, and the entry of every item on a line of its own. A
  name is on one line, since escaping leaves no line feed in it.
\<close>

theorem checklists_markdown:
  "formatChecklistsTable checklists =
     butlast (concat (map
       (\<lambda>cl. ''### '' @ escapeMarkdown (checklist_name cl) @ '' ('' @
                nat_to_decimal (count_list (map item_state (checkItems cl)) ''complete'') @
                ''/'' @ nat_to_decimal (length (checkItems cl)) @ '')'' @ [CHR 0x0A] @
              ''**ID:** '' @ [CHR 0x60] @ checklist_id cl @ [CHR 0x60] @ [CHR 0x0A] @
              [CHR 0x0A] @
              (if checkItems cl = [] then ''_No items_'' @ [CHR 0x0A]
               else concat (map
                      (\<lambda>item. (''- '' @ (if item_state item = ''complete'' then ''[x]'' else ''[ ]'') @
                                '' '' @ escapeMarkdown (item_name item)) @ [CHR 0x0A])
                      (checkItems cl))) @
              [CHR 0x0A])
       checklists)) \<and>
   (checklists \<noteq> [] \<longrightarrow>
      formatArrayAsMarkdown toLocaleDateString (ChecklistArray checklists) ''checklists'' =
        Some (''## Checklists'' @ [CHR 0x0A] @
              ''**Count:** '' @ nat_to_decimal (length checklists) @ [CHR 0x0A] @
              [CHR 0x0A] @
              formatChecklistsTable checklists)) \<and>
   (\<forall>cl \<in> set checklists.
      (\<exists>pre post. formatChecklistsTable checklists =
         pre @
         (''### '' @ escapeMarkdown (checklist_name cl) @ '' ('' @
            nat_to_decimal (count_list (map item_state (checkItems cl)) ''complete'') @
            ''/'' @ nat_to_decimal (length (checkItems cl)) @ '')'') @
         [CHR 0x0A] @ post) \<and>
      (\<forall>item \<in> set (checkItems cl).
         \<exists>pre post. formatChecklistsTable checklists =
           pre @ [CHR 0x0A] @
           (''- '' @ (if item_state item = ''complete'' then ''[x]'' else ''[ ]'') @
              '' '' @ escapeMarkdown (item_name item)) @
           [CHR 0x0A] @ post)) \<and>
   (\<forall>n. digits_value (nat_to_decimal n) = n) \<and>
   (\<forall>t. CHR 0x0A \<notin> set (escapeMarkdown t))"
proof -
  let ?heading = "\<lambda>cl. ''### '' @ escapeMarkdown (checklist_name cl) @ '' ('' @
                nat_to_decimal (count_list (map item_state (checkItems cl)) ''complete'') @
                ''/'' @ nat_to_decimal (length (checkItems cl)) @ '')''"
  let ?entry = "\<lambda>item. ''- '' @ (if item_state item = ''complete'' then ''[x]'' else ''[ ]'') @
                                '' '' @ escapeMarkdown (item_name item)"
  let ?block = "\<lambda>cl. ?heading cl @ [CHR 0x0A] @
              ''**ID:** '' @ [CHR 0x60] @ checklist_id cl @ [CHR 0x60] @ [CHR 0x0A] @
              [CHR 0x0A] @
              (if checkItems cl = [] then ''_No items_'' @ [CHR 0x0A]
               else concat (map (\<lambda>item. ?entry item @ [CHR 0x0A]) (checkItems cl))) @
              [CHR 0x0A]"
  let ?out = "formatChecklistsTable checklists"
  have block: "\<And>cl. concat (map (\<lambda>l. l @ [CHR 0x0A]) (checklist_lines cl)) = ?block cl"
    by (simp add: checklist_lines_def count_complete backtick_def Let_def comp_def)
  have rendered: "?out = butlast (concat (map ?block checklists))"
  proof (cases "checklists = []")
    case True
    then show ?thesis by (simp add: formatChecklistsTable_def join_lines_def)
  next
    case False
    from last_all_lines[OF False] join_butlast[of "concat (map checklist_lines checklists)" "CHR 0x0A"]
    have "?out = butlast (concat (map (\<lambda>l. l @ [CHR 0x0A]) (concat (map checklist_lines checklists))))"
      by (simp add: formatChecklistsTable_def join_lines_def newline_def)
    then show ?thesis
      by (simp only: concat_map_concat map_map comp_def block)
  qed
  have array: "checklists \<noteq> [] \<longrightarrow>
      formatArrayAsMarkdown toLocaleDateString (ChecklistArray checklists) ''checklists'' =
        Some (''## Checklists'' @ [CHR 0x0A] @
              ''**Count:** '' @ nat_to_decimal (length checklists) @ [CHR 0x0A] @
              [CHR 0x0A] @ ?out)"
    by (simp add: formatArrayAsMarkdown_def entity_table_def array_length_def
        capitalize_checklists join_lines_def newline_def)
  have found: "\<forall>cl \<in> set checklists.
      (\<exists>pre post. ?out = pre @ ?heading cl @ [CHR 0x0A] @ post) \<and>
      (\<forall>item \<in> set (checkItems cl).
         \<exists>pre post. ?out = pre @ [CHR 0x0A] @ ?entry item @ [CHR 0x0A] @ post)"
  proof (intro ballI conjI)
    fix cl assume "cl \<in> set checklists"
    then obtain as bs where s: "checklists = as @ cl # bs"
      by (meson split_list)
    let ?a = "concat (map ?block as)" and ?b = "concat (map ?block bs)"
    let ?rest = "''**ID:** '' @ [CHR 0x60] @ checklist_id cl @ [CHR 0x60] @ [CHR 0x0A] @
              [CHR 0x0A] @
              (if checkItems cl = [] then ''_No items_'' @ [CHR 0x0A]
               else concat (map (\<lambda>item. ?entry item @ [CHR 0x0A]) (checkItems cl))) @
              [CHR 0x0A]"
    have all: "concat (map ?block checklists) = ?a @ ?block cl @ ?b"
      unfolding s by simp
    have "?out = butlast ((?a @ ?heading cl @ [CHR 0x0A]) @ (?rest @ ?b))"
      unfolding rendered all by simp
    also have "\<dots> = (?a @ ?heading cl @ [CHR 0x0A]) @ butlast (?rest @ ?b)"
      by (subst butlast_append) simp
    finally have "?out = ?a @ ?heading cl @ [CHR 0x0A] @ butlast (?rest @ ?b)"
      by simp
    then show "\<exists>pre post. ?out = pre @ ?heading cl @ [CHR 0x0A] @ post"
      by blast
    fix item assume i: "item \<in> set (checkItems cl)"
    then have ne: "checkItems cl \<noteq> []" by auto
    let ?start = "?a @ ?heading cl @ [CHR 0x0A] @
              ''**ID:** '' @ [CHR 0x60] @ checklist_id cl @ [CHR 0x60] @ [CHR 0x0A]"
    from entry_on_a_line[OF i, of ?start "CHR 0x0A" ?entry] obtain pre post where
      e: "(?start @ [CHR 0x0A]) @ concat (map (\<lambda>item. ?entry item @ [CHR 0x0A]) (checkItems cl)) =
          pre @ [CHR 0x0A] @ ?entry item @ [CHR 0x0A] @ post"
      by blast
    have "concat (map ?block checklists) =
        ((?start @ [CHR 0x0A]) @ concat (map (\<lambda>item. ?entry item @ [CHR 0x0A]) (checkItems cl))) @
        ([CHR 0x0A] @ ?b)"
      unfolding all using ne by simp
    then have "concat (map ?block checklists) =
        (pre @ [CHR 0x0A] @ ?entry item @ [CHR 0x0A] @ post) @ ([CHR 0x0A] @ ?b)"
      unfolding e .
    then have "?out = butlast ((pre @ [CHR 0x0A] @ ?entry item @ [CHR 0x0A] @ post) @ ([CHR 0x0A] @ ?b))"
      unfolding rendered by simp
    also have "\<dots> = (pre @ [CHR 0x0A] @ ?entry item @ [CHR 0x0A] @ post) @ butlast ([CHR 0x0A] @ ?b)"
      by (subst butlast_append) simp
    finally have "?out = pre @ [CHR 0x0A] @ ?entry item @ [CHR 0x0A] @ (post @ butlast ([CHR 0x0A] @ ?b))"
      by simp
    then show "\<exists>pre post. ?out = pre @ [CHR 0x0A] @ ?entry item @ [CHR 0x0A] @ post"
      by blast
  qed
  have digits: "\<forall>n. digits_value (nat_to_decimal n) = n"
    by (simp add: digits_value_nat_to_decimal)
  have escaped: "\<forall>t. CHR 0x0A \<notin> set (escapeMarkdown t)"
    by (auto simp: escapeMarkdown_def newline_def)
  from rendered array found digits escaped show ?thesis
    by (simp only: append_assoc) blast
qed

text \<open>C9 at one checklist with a complete and an incomplete item.\<close>

theorem checklists_markdown_witness:
  "[sample_checklist] \<noteq> [] \<and>
   sample_checklist \<in> set [sample_checklist] \<and>
   \<lparr> item_name = ''Review|sign'', item_state = ''incomplete'' \<rparr> \<in> set (checkItems sample_checklist) \<and>
   formatArrayAsMarkdown id (ChecklistArray [sample_checklist]) ''checklists'' =
     Some (''## Checklists'' @ [CHR 0x0A] @
           ''**Count:** 1'' @ [CHR 0x0A, CHR 0x0A] @
           ''### Launch (1/2)'' @ [CHR 0x0A] @
           ''**ID:** '' @ [CHR 0x60] @ ''cl1'' @ [CHR 0x60] @ [CHR 0x0A, CHR 0x0A] @
           ''- [x] Draft'' @ [CHR 0x0A] @
           ''- [ ] Review'' @ [CHR 0x5C] @ ''|sign'' @ [CHR 0x0A])"
proof -
  have h: "[sample_checklist] \<noteq> []" "sample_checklist \<in> set [sample_checklist]"
    "\<lparr> item_name = ''Review|sign'', item_state = ''incomplete'' \<rparr> \<in> set (checkItems sample_checklist)"
    by (simp_all add: sample_checklist_def)
  have d: "nat_to_decimal (Suc 0) = ''1''" "nat_to_decimal (Suc (Suc 0)) = ''2''"
    by (simp_all add: nat_to_decimal.simps digit_char_def)
  note t = checklists_markdown[of "[sample_checklist]" id]
  from t h(1) have "formatArrayAsMarkdown id (ChecklistArray [sample_checklist]) ''checklists'' =
        Some (''## Checklists'' @ [CHR 0x0A] @
              ''**Count:** '' @ nat_to_decimal (length [sample_checklist]) @ [CHR 0x0A] @
              [CHR 0x0A] @
              formatChecklistsTable [sample_checklist])"
    by blast
  moreover from t have "formatChecklistsTable [sample_checklist] =
      ''### Launch (1/2)'' @ [CHR 0x0A] @
      ''**ID:** '' @ [CHR 0x60] @ ''cl1'' @ [CHR 0x60] @ [CHR 0x0A, CHR 0x0A] @
      ''- [x] Draft'' @ [CHR 0x0A] @
      ''- [ ] Review'' @ [CHR 0x5C] @ ''|sign'' @ [CHR 0x0A]"
    by (simp add: sample_checklist_def escapeMarkdown_def newline_def d)
  ultimately show ?thesis using h by (simp add: d)
qed

text \<open>
  Claim C2 says that every text field is escaped before it enters a table cell. The boards
  table and the lists table do not escape the name: a bar or a line feed in it reaches
  the row as it is, while the organizations table (like the cards, labels and members
  tables) escapes it.
\<close>

theorem boards_table_leaves_names_unescaped:
  "formatBoardsTable
     [\<lparr> board_id = ''b1'', board_name = ''Q1|Q2'', board_closed = False,
        board_shortUrl = ''https://trello.com/b/x'' \<rparr>] =
     ''| Name | ID | Status | URL |'' @ [newline] @
     ''|---|---|---|---|'' @ [newline] @
     ''| Q1|Q2 | '' @ backtick @ ''b1'' @ backtick @ '' | Open | https://trello.com/b/x |'' \<and>
   formatListsTable
     [\<lparr> list_id = ''l1'', list_name = ''To'' @ [newline] @ ''do'', list_closed = False,
        list_pos = Integer 1 \<rparr>] =
     ''| Name | ID | Status | Position |'' @ [newline] @
     ''|---|---|---|---|'' @ [newline] @
     ''| To'' @ [newline] @ ''do | '' @ backtick @ ''l1'' @ backtick @ '' | Active | 1 |'' \<and>
   formatOrganizationsTable
     [\<lparr> org_id = ''o1'', org_displayName = ''Q1|Q2'', org_url = ''https://trello.com/w/x'' \<rparr>] =
     ''| Name | ID | URL |'' @ [newline] @
     ''|---|---|---|'' @ [newline] @
     ''| Q1'' @ [CHR 0x5C] @ ''|Q2 | '' @ backtick @ ''o1'' @ backtick @ '' | https://trello.com/w/x |''"
  by (simp add: formatBoardsTable_def formatListsTable_def formatOrganizationsTable_def
      join_lines_def escapeMarkdown_def newline_def String_number_def String_nat_def
      nat_to_decimal.simps
      digit_char_def)

end
